theory Spec2Isabelle
  imports Complex_Main "HOL-Library.Multiset"
begin

section \<open>JavaScript values used by the ScAIm engine\<close>

text \<open>
  Labels (severity, category, message, hostnames) are modelled as \<open>string\<close>; a
  character outside ASCII is written as its UTF-8 bytes. A property that may be absent
  (\<open>undefined\<close>) is an \<open>option\<close>. JavaScript's \<open>a || b\<close> on a string-or-undefined
  \<open>a\<close> yields \<open>b\<close> when \<open>a\<close> is \<open>undefined\<close> or the empty string.
\<close>

definition js_or :: "string option \<Rightarrow> string \<Rightarrow> string" where
  "js_or a d = (case a of None \<Rightarrow> d | Some s \<Rightarrow> if s = [] then d else s)"

definition em_dash :: string where
  "em_dash = [CHR 0xE2, CHR 0x80, CHR 0x94]"

text \<open>Decimal rendering of a number inside a template string or a concatenation.\<close>

definition digit_char :: "nat \<Rightarrow> char" where
  "digit_char d = char_of (of_char CHR ''0'' + d)"

fun string_of_nat :: "nat \<Rightarrow> string" where
  "string_of_nat n =
     (if 10 \<le> n then string_of_nat (n div 10) @ [digit_char (n mod 10)]
      else [digit_char n])"

declare string_of_nat.simps [simp del]

definition string_of_int :: "int \<Rightarrow> string" where
  "string_of_int i = (if i < 0 then ''-'' @ string_of_nat (nat (- i)) else string_of_nat (nat i))"

subsection \<open>Numbers: IEEE-754 binary64, round to nearest, ties to even\<close>

text \<open>
  A JavaScript number is a binary64 value. Finite values are modelled as the rational
  they denote; \<open>fl\<close> rounds a rational to the nearest value with a 53-bit significand
  (ties to even). Overflow, subnormals, infinities and \<open>NaN\<close> are outside the model:
  detector scores lie in \<open>[0,100]\<close> and the weights in \<open>[0.08,0.18]\<close>, where every
  intermediate result is a normal number.
\<close>

definition pow2 :: "int \<Rightarrow> rat" where
  "pow2 e = (if 0 \<le> e then 2 ^ nat e else 1 / 2 ^ nat (- e))"

text \<open>
  The exponent \<open>e\<close> with \<open>2 ^ e \<le> x < 2 ^ (e + 1)\<close> for a positive \<open>x\<close>, found by
  halving or doubling; the fuel covers the whole binary64 exponent range.
\<close>

fun binary_exponent_fuel :: "nat \<Rightarrow> rat \<Rightarrow> int" where
  "binary_exponent_fuel 0 x = 0"
| "binary_exponent_fuel (Suc n) x =
     (if 2 \<le> x then binary_exponent_fuel n (x / 2) + 1
      else if x < 1 then binary_exponent_fuel n (2 * x) - 1
      else 0)"

definition binary_exponent :: "rat \<Rightarrow> int" where
  "binary_exponent x = binary_exponent_fuel 1100 x"

definition ties_to_even :: "rat \<Rightarrow> int \<Rightarrow> int" where
  "ties_to_even q f =
     (if q - of_int f < 1 / 2 then f
      else if 1 / 2 < q - of_int f then f + 1
      else if even f then f else f + 1)"

definition round_half_even :: "rat \<Rightarrow> int" where
  "round_half_even q = ties_to_even q \<lfloor>q\<rfloor>"

definition round_to_ulp :: "rat \<Rightarrow> rat \<Rightarrow> rat" where
  "round_to_ulp u a = of_int (round_half_even (a / u)) * u"

definition fl :: "rat \<Rightarrow> rat" where
  "fl x =
     (if x = 0 then 0
      else sgn x * round_to_ulp (pow2 (binary_exponent \<bar>x\<bar> - 52)) \<bar>x\<bar>)"

definition js_mul :: "rat \<Rightarrow> rat \<Rightarrow> rat" where
  "js_mul a b = fl (a * b)"

definition js_add :: "rat \<Rightarrow> rat \<Rightarrow> rat" where
  "js_add a b = fl (a + b)"

section \<open>Data model\<close>

record finding =
  severity :: "string option"
  category :: "string option"
  message :: "string option"
  detail :: "string option"

text \<open>A detector's \<open>{ score, findings }\<close>; either property may be missing.\<close>

record detector_result =
  det_score :: "rat option"
  det_findings :: "finding list option"

datatype level = Safe | Caution | Warning | Danger

record assessment =
  level :: level
  score :: int
  findings :: "finding list"
  summary :: string
  allowlisted :: bool
  blocklisted :: bool

text \<open>
  The \<open>results\<close> object handed to the aggregator: its own properties in insertion
  order. A property whose value is \<open>null\<close> or \<open>undefined\<close> is \<open>None\<close>.
\<close>

type_synonym results = "(string \<times> detector_result option) list"

text \<open>
  The distinct elements of a list in the order of their first occurrence: the iteration
  order of a JavaScript \<open>Set\<close> built from the list, and of the keys of an object.
\<close>

definition insertion_order :: "'a list \<Rightarrow> 'a list" where
  "insertion_order xs = rev (remdups (rev xs))"

definition Object_keys :: "results \<Rightarrow> string list" where
  "Object_keys r = insertion_order (map fst r)"

definition get_result :: "results \<Rightarrow> string \<Rightarrow> detector_result option" where
  "get_result r k = (case map_of r k of None \<Rightarrow> None | Some v \<Rightarrow> v)"

section \<open>ScaimScoring\<close>

definition level_name :: "level \<Rightarrow> string" where
  "level_name l = (case l of Safe \<Rightarrow> ''safe'' | Caution \<Rightarrow> ''caution''
                   | Warning \<Rightarrow> ''warning'' | Danger \<Rightarrow> ''danger'')"

definition THRESHOLDS :: "level \<Rightarrow> int" where
  "THRESHOLDS l = (case l of Safe \<Rightarrow> 15 | Caution \<Rightarrow> 40 | Warning \<Rightarrow> 65 | Danger \<Rightarrow> 100)"

text \<open>The weight literals as written; the number each denotes is \<open>fl\<close> of it.\<close>

definition WEIGHTS :: "(string \<times> rat) list" where
  "WEIGHTS =
     [(''keywords'', 18 / 100),
      (''structural'', 14 / 100),
      (''phishing'', 14 / 100),
      (''socialEngineering'', 10 / 100),
      (''fakeEcommerce'', 10 / 100),
      (''cryptoScam'', 10 / 100),
      (''techSupport'', 8 / 100),
      (''romanceFee'', 8 / 100),
      (''maliciousDownload'', 8 / 100)]"

definition CRITICAL_ESCALATION_CATEGORIES :: "string list" where
  "CRITICAL_ESCALATION_CATEGORIES =
     [''External Form Action'',
      ''Href Spoofing'',
      ''Homoglyph Domain'',
      ''IP Address URL'',
      ''Obfuscated Code'',
      ''Seed Phrase Theft'',
      ''Wallet Impersonation'',
      ''Remote Access Tool'',
      ''BSOD Simulation'',
      ''Dangerous File Download'',
      ''Disguised File Extension'',
      ''Advance Fee Fraud'',
      ''419 Advance Fee Scam'']"

text \<open>\<open>results[key]?.score || 0\<close>\<close>

definition score_or_0 :: "results \<Rightarrow> string \<Rightarrow> rat" where
  "score_or_0 r k =
     (case get_result r k of None \<Rightarrow> 0
      | Some d \<Rightarrow> (case det_score d of None \<Rightarrow> 0 | Some s \<Rightarrow> s))"

text \<open>The loop over \<open>Object.entries(this.WEIGHTS)\<close>, before \<open>Math.ceil\<close>.\<close>

definition weightedScore :: "results \<Rightarrow> rat" where
  "weightedScore r =
     foldl (\<lambda>acc (key, weight). js_add acc (js_mul (score_or_0 r key) (fl weight))) 0 WEIGHTS"

text \<open>The loop over \<open>Object.keys(results)\<close> that fills \<open>allFindings\<close>.\<close>

definition findings_of :: "results \<Rightarrow> string \<Rightarrow> finding list" where
  "findings_of r k =
     (case get_result r k of None \<Rightarrow> []
      | Some d \<Rightarrow> (case det_findings d of None \<Rightarrow> [] | Some fs \<Rightarrow> fs))"

definition allFindings :: "results \<Rightarrow> finding list" where
  "allFindings r = concat (map (findings_of r) (Object_keys r))"

definition is_critical :: "finding \<Rightarrow> bool" where
  "is_critical f \<longleftrightarrow>
     severity f = Some ''critical''
     \<or> (case category f of None \<Rightarrow> False
         | Some c \<Rightarrow> c \<in> set CRITICAL_ESCALATION_CATEGORIES)"

definition hasCritical :: "finding list \<Rightarrow> bool" where
  "hasCritical fs = list_ex is_critical fs"

definition getLevel :: "int \<Rightarrow> level" where
  "getLevel s =
     (if s \<le> THRESHOLDS Safe then Safe
      else if s \<le> THRESHOLDS Caution then Caution
      else if s \<le> THRESHOLDS Warning then Warning
      else Danger)"

text \<open>
  \<open>severityOrder[f.severity] ?? 4\<close>, for a severity that does not name a member that an
  object literal inherits from \<open>Object.prototype\<close> (\<open>constructor\<close>, \<open>toString\<close>,
  \<open>valueOf\<close>, ...). For such a name the lookup finds the inherited member, the
  comparator returns \<open>NaN\<close>, and the place of the finding in the sorted array is left to
  the engine.
\<close>

definition severityOrder :: "string option \<Rightarrow> nat" where
  "severityOrder s =
     (if s = Some ''critical'' then 0
      else if s = Some ''high'' then 1
      else if s = Some ''medium'' then 2
      else if s = Some ''low'' then 3
      else 4)"

definition generateSummary :: "level \<Rightarrow> int \<Rightarrow> finding list \<Rightarrow> string" where
  "generateSummary l s fs =
     (let count = string_of_nat (length fs) in
      case l of
        Safe \<Rightarrow>
          (if length fs > 0
           then ''Page scanned '' @ em_dash @ '' '' @ count
                @ '' minor observation(s) noted, but no major concerns detected.''
           else ''Page scanned '' @ em_dash @ '' no concerns detected.'')
      | Caution \<Rightarrow>
          ''ScAIm detected '' @ count
          @ '' concern(s) on this page. Proceed with caution and avoid sharing sensitive information.''
      | Warning \<Rightarrow>
          ''ScAIm found '' @ count
          @ '' suspicious element(s) on this page. Be very careful before entering any personal or financial information.''
      | Danger \<Rightarrow>
          ''ScAIm strongly advises extreme caution. This page shows '' @ count
          @ '' sign(s) of a potential scam. Do not enter any personal or financial information.'')"

text \<open>
  The score after \<open>Math.ceil\<close>, the critical escalation and the clamp, as a function of
  the rounded weighted sum and of \<open>hasCritical\<close>.
\<close>

definition critical_escalation :: "bool \<Rightarrow> int \<Rightarrow> int" where
  "critical_escalation crit w = (if crit \<and> w < THRESHOLDS Caution + 1 then THRESHOLDS Caution + 1 else w)"

definition clamp :: "int \<Rightarrow> int" where
  "clamp w = min 100 (max 0 w)"

definition aggregate :: "results \<Rightarrow> assessment" where
  "aggregate r =
     (let w = \<lceil>weightedScore r\<rceil>;
          fs = allFindings r;
          w = critical_escalation (hasCritical fs) w;
          w = clamp w;
          l = getLevel w;
          sorted = sort_key (\<lambda>f. severityOrder (severity f)) fs
      in \<lparr>level = l, score = w, findings = sorted,
          summary = generateSummary l w sorted,
          allowlisted = False, blocklisted = False\<rparr>)"

subsection \<open>Partial result maps\<close>

text \<open>
  What a complete result map would hold in place of a missing entry: score \<open>0\<close> and no
  findings. \<open>with_defaults\<close> replaces every \<open>null\<close> entry and every missing field by
  that default and appends the detectors of \<open>WEIGHTS\<close> that are absent.
\<close>

definition zero_result :: detector_result where
  "zero_result = \<lparr>det_score = Some 0, det_findings = Some []\<rparr>"

definition default_entry :: "detector_result option \<Rightarrow> detector_result option" where
  "default_entry v =
     (case v of None \<Rightarrow> Some zero_result
      | Some d \<Rightarrow>
          Some \<lparr>det_score = Some (case det_score d of None \<Rightarrow> 0 | Some s \<Rightarrow> s),
                det_findings = Some (case det_findings d of None \<Rightarrow> [] | Some fs \<Rightarrow> fs)\<rparr>)"

definition with_defaults :: "results \<Rightarrow> results" where
  "with_defaults r =
     map (\<lambda>(k, v). (k, default_entry v)) r
     @ map (\<lambda>k. (k, Some zero_result)) (filter (\<lambda>k. k \<notin> set (map fst r)) (map fst WEIGHTS))"

definition well_formed_entry :: "detector_result option \<Rightarrow> bool" where
  "well_formed_entry v \<longleftrightarrow>
     (case v of None \<Rightarrow> False
      | Some d \<Rightarrow> det_score d \<noteq> None \<and> det_findings d \<noteq> None)"

subsection \<open>Concrete result maps\<close>

definition seed_phrase_finding :: finding where
  "seed_phrase_finding =
     \<lparr>severity = Some ''critical'', category = Some ''Seed Phrase Theft'',
      message = Some ''This page asks for your seed phrase.'', detail = None\<rparr>"

definition seed_phrase_results :: results where
  "seed_phrase_results =
     [(''cryptoScam'', Some \<lparr>det_score = Some 50, det_findings = Some [seed_phrase_finding]\<rparr>)]"

definition critical_only_results :: results where
  "critical_only_results =
     [(''structural'', Some \<lparr>det_score = Some 0, det_findings = Some [seed_phrase_finding]\<rparr>)]"

definition low_finding :: finding where
  "low_finding =
     \<lparr>severity = Some ''low'', category = Some ''Multiple Iframes'',
      message = Some ''This page embeds 4 iframes.'', detail = None\<rparr>"

definition partial_results :: results where
  "partial_results =
     [(''keywords'', None),
      (''structural'', Some \<lparr>det_score = None, det_findings = Some [low_finding]\<rparr>),
      (''phishing'', Some \<lparr>det_score = Some 30, det_findings = None\<rparr>)]"

definition uniform_40_results :: results where
  "uniform_40_results =
     map (\<lambda>k. (k, Some \<lparr>det_score = Some 40, det_findings = Some []\<rparr>)) (map fst WEIGHTS)"

section \<open>TextNormalizer\<close>

text \<open>
  Page and post text is a JavaScript string: a sequence of UTF-16 code units, each a
  natural number below \<open>65536\<close>. Neither regex of the normalizer has the \<open>u\<close> flag, so
  both work on single code units.
\<close>

type_synonym jsstring = "nat list"

definition ascii :: "string \<Rightarrow> jsstring" where
  "ascii s = map of_char s"

definition HOMOGLYPHS :: "(nat \<times> jsstring) list" where
  "HOMOGLYPHS =
     [(0x0430, ascii ''a''), (0x0435, ascii ''e''), (0x043E, ascii ''o''), (0x0440, ascii ''p''),
      (0x0441, ascii ''c''), (0x0443, ascii ''y''), (0x0445, ascii ''x''), (0x0456, ascii ''i''),
      (0x0457, ascii ''i''), (0x043A, ascii ''k''), (0x0432, ascii ''B''), (0x041D, ascii ''H''),
      (0x041C, ascii ''M''), (0x03B1, ascii ''a''), (0x03BF, ascii ''o''), (0x03C1, ascii ''p''),
      (0x0131, ascii ''i'')]"

text \<open>The character class of \<open>_INVISIBLE_RE\<close>.\<close>

definition INVISIBLE_RE :: "nat \<Rightarrow> bool" where
  "INVISIBLE_RE c \<longleftrightarrow>
     c = 0x0000 \<or> (0x200B \<le> c \<and> c \<le> 0x200F) \<or> c = 0x061C \<or> c = 0x180E
     \<or> (0x2060 \<le> c \<and> c \<le> 0x2064) \<or> c = 0xFEFF \<or> c = 0x00AD
     \<or> c = 0x17B4 \<or> c = 0x17B5"

text \<open>The character class of \<open>_HOMOGLYPH_RE\<close>.\<close>

definition HOMOGLYPH_RE :: "nat list" where
  "HOMOGLYPH_RE =
     [0x0430, 0x0435, 0x043E, 0x0440, 0x0441, 0x0443, 0x0445, 0x0456, 0x0457, 0x043A,
      0x0432, 0x041D, 0x041C, 0x03B1, 0x03BF, 0x03C1, 0x0131]"

text \<open>The replacement callback \<open>ch => glyphs[ch] || ch\<close>, for a matched code unit.\<close>

definition glyph_or_self :: "nat \<Rightarrow> jsstring" where
  "glyph_or_self ch =
     (case map_of HOMOGLYPHS ch of None \<Rightarrow> [ch]
      | Some g \<Rightarrow> if g = [] then [ch] else g)"

definition replace_homoglyph :: "nat \<Rightarrow> jsstring" where
  "replace_homoglyph c = (if c \<in> set HOMOGLYPH_RE then glyph_or_self c else [c])"

definition normalize :: "jsstring \<Rightarrow> jsstring" where
  "normalize text =
     (if text = [] then []
      else concat (map replace_homoglyph (filter (\<lambda>c. \<not> INVISIBLE_RE c) text)))"

text \<open>\<open>"\<close>Cyrillic er, Cyrillic a\<open>ypal"\<close> with a zero-width space after the first letter.\<close>

definition cyrillic_paypal :: jsstring where
  "cyrillic_paypal = [0x0440, 0x200B, 0x0430] @ ascii ''ypal''"

section \<open>DomainLists\<close>

definition toLowerCase_char :: "char \<Rightarrow> char" where
  "toLowerCase_char c =
     (if (65::nat) \<le> of_char c \<and> of_char c \<le> (90::nat)
      then char_of (of_char c + (32::nat)) else c)"

text \<open>\<open>String.prototype.toLowerCase\<close> on a hostname, which is ASCII.\<close>

definition toLowerCase :: "string \<Rightarrow> string" where
  "toLowerCase s = map toLowerCase_char s"

text \<open>\<open>s.split(sep)\<close> for a one-character separator: never empty, \<open>"".split(".") = [""]\<close>.\<close>

fun split :: "char \<Rightarrow> string \<Rightarrow> string list" where
  "split sep [] = [[]]"
| "split sep (c # cs) =
     (if c = sep then [] # split sep cs
      else (case split sep cs of [] \<Rightarrow> [[c]] | p # ps \<Rightarrow> (c # p) # ps))"

fun join :: "string \<Rightarrow> string list \<Rightarrow> string" where
  "join sep [] = []"
| "join sep [p] = p"
| "join sep (p # q # ps) = p @ sep @ join sep (q # ps)"

definition SHARED_HOSTING :: "string set" where
  "SHARED_HOSTING = set
     [''github.io'', ''gitlab.io'', ''netlify.app'', ''netlify.com'', ''vercel.app'',
      ''pages.dev'', ''herokuapp.com'', ''fly.dev'', ''railway.app'', ''render.com'',
      ''surge.sh'', ''firebaseapp.com'', ''web.app'', ''azurewebsites.net'',
      ''cloudfront.net'', ''amazonaws.com'', ''blogspot.com'', ''wordpress.com'',
      ''wixsite.com'', ''squarespace.com'', ''webflow.io'', ''carrd.co'',
      ''replit.dev'', ''glitch.me'', ''codepen.io'']"

text \<open>
  The loop \<open>for (let i = 1; i < parts.length - 1; i++)\<close> of \<open>isAllowed\<close>, from index \<open>i\<close>
  on; \<open>userAllowlist\<close> is the set \<open>_userAllowlist\<close>.
\<close>

function parent_allowed :: "string set \<Rightarrow> string list \<Rightarrow> nat \<Rightarrow> bool" where
  "parent_allowed userAllowlist parts i =
     (if i + 1 < length parts
      then (let parent = join ''.'' (drop i parts)
            in if parent \<in> SHARED_HOSTING then False
               else if parent \<in> userAllowlist then True
               else parent_allowed userAllowlist parts (i + 1))
      else False)"
  by pat_completeness auto
termination
  by (relation "measure (\<lambda>(a, parts, i). length parts - i)") auto

declare parent_allowed.simps [simp del]

definition isAllowed :: "string set \<Rightarrow> string \<Rightarrow> bool" where
  "isAllowed userAllowlist hostname =
     (let hostname = toLowerCase hostname
      in if hostname \<in> userAllowlist then True
         else parent_allowed userAllowlist (split CHR ''.'' hostname) 1)"

section \<open>ScaimBanner\<close>

definition VALID_SEV :: "string list" where
  "VALID_SEV = [''critical'', ''high'', ''medium'', ''low'']"

text \<open>\<open>_getLevelConfig\<close>: icon and title; \<open>configs[level] || configs.caution\<close>.\<close>

definition getLevelConfig :: "level \<Rightarrow> string \<times> string" where
  "getLevelConfig l =
     (case l of
        Warning \<Rightarrow> ([CHR 0xF0, CHR 0x9F, CHR 0x9A, CHR 0xA8], ''ScAIm '' @ em_dash @ '' Warning'')
      | Danger \<Rightarrow> ([CHR 0xF0, CHR 0x9F, CHR 0x9B, CHR 0x91], ''ScAIm '' @ em_dash @ '' Danger'')
      | _ \<Rightarrow> ([CHR 0xE2, CHR 0x9A, CHR 0xA0, CHR 0xEF, CHR 0xB8, CHR 0x8F],
               ''ScAIm '' @ em_dash @ '' Caution''))"

text \<open>One entry of the findings panel that \<open>_createBanner\<close> builds.\<close>

record finding_row =
  severity_class :: string
  severity_text :: string
  row_category :: "string option"
  row_message :: "string option"

definition finding_row_of :: "finding \<Rightarrow> finding_row" where
  "finding_row_of f =
     (let sev = (case severity f of None \<Rightarrow> ''medium''
                 | Some s \<Rightarrow> if s \<in> set VALID_SEV then s else ''medium'')
      in \<lparr>severity_class = ''scaim-finding-severity scaim-severity-'' @ sev,
          severity_text = sev,
          row_category = category f,
          row_message = message f\<rparr>)"

text \<open>The content of the banner element; listeners and layout nodes are left out.\<close>

record banner =
  banner_class :: string
  banner_icon :: string
  banner_title :: string
  score_badge :: string
  banner_summary :: string
  toggle_text :: string
  top_findings :: "string option list"
  finding_rows :: "finding_row list"

definition createBanner :: "assessment \<Rightarrow> banner" where
  "createBanner a =
     (let levelConfig = getLevelConfig (level a);
          topFindings = take 3 (findings a)
      in \<lparr>banner_class = ''scaim-'' @ level_name (level a),
          banner_icon = fst levelConfig,
          banner_title = snd levelConfig,
          score_badge = ''Score: '' @ string_of_int (score a) @ ''/100'',
          banner_summary = summary a,
          toggle_text = ''Show all findings ('' @ string_of_nat (length (findings a)) @ '')'',
          top_findings = map message topFindings,
          finding_rows = map finding_row_of (findings a)\<rparr>)"

section \<open>ScaimAnalyzer\<close>

text \<open>
  The orchestrator's state: \<open>_results\<close>, \<open>_bannerCallId\<close>, and what it has handed to its
  environment: the assessments sent to the background worker and the errors written to the
  console.
\<close>

record analyzer =
  results_slot :: "assessment option"
  bannerCallId :: nat
  sent :: "assessment list"
  console_errors :: "string list"

text \<open>The outcome of each detector's \<open>scan()\<close>: \<open>Inl\<close> is a thrown exception.\<close>

record scans =
  KeywordScanner_scan :: "string + detector_result"
  StructuralDetector_scan :: "string + detector_result"
  PhishingDetector_scan :: "string + detector_result"
  SocialEngineeringDetector_scan :: "string + detector_result"
  FakeEcommerceDetector_scan :: "string + detector_result"
  CryptoScamDetector_scan :: "string + detector_result"
  TechSupportScamDetector_scan :: "string + detector_result"
  RomanceFeeDetector_scan :: "string + detector_result"
  MaliciousDownloadDetector_scan :: "string + detector_result"

text \<open>The nine calls in the order of \<open>_analyze\<close>; the first exception ends the block.\<close>

fun run_all :: "(string \<times> (string + detector_result)) list \<Rightarrow> string + results" where
  "run_all [] = Inr []"
| "run_all ((key, out) # rest) =
     (case out of
        Inl err \<Rightarrow> Inl err
      | Inr res \<Rightarrow>
          (case run_all rest of
             Inl err \<Rightarrow> Inl err
           | Inr r \<Rightarrow> Inr ((key, Some res) # r)))"

definition detector_calls :: "scans \<Rightarrow> (string \<times> (string + detector_result)) list" where
  "detector_calls d =
     [(''keywords'', KeywordScanner_scan d),
      (''structural'', StructuralDetector_scan d),
      (''phishing'', PhishingDetector_scan d),
      (''socialEngineering'', SocialEngineeringDetector_scan d),
      (''fakeEcommerce'', FakeEcommerceDetector_scan d),
      (''cryptoScam'', CryptoScamDetector_scan d),
      (''techSupport'', TechSupportScamDetector_scan d),
      (''romanceFee'', RomanceFeeDetector_scan d),
      (''maliciousDownload'', MaliciousDownloadDetector_scan d)]"

definition is_social :: "finding \<Rightarrow> bool" where
  "is_social f =
     (case category f of None \<Rightarrow> False
      | Some c \<Rightarrow> c \<noteq> [] \<and> take (length ''Social: '') c = ''Social: '')"

definition showBannerIfAllowed :: "analyzer \<Rightarrow> analyzer" where
  "showBannerIfAllowed st = st\<lparr>bannerCallId := bannerCallId st + 1\<rparr>"

definition sendToBackground :: "assessment \<Rightarrow> analyzer \<Rightarrow> analyzer" where
  "sendToBackground a st = st\<lparr>sent := sent st @ [a]\<rparr>"

definition analyze :: "scans \<Rightarrow> analyzer \<Rightarrow> analyzer" where
  "analyze d st =
     (let existingSocialFindings =
            (case results_slot st of None \<Rightarrow> [] | Some r \<Rightarrow> filter is_social (findings r))
      in case run_all (detector_calls d) of
           Inl err \<Rightarrow> st\<lparr>console_errors := console_errors st @ [err]\<rparr>
         | Inr r \<Rightarrow>
             (let assessment = aggregate r;
                  existingCats = set (map category (findings assessment));
                  assessment =
                    assessment\<lparr>findings :=
                      findings assessment
                      @ filter (\<lambda>sf. category sf \<notin> existingCats) existingSocialFindings\<rparr>;
                  st = st\<lparr>results_slot := Some assessment\<rparr>;
                  st = sendToBackground assessment st
              in if level assessment \<noteq> Safe then showBannerIfAllowed st else st))"

text \<open>
  \<open>severityScore[f.severity] || 5\<close> in \<open>addSocialFindings\<close>, for a severity that does
  not name a member that an object literal inherits from \<open>Object.prototype\<close>. For such a
  name the lookup finds the inherited member, \<open>socialScore\<close> is not a number, and the
  stored score stays as it is.
\<close>

definition severityScore :: "string option \<Rightarrow> int" where
  "severityScore s =
     (if s = Some ''critical'' then 40
      else if s = Some ''high'' then 25
      else if s = Some ''medium'' then 15
      else if s = Some ''low'' then 5
      else 5)"

text \<open>The page-level finding made from a finding of the post scanner.\<close>

definition social_finding :: "finding \<Rightarrow> finding" where
  "social_finding f =
     \<lparr>severity = Some (js_or (severity f) ''medium''),
      category = Some (''Social: '' @ js_or (category f) ''Suspicious Content''),
      message = Some (js_or (detail f) (js_or (category f) ''Suspicious content detected in post'')),
      detail = None\<rparr>"

text \<open>The loop that pushes the findings whose category is not yet present.\<close>

fun merge_new :: "finding list \<Rightarrow> string option set \<Rightarrow> finding list \<Rightarrow> finding list" where
  "merge_new fs existingCategories [] = fs"
| "merge_new fs existingCategories (f # new) =
     (if category f \<notin> existingCategories
      then merge_new (fs @ [f]) (insert (category f) existingCategories) new
      else merge_new fs existingCategories new)"

definition update_level :: "assessment \<Rightarrow> assessment" where
  "update_level a =
     (if score a \<ge> 70
      then a\<lparr>level := Danger,
             summary := ''Scam content detected in posts/messages on this page.''\<rparr>
      else if score a \<ge> 40
      then a\<lparr>level := Warning,
             summary := ''Suspicious content found in posts/messages on this page.''\<rparr>
      else if score a \<ge> 15
      then a\<lparr>level := Caution,
             summary := ''Some suspicious content detected in posts/messages.''\<rparr>
      else a)"

definition merge_social :: "finding list \<Rightarrow> assessment \<Rightarrow> assessment" where
  "merge_social fs a =
     (let newFindings = map social_finding fs;
          merged = merge_new (findings a) (set (map category (findings a))) newFindings;
          socialScore = min (sum_list (map (\<lambda>f. severityScore (severity f)) merged)) 100;
          a = a\<lparr>findings := merged\<rparr>;
          a = (if socialScore > score a then a\<lparr>score := socialScore\<rparr> else a)
      in update_level a)"

definition addSocialFindings :: "finding list \<Rightarrow> analyzer \<Rightarrow> analyzer" where
  "addSocialFindings fs st =
     (if fs = [] then st
      else
        (let base = (case results_slot st of
                       None \<Rightarrow> \<lparr>level = Safe, score = 0, findings = [], summary = '''',
                                 allowlisted = False, blocklisted = False\<rparr>
                     | Some r \<Rightarrow> r);
             r = merge_social fs base;
             st = st\<lparr>results_slot := Some r\<rparr>;
             st = (if level r \<noteq> Safe then showBannerIfAllowed st else st)
         in sendToBackground r st))"

section \<open>SocialMediaScanner: the inline warning\<close>

text \<open>
  The \<open>severityOrder\<close> table of \<open>_injectWarning\<close>; \<open>0\<close> stands for a missing entry.
  For a name inherited from \<open>Object.prototype\<close> the lookup of the code is truthy and
  every comparison with it is false, so that the reducer keeps \<open>max\<close>; so it does here,
  where such a severity counts as \<open>low\<close> and \<open>max\<close>, which starts as \<open>low\<close>, is always
  of the table.
\<close>

definition warning_rank :: "string \<Rightarrow> nat" where
  "warning_rank s =
     (if s = ''critical'' then 4
      else if s = ''high'' then 3
      else if s = ''medium'' then 2
      else if s = ''low'' then 1
      else 0)"

text \<open>The reducer that computes \<open>maxSeverity\<close>.\<close>

definition max_step :: "string \<Rightarrow> finding \<Rightarrow> string" where
  "max_step mx f =
     (let sev = (case severity f of None \<Rightarrow> ''low''
                 | Some s \<Rightarrow> if warning_rank s \<noteq> 0 then s else ''low'')
      in if warning_rank sev > warning_rank mx then sev else mx)"

definition maxSeverity :: "finding list \<Rightarrow> string" where
  "maxSeverity fs = foldl max_step ''low'' fs"

text \<open>A value inside a template string, and as an element of \<open>Array.prototype.join\<close>.\<close>

definition template :: "string option \<Rightarrow> string" where
  "template v = (case v of None \<Rightarrow> ''undefined'' | Some s \<Rightarrow> s)"

definition join_element :: "string option \<Rightarrow> string" where
  "join_element v = (case v of None \<Rightarrow> [] | Some s \<Rightarrow> s)"

definition warning_message :: "finding list \<Rightarrow> string" where
  "warning_message fs =
     (let categories = insertion_order (map category fs);
          details = filter (\<lambda>d. d \<noteq> []) (map (join_element \<circ> detail) fs)
      in if length categories = 1
         then ''ScAIm: '' @ template (hd categories)
              @ (if length details > 0 then '' '' @ em_dash @ '' '' @ hd details else [])
         else ''ScAIm detected '' @ string_of_nat (length fs) @ '' warning(s): ''
              @ join '', '' (map join_element (take 3 categories))
              @ (if length categories > 3
                 then '' +'' @ string_of_nat (length categories - 3) @ '' more'' else []))"

record post_warning =
  warning_class :: string
  warning_icon :: string
  warning_text :: string

definition injectWarning :: "finding list \<Rightarrow> post_warning" where
  "injectWarning fs =
     (let mx = maxSeverity fs
      in \<lparr>warning_class = ''scaim-post-warning scaim-post-'' @ mx,
          warning_icon =
            (if mx = ''critical'' then [CHR 0xF0, CHR 0x9F, CHR 0x9B, CHR 0x91]
             else if mx = ''high'' then [CHR 0xF0, CHR 0x9F, CHR 0x9A, CHR 0xA8]
             else [CHR 0xE2, CHR 0x9A, CHR 0xA0, CHR 0xEF, CHR 0xB8, CHR 0x8F]),
          warning_text = warning_message fs\<rparr>)"

subsection \<open>Concrete analyzer inputs\<close>

definition fresh_analyzer :: analyzer where
  "fresh_analyzer = \<lparr>results_slot = None, bannerCallId = 0, sent = [], console_errors = []\<rparr>"

definition external_form_finding :: finding where
  "external_form_finding =
     \<lparr>severity = Some ''critical'', category = Some ''External Form Action'',
      message = Some ''Form #1 submits data to a different domain.'', detail = None\<rparr>"

definition keyword_scanner_throws :: scans where
  "keyword_scanner_throws =
     \<lparr>KeywordScanner_scan = Inl ''TypeError'',
      StructuralDetector_scan =
        Inr \<lparr>det_score = Some 30, det_findings = Some [external_form_finding]\<rparr>,
      PhishingDetector_scan = Inr zero_result,
      SocialEngineeringDetector_scan = Inr zero_result,
      FakeEcommerceDetector_scan = Inr zero_result,
      CryptoScamDetector_scan = Inr zero_result,
      TechSupportScamDetector_scan = Inr zero_result,
      RomanceFeeDetector_scan = Inr zero_result,
      MaliciousDownloadDetector_scan = Inr zero_result\<rparr>"

definition bogus_finding :: finding where
  "bogus_finding =
     \<lparr>severity = Some ''bogus'', category = Some ''Shortened URL'',
      message = None, detail = Some ''Link uses URL shortener''\<rparr>"

definition bogus_results :: results where
  "bogus_results =
     [(''keywords'', Some \<lparr>det_score = Some 10, det_findings = Some [bogus_finding]\<rparr>)]"

definition dm_finding :: finding where
  "dm_finding =
     \<lparr>severity = Some ''low'', category = Some ''DM Solicitation'',
      message = None, detail = None\<rparr>"

definition mlm_finding :: finding where
  "mlm_finding =
     \<lparr>severity = Some ''low'', category = Some ''MLM/Pyramid'',
      message = None, detail = None\<rparr>"

section \<open>StructuralDetector and PhishingDetector on forms\<close>

text \<open>
  What the two detectors read of a \<open><form>\<close>: its \<open>action\<close> attribute and
  its \<open>method\<close> attribute, here \<open>method_attr\<close>
  (\<open>None\<close> when \<open>getAttribute\<close> returns \<open>null\<close>), the number of hidden inputs and of
  password inputs, and whether the selector
  \<open>input[type="email"], input[name*="email"], input[name*="user"], input[name*="login"]\<close>
  matches inside it.
\<close>

record form =
  action :: "string option"
  method_attr :: "string option"
  hidden_inputs :: nat
  password_inputs :: nat
  email_or_user_input :: bool

text \<open>\<open>window.location\<close> and the forms of the document.\<close>

record page =
  href :: string
  hostname :: string
  protocol :: string
  forms :: "form list"

text \<open>
  \<open>new URL(input, base).hostname\<close> is the browser's; it is a parameter of the model.
  \<open>None\<close> stands for the \<open>TypeError\<close> thrown on an unparseable URL.
\<close>

type_synonym url_parser = "string \<Rightarrow> string \<Rightarrow> string option"

text \<open>A sub-check returns a score and pushes findings: the pair of both.\<close>

type_synonym check = "nat \<times> finding list"

definition double_quote :: string where
  "double_quote = [CHR 0x22]"

definition no_hit :: check where
  "no_hit = (0, [])"

definition both :: "check \<Rightarrow> check \<Rightarrow> check" where
  "both a b = (fst a + fst b, snd a @ snd b)"

definition hit :: "nat \<Rightarrow> string \<Rightarrow> string \<Rightarrow> string \<Rightarrow> check" where
  "hit points sev cat msg =
     (points, [\<lparr>severity = Some sev, category = Some cat, message = Some msg, detail = None\<rparr>])"

text \<open>The body of the \<open>forms.forEach\<close> callback of \<open>_checkForms\<close>, for form number \<open>i\<close>.\<close>

definition check_form :: "url_parser \<Rightarrow> page \<Rightarrow> nat \<Rightarrow> form \<Rightarrow> check" where
  "check_form URL p i form =
     (let act = js_or (action form) [];
          meth = toLowerCase (js_or (method_attr form) ''get'');
          number = string_of_nat (i + 1);
          external =
            (if act \<noteq> [] \<and> meth = ''post''
             then (case URL act (href p) of
                     Some actionHost \<Rightarrow>
                       if actionHost \<noteq> hostname p
                       then hit 30 ''critical'' ''External Form Action''
                              (''Form #'' @ number @ '' submits data to a different domain (''
                               @ actionHost @ '') '' @ em_dash
                               @ '' this is a common phishing technique where your data is sent to an attacker-controlled server.'')
                       else no_hit
                   | None \<Rightarrow>
                       hit 10 ''medium'' ''Malformed Form''
                         (''Form #'' @ number @ '' has a malformed action URL ('' @ double_quote
                          @ take 80 act @ double_quote @ '') '' @ em_dash
                          @ '' this could indicate sloppy development or an attempt to obfuscate the destination.''))
             else no_hit);
          hidden =
            (if hidden_inputs form > 0
             then hit (min 15 (hidden_inputs form * 3))
                    (if hidden_inputs form > 3 then ''high'' else ''medium'')
                    ''Hidden Form Fields''
                    (''Form #'' @ number @ '' contains '' @ string_of_nat (hidden_inputs form)
                     @ '' hidden input field(s) '' @ em_dash
                     @ '' hidden fields can silently collect and transmit data you can'' @ [CHR 0x27] @ ''t see.'')
             else no_hit);
          password =
            (if password_inputs form > 0 \<and> protocol p \<noteq> ''https:''
             then hit 25 ''critical'' ''Insecure Password Field''
                    (''Form #'' @ number @ '' has a password field on a non-HTTPS page '' @ em_dash
                     @ '' your password could be intercepted in transit. Never enter passwords on non-secure pages.'')
             else no_hit)
      in both external (both hidden password))"

fun check_forms_from :: "url_parser \<Rightarrow> page \<Rightarrow> nat \<Rightarrow> form list \<Rightarrow> check" where
  "check_forms_from URL p i [] = no_hit"
| "check_forms_from URL p i (form # rest) =
     both (check_form URL p i form) (check_forms_from URL p (i + 1) rest)"

definition checkForms :: "url_parser \<Rightarrow> page \<Rightarrow> check" where
  "checkForms URL p = check_forms_from URL p 0 (forms p)"

definition checkHTTPS :: "page \<Rightarrow> check" where
  "checkHTTPS p =
     (if protocol p = ''http:''
      then hit 15 ''high'' ''No HTTPS''
             (''This page is served over HTTP (not encrypted) '' @ em_dash
              @ '' any information you enter can be intercepted by anyone on the same network. Never enter sensitive data on unencrypted pages.'')
      else no_hit)"

text \<open>
  The sub-checks of the structural detector that read scripts, iframes, links, resources
  and inputs are represented by their outcome, already capped as each of them caps it.
\<close>

record structural_rest =
  checkExternalScripts :: check
  checkIframes :: check
  checkLinkSpoofing :: check
  checkExternalResources :: check
  checkObfuscation :: check
  checkSensitiveInputs :: check

definition scan_result :: "check list \<Rightarrow> detector_result" where
  "scan_result cs =
     \<lparr>det_score = Some (of_nat (min 100 (sum_list (map fst cs)))),
      det_findings = Some (concat (map snd cs))\<rparr>"

definition StructuralDetector_scan_page ::
    "url_parser \<Rightarrow> page \<Rightarrow> structural_rest \<Rightarrow> detector_result" where
  "StructuralDetector_scan_page URL p rest =
     scan_result
       [checkForms URL p,
        checkExternalScripts rest,
        checkIframes rest,
        checkLinkSpoofing rest,
        checkHTTPS p,
        checkExternalResources rest,
        checkObfuscation rest,
        checkSensitiveInputs rest]"

text \<open>The body of the \<open>forms.forEach\<close> callback of \<open>_checkLoginForms\<close>.\<close>

definition check_login_form :: "url_parser \<Rightarrow> page \<Rightarrow> form \<Rightarrow> check" where
  "check_login_form URL p form =
     (if \<not> password_inputs form > 0 \<and> \<not> email_or_user_input form then no_hit
      else
        both
          (if protocol p = ''http:''
           then hit 25 ''critical'' ''Insecure Login''
                  (''This login form is on an unencrypted (HTTP) page '' @ em_dash
                   @ '' your credentials will be sent in plain text and can be intercepted by anyone.'')
           else no_hit)
          (case action form of
             None \<Rightarrow> no_hit
           | Some act \<Rightarrow>
               if act = [] then no_hit
               else (case URL act (href p) of
                       None \<Rightarrow> no_hit
                     | Some actionHost \<Rightarrow>
                         if actionHost \<noteq> hostname p
                         then hit 30 ''critical'' ''External Login Action''
                                (''This login form sends your credentials to '' @ actionHost
                                 @ '', which is different from the current site '' @ em_dash
                                 @ '' this is a strong phishing indicator.'')
                         else no_hit)))"

fun checkLoginForms_from :: "url_parser \<Rightarrow> page \<Rightarrow> form list \<Rightarrow> check" where
  "checkLoginForms_from URL p [] = no_hit"
| "checkLoginForms_from URL p (form # rest) =
     both (check_login_form URL p form) (checkLoginForms_from URL p rest)"

definition checkLoginForms :: "url_parser \<Rightarrow> page \<Rightarrow> check" where
  "checkLoginForms URL p = checkLoginForms_from URL p (forms p)"

record phishing_rest =
  checkURL :: check
  checkDomain :: check
  checkBrandImpersonation :: check

definition PhishingDetector_scan_page ::
    "url_parser \<Rightarrow> page \<Rightarrow> phishing_rest \<Rightarrow> detector_result" where
  "PhishingDetector_scan_page URL p rest =
     scan_result
       [checkURL rest, checkDomain rest, checkLoginForms URL p, checkBrandImpersonation rest]"

text \<open>The results of the seven detectors that do not read forms.\<close>

record other_detectors =
  keywordResults :: detector_result
  socialResults :: detector_result
  ecommerceResults :: detector_result
  cryptoResults :: detector_result
  techSupportResults :: detector_result
  romanceFeeResults :: detector_result
  downloadResults :: detector_result

text \<open>The object literal that \<open>_analyze\<close> hands to \<open>ScaimScoring.aggregate\<close>.\<close>

definition page_results ::
    "url_parser \<Rightarrow> page \<Rightarrow> structural_rest \<Rightarrow> phishing_rest \<Rightarrow> other_detectors \<Rightarrow> results"
  where
  "page_results URL p srest prest others =
     [(''keywords'', Some (keywordResults others)),
      (''structural'', Some (StructuralDetector_scan_page URL p srest)),
      (''phishing'', Some (PhishingDetector_scan_page URL p prest)),
      (''socialEngineering'', Some (socialResults others)),
      (''fakeEcommerce'', Some (ecommerceResults others)),
      (''cryptoScam'', Some (cryptoResults others)),
      (''techSupport'', Some (techSupportResults others)),
      (''romanceFee'', Some (romanceFeeResults others)),
      (''maliciousDownload'', Some (downloadResults others))]"

definition page_assessment ::
    "url_parser \<Rightarrow> page \<Rightarrow> structural_rest \<Rightarrow> phishing_rest \<Rightarrow> other_detectors
     \<Rightarrow> assessment"
  where
  "page_assessment URL p srest prest others = aggregate (page_results URL p srest prest others)"

subsection \<open>A page that holds nothing but a cross-origin login form\<close>

text \<open>
  \<open>http://community-garden.example/members\<close>, whose body is one form
  \<open><form action="https://collector.example/in" method="post"><input type="password"></form>\<close>.
\<close>

definition login_page :: page where
  "login_page =
     \<lparr>href = ''http://community-garden.example/members'',
      hostname = ''community-garden.example'',
      protocol = ''http:'',
      forms = [\<lparr>action = Some ''https://collector.example/in'', method_attr = Some ''post'',
                hidden_inputs = 0, password_inputs = 1, email_or_user_input = False\<rparr>]\<rparr>"

definition login_page_get :: page where
  "login_page_get =
     login_page\<lparr>forms := [\<lparr>action = Some ''https://collector.example/in'', method_attr = None,
                             hidden_inputs = 0, password_inputs = 1,
                             email_or_user_input = False\<rparr>]\<rparr>"

definition example_URL :: url_parser where
  "example_URL input base =
     (if input = ''https://collector.example/in'' then Some ''collector.example'' else None)"

definition nothing_structural :: structural_rest where
  "nothing_structural =
     \<lparr>checkExternalScripts = no_hit, checkIframes = no_hit, checkLinkSpoofing = no_hit,
      checkExternalResources = no_hit, checkObfuscation = no_hit,
      checkSensitiveInputs = no_hit\<rparr>"

definition nothing_phishing :: phishing_rest where
  "nothing_phishing = \<lparr>checkURL = no_hit, checkDomain = no_hit, checkBrandImpersonation = no_hit\<rparr>"

definition nothing_else :: other_detectors where
  "nothing_else =
     \<lparr>keywordResults = zero_result, socialResults = zero_result,
      ecommerceResults = zero_result, cryptoResults = zero_result,
      techSupportResults = zero_result, romanceFeeResults = zero_result,
      downloadResults = zero_result\<rparr>"

definition login_page_results :: results where
  "login_page_results =
     page_results example_URL login_page nothing_structural nothing_phishing nothing_else"

section \<open>Regular expressions of the scanner\<close>

text \<open>
  The scanner's patterns use literal characters, the classes \<open>\s\<close>, \<open>\d\<close>, \<open>\w\<close>,
  bracketed classes without negation, \<open>.\<close>, \<open>\b\<close>, groups, alternation and the greedy
  quantifiers \<open>?\<close>, \<open>*\<close>, \<open>+\<close>, \<open>{m}\<close>, \<open>{m,}\<close>, \<open>{m,n}\<close>; there is no anchor,
  back-reference or look-around, and none of them has the \<open>g\<close>, \<open>y\<close> or \<open>u\<close> flag.
  \<open>RegExp.prototype.test\<close> on such a pattern is stateless and answers whether some
  substring of the input is in the pattern's language.
\<close>

datatype atom = Lit nat | Range nat nat | Digit | Space | Word

datatype rx =
    Chr "atom list"
  | AnyChar
  | WordBoundary
  | Empty
  | Seq rx rx
  | Alt rx rx
  | Repeat nat "nat option" rx

abbreviation opt :: "rx \<Rightarrow> rx" where
  "opt r \<equiv> Repeat 0 (Some 1) r"

abbreviation star :: "rx \<Rightarrow> rx" where
  "star r \<equiv> Repeat 0 None r"

abbreviation plus :: "rx \<Rightarrow> rx" where
  "plus r \<equiv> Repeat 1 None r"

abbreviation ws :: rx where
  "ws \<equiv> Chr [Space]"

abbreviation dg :: rx where
  "dg \<equiv> Chr [Digit]"

text \<open>A run of literal characters, a sequence and an alternation of several parts.\<close>

fun str :: "string \<Rightarrow> rx" where
  "str [] = Empty"
| "str [c] = Chr [Lit (of_char c)]"
| "str (c # d # cs) = Seq (Chr [Lit (of_char c)]) (str (d # cs))"

fun seq :: "rx list \<Rightarrow> rx" where
  "seq [] = Empty"
| "seq [r] = r"
| "seq (r # q # rs) = Seq r (seq (q # rs))"

fun alt :: "rx list \<Rightarrow> rx" where
  "alt [] = Empty"
| "alt [r] = r"
| "alt (r # q # rs) = Alt r (alt (q # rs))"

declare str.simps [simp del] seq.simps [simp del] alt.simps [simp del]

text \<open>
  \<open>Canonicalize\<close> of the specification, for a pattern without the \<open>u\<close> flag: with
  \<open>ignoreCase\<close> an ASCII letter is compared in upper case. A code unit above \<open>127\<close>
  never canonicalizes to an ASCII one, and every literal and range of the scanner's
  patterns is ASCII, so such a code unit is left as it is.
\<close>

definition canonicalize :: "bool \<Rightarrow> nat \<Rightarrow> nat" where
  "canonicalize ignoreCase c = (if ignoreCase \<and> 97 \<le> c \<and> c \<le> 122 then c - 32 else c)"

definition is_digit :: "nat \<Rightarrow> bool" where
  "is_digit c \<longleftrightarrow> 48 \<le> c \<and> c \<le> 57"

definition is_word :: "nat \<Rightarrow> bool" where
  "is_word c \<longleftrightarrow> (97 \<le> c \<and> c \<le> 122) \<or> (65 \<le> c \<and> c \<le> 90) \<or> is_digit c \<or> c = 95"

text \<open>White space and line terminators: what \<open>\s\<close> matches and \<open>trim\<close> removes.\<close>

definition is_space :: "nat \<Rightarrow> bool" where
  "is_space c \<longleftrightarrow>
     c = 32 \<or> (9 \<le> c \<and> c \<le> 13) \<or> c = 0x00A0 \<or> c = 0x1680
     \<or> (0x2000 \<le> c \<and> c \<le> 0x200A) \<or> c = 0x2028 \<or> c = 0x2029 \<or> c = 0x202F
     \<or> c = 0x205F \<or> c = 0x3000 \<or> c = 0xFEFF"

definition line_terminator :: "nat \<Rightarrow> bool" where
  "line_terminator c \<longleftrightarrow> c = 10 \<or> c = 13 \<or> c = 0x2028 \<or> c = 0x2029"

definition in_range :: "bool \<Rightarrow> nat \<Rightarrow> nat \<Rightarrow> nat \<Rightarrow> bool" where
  "in_range ignoreCase a b c \<longleftrightarrow>
     (a \<le> c \<and> c \<le> b)
     \<or> (ignoreCase \<and> 97 \<le> c \<and> c \<le> 122 \<and> a \<le> c - 32 \<and> c - 32 \<le> b)
     \<or> (ignoreCase \<and> 65 \<le> c \<and> c \<le> 90 \<and> a \<le> c + 32 \<and> c + 32 \<le> b)"

fun atom_matches :: "bool \<Rightarrow> nat \<Rightarrow> atom \<Rightarrow> bool" where
  "atom_matches ignoreCase c (Lit d) \<longleftrightarrow> canonicalize ignoreCase c = canonicalize ignoreCase d"
| "atom_matches ignoreCase c (Range a b) \<longleftrightarrow> in_range ignoreCase a b c"
| "atom_matches ignoreCase c Digit \<longleftrightarrow> is_digit c"
| "atom_matches ignoreCase c Space \<longleftrightarrow> is_space c"
| "atom_matches ignoreCase c Word \<longleftrightarrow> is_word c"

text \<open>
  A position is an index into the input, from \<open>0\<close> to its length; \<open>code_unit_at\<close>
  is the code unit that starts there, if any.
\<close>

definition code_unit_at :: "jsstring \<Rightarrow> nat \<Rightarrow> nat option" where
  "code_unit_at text p = (if p < length text then Some (text ! p) else None)"

definition all_positions :: "jsstring \<Rightarrow> nat list" where
  "all_positions text = [0..<Suc (length text)]"

text \<open>The positions after one code unit that satisfies \<open>ok\<close>.\<close>

fun advance :: "(nat \<Rightarrow> bool) \<Rightarrow> jsstring \<Rightarrow> nat list \<Rightarrow> nat list" where
  "advance ok text [] = []"
| "advance ok text (p # ps) =
     (case code_unit_at text p of
        None \<Rightarrow> advance ok text ps
      | Some c \<Rightarrow> if ok c then Suc p # advance ok text ps else advance ok text ps)"

declare advance.simps(2) [simp del]

text \<open>One step over a literal: the code units whose canonical form is \<open>d\<close>.\<close>

definition advance_lit :: "nat \<Rightarrow> bool \<Rightarrow> jsstring \<Rightarrow> nat list \<Rightarrow> nat list" where
  "advance_lit d i text ps = advance (\<lambda>c. canonicalize i c = d) text ps"

definition word_at :: "jsstring \<Rightarrow> nat \<Rightarrow> bool" where
  "word_at text p = (case code_unit_at text p of None \<Rightarrow> False | Some c \<Rightarrow> is_word c)"

definition at_boundary :: "jsstring \<Rightarrow> nat \<Rightarrow> bool" where
  "at_boundary text p \<longleftrightarrow> (p \<noteq> 0 \<and> word_at text (p - 1)) \<noteq> word_at text p"

text \<open>Exactly \<open>n\<close> iterations, at most \<open>k\<close> further ones, and any number of them.\<close>

fun iterate :: "nat \<Rightarrow> (nat list \<Rightarrow> nat list) \<Rightarrow> nat list \<Rightarrow> nat list" where
  "iterate 0 f ps = ps"
| "iterate (Suc n) f ps = (if ps = [] then [] else iterate n f (f ps))"

fun at_most :: "nat \<Rightarrow> (nat list \<Rightarrow> nat list) \<Rightarrow> nat list \<Rightarrow> nat list" where
  "at_most 0 f ps = ps"
| "at_most (Suc k) f ps = (if ps = [] then [] else ps @ at_most k f (f ps))"

text \<open>
  An iteration of \<open>*\<close> that consumes nothing is rejected by the matcher, so every further
  iteration starts at a later position.
\<close>

function any_number :: "(nat list \<Rightarrow> nat list) \<Rightarrow> jsstring \<Rightarrow> nat \<Rightarrow> nat list" where
  "any_number f text p =
     p # concat (map (any_number f text) (filter (\<lambda>q. p < q \<and> q \<le> length text) (f [p])))"
  by pat_completeness auto
termination
  by (relation "measure (\<lambda>(f, text, p). Suc (length text) - p)") auto

declare any_number.simps [simp del]

text \<open>The positions at which a match of \<open>r\<close> that starts at one of \<open>ps\<close> can end.\<close>

primrec ends :: "bool \<Rightarrow> jsstring \<Rightarrow> rx \<Rightarrow> nat list \<Rightarrow> nat list" where
  "ends i text (Chr as) ps = advance (\<lambda>c. list_ex (atom_matches i c) as) text ps"
| "ends i text AnyChar ps = advance (\<lambda>c. \<not> line_terminator c) text ps"
| "ends i text WordBoundary ps = filter (at_boundary text) ps"
| "ends i text Empty ps = ps"
| "ends i text (Seq a b) ps = ends i text b (ends i text a ps)"
| "ends i text (Alt a b) ps = ends i text a ps @ ends i text b ps"
| "ends i text (Repeat n mx r) ps =
     (case mx of
        None \<Rightarrow> concat (map (any_number (ends i text r) text) (iterate n (ends i text r) ps))
      | Some k \<Rightarrow> at_most (k - n) (ends i text r) (iterate n (ends i text r) ps))"

text \<open>\<open>pattern.test(text)\<close>, with \<open>ignoreCase\<close> the pattern's \<open>i\<close> flag.\<close>

definition test :: "bool \<Rightarrow> rx \<Rightarrow> jsstring \<Rightarrow> bool" where
  "test ignoreCase r text \<longleftrightarrow> ends ignoreCase text r (all_positions text) \<noteq> []"

section \<open>SocialMediaScanner\<close>

subsection \<open>Platforms\<close>

text \<open>A platform configuration without its CSS selectors.\<close>

record platform =
  name :: string
  hosts :: "string list"
  paranoia :: string
  ownShortener :: "string option"
  genericFallback :: bool
  minTextLength :: "nat option"

definition PLATFORMS :: "platform list" where
  "PLATFORMS =
     [\<lparr>name = ''facebook'',
        hosts = [''facebook.com'', ''www.facebook.com'', ''m.facebook.com'', ''web.facebook.com''],
        paranoia = ''high'', ownShortener = None, genericFallback = False,
        minTextLength = None\<rparr>,
      \<lparr>name = ''x'',
        hosts = [''x.com'', ''www.x.com'', ''twitter.com'', ''www.twitter.com''],
        paranoia = ''high'', ownShortener = Some ''t.co'', genericFallback = False,
        minTextLength = None\<rparr>,
      \<lparr>name = ''instagram'',
        hosts = [''instagram.com'', ''www.instagram.com''],
        paranoia = ''high'', ownShortener = None, genericFallback = False,
        minTextLength = None\<rparr>,
      \<lparr>name = ''linkedin'',
        hosts = [''linkedin.com'', ''www.linkedin.com''],
        paranoia = ''medium'', ownShortener = None, genericFallback = False,
        minTextLength = None\<rparr>,
      \<lparr>name = ''reddit'',
        hosts = [''reddit.com'', ''www.reddit.com'', ''old.reddit.com'', ''new.reddit.com''],
        paranoia = ''medium'', ownShortener = None, genericFallback = False,
        minTextLength = None\<rparr>,
      \<lparr>name = ''tiktok'',
        hosts = [''tiktok.com'', ''www.tiktok.com'', ''m.tiktok.com''],
        paranoia = ''high'', ownShortener = None, genericFallback = False,
        minTextLength = None\<rparr>,
      \<lparr>name = ''soundcloud'',
        hosts = [''soundcloud.com'', ''www.soundcloud.com'', ''m.soundcloud.com''],
        paranoia = ''high'', ownShortener = None, genericFallback = True,
        minTextLength = Some 10\<rparr>,
      \<lparr>name = ''youtube'',
        hosts = [''youtube.com'', ''www.youtube.com'', ''m.youtube.com''],
        paranoia = ''medium'', ownShortener = None, genericFallback = True,
        minTextLength = None\<rparr>,
      \<lparr>name = ''linktree'',
        hosts = [''linktr.ee''],
        paranoia = ''high'', ownShortener = None, genericFallback = False,
        minTextLength = Some 5\<rparr>]"

definition endsWith :: "string \<Rightarrow> string \<Rightarrow> bool" where
  "endsWith s suffix \<longleftrightarrow>
     length suffix \<le> length s \<and> drop (length s - length suffix) s = suffix"

definition detectPlatform :: "string \<Rightarrow> platform option" where
  "detectPlatform host =
     find (\<lambda>config. list_ex (\<lambda>h. toLowerCase host = h \<or> endsWith (toLowerCase host) (''.'' @ h))
                      (hosts config))
       PLATFORMS"

subsection \<open>Scam patterns\<close>

text \<open>
  An entry of \<open>SCAM_PATTERNS\<close>; every pattern of the table has the flag \<open>i\<close> and no other.
\<close>

datatype scam_pattern =
  ScamPattern (pattern: rx) (pattern_category: string) (pattern_severity: string)
    (platforms: "string list option")

text \<open>Lines 94 to 117 of the scanner.\<close>

definition SCAM_PATTERNS_94_117 :: "scam_pattern list" where
  "SCAM_PATTERNS_94_117 =
     [ScamPattern
        (seq [str ''pay'', plus ws, opt (seq [str ''a'', plus ws]), opt (seq [str ''small'',
         plus ws]), alt [str ''processing'', str ''transfer'', str ''handling'', str ''customs'',
         str ''clearance'', str ''release''], plus ws, str ''fee''])
        ''Advance Fee Scam'' ''high'' None,
      ScamPattern
        (seq [str ''fee'', plus ws, opt (seq [str ''is'', plus ws]), alt [str ''required'',
         str ''needed''], plus ws, alt [str ''before'', seq [str ''to'', plus ws,
         alt [str ''release'', str ''process'', str ''claim'']]]])
        ''Advance Fee Scam'' ''high'' None,
      ScamPattern
        (alt [str ''beneficiary'', seq [str ''next'', plus ws, str ''of'', plus ws, str ''kin''],
         seq [str ''unclaimed'', plus ws, str ''fund''], seq [str ''deceased'', plus ws,
         str ''client'']])
        ''Inheritance Scam'' ''high'' None,
      ScamPattern
        (seq [str ''bank'', plus ws, str ''of'', plus ws, str ''nigeria''])
        ''419 Scam'' ''high'' None,
      ScamPattern
        (seq [str ''confidential'', plus ws, alt [str ''business'', str ''transaction'']])
        ''419 Scam'' ''medium'' None,
      ScamPattern
        (seq [str ''diplomatic'', plus ws, alt [str ''bag'', str ''courier'', str ''channel'']])
        ''419 Scam'' ''high'' None,
      ScamPattern
        (seq [str ''enter'', plus ws, opt (seq [str ''your'', plus ws]), alt [str ''seed'',
         str ''recovery''], plus ws, str ''phrase''])
        ''Seed Phrase Theft'' ''critical'' None,
      ScamPattern
        (seq [str ''double'', plus ws, str ''your'', plus ws, alt [str ''crypto'',
         str ''bitcoin'', str ''eth'', str ''coin'']])
        ''Crypto Doubling Scam'' ''critical'' None,
      ScamPattern
        (seq [str ''send'', plus ws, opt (seq [plus (Chr [Word]), plus ws]), str ''to'', plus ws,
         opt (seq [str ''this'', plus ws]), alt [str ''address'', str ''wallet''], plus ws,
         opt (seq [str ''to'', plus ws]), str ''receive''])
        ''Crypto Scam'' ''critical'' None,
      ScamPattern
        (seq [str ''guaranteed'', plus ws, alt [seq [str ''return'', opt (str ''s'')],
         seq [str ''profit'', opt (str ''s'')], str ''daily'', str ''weekly'', str ''income'']])
        ''Investment Scam'' ''high'' None,
      ScamPattern
        (seq [Repeat 2 None dg, str ''%'', star ws, alt [str ''daily'', str ''weekly''], star ws,
         alt [str ''return'', str ''profit'', str ''yield'', str ''gain'']])
        ''Unrealistic ROI'' ''high'' None,
      ScamPattern
        (seq [str ''connect'', plus ws, opt (seq [str ''your'', plus ws]), str ''wallet''])
        ''Wallet Connect Request'' ''medium'' None,
      ScamPattern
        (alt [seq [str ''airdrop'', Repeat 0 (Some 100) AnyChar, str ''claim''],
         seq [str ''claim'', Repeat 0 (Some 100) AnyChar, str ''airdrop'']])
        ''Fake Airdrop'' ''high'' None,
      ScamPattern
        (seq [str ''free'', plus ws, alt [str ''bitcoin'', str ''btc'', str ''eth'',
         str ''crypto'', str ''token'', str ''nft'']])
        ''Free Crypto Scam'' ''medium'' None,
      ScamPattern
        (seq [str ''mining'', plus ws, alt [str ''contract'', str ''pool'', str ''reward'']])
        ''Mining Scam'' ''medium'' None,
      ScamPattern
        (alt [seq [str ''private'', plus ws, str ''key''], seq [str ''seed'', plus ws,
         str ''phrase''], seq [str ''recovery'', plus ws, str ''phrase'']])
        ''Key Theft Risk'' ''high'' None,
      ScamPattern
        (seq [str ''god'', plus ws, alt [str ''led'', str ''brought'', str ''sent''], plus ws,
         str ''me'', plus ws, str ''to'', plus ws, str ''you''])
        ''Romance Scam'' ''medium'' None,
      ScamPattern
        (seq [str ''send'', plus ws, opt (seq [str ''me'', plus ws]), str ''money'', plus ws,
         opt (seq [str ''so'', plus ws]), opt (seq [str ''i'', plus ws]), str ''can'', plus ws,
         alt [str ''come'', str ''visit'', str ''travel'']])
        ''Romance Scam'' ''high'' None,
      ScamPattern
        (seq [str ''i'', alt [seq [opt (Chr [Lit 39]), str ''m''], seq [plus ws, str ''am'']],
         plus ws, str ''stranded''])
        ''Romance Scam'' ''medium'' None,
      ScamPattern
        (seq [str ''deployed'', plus ws, str ''overseas''])
        ''Military Romance Scam'' ''medium'' None]"

text \<open>Lines 118 to 147 of the scanner.\<close>

definition SCAM_PATTERNS_118_147 :: "scam_pattern list" where
  "SCAM_PATTERNS_118_147 =
     [ScamPattern
        (seq [str ''i'', plus ws, str ''trust'', plus ws, str ''you'', plus ws, str ''with'',
         plus ws, str ''my'', plus ws, alt [str ''life'', str ''everything'']])
        ''Romance Manipulation'' ''medium'' None,
      ScamPattern
        (seq [str ''you'', plus ws, str ''are'', plus ws, str ''the'', plus ws, str ''only'',
         plus ws, alt [str ''one'', str ''person''], plus ws, str ''i'', plus ws,
         opt (seq [str ''can'', plus ws]), str ''trust''])
        ''Romance Manipulation'' ''medium'' None,
      ScamPattern
        (seq [str ''your'', plus ws, alt [str ''computer'', str ''device'', str ''system''],
         plus ws, alt [str ''is'', seq [str ''has'', plus ws, str ''been'']], plus ws,
         alt [str ''infected'', str ''compromised'', str ''hacked'']])
        ''Fake Security Alert'' ''high'' None,
      ScamPattern
        (seq [str ''call'', plus ws, alt [str ''now'', str ''immediately'', seq [str ''this'',
         plus ws, str ''number'']], Repeat 0 (Some 60) AnyChar, Repeat 3 (Some 3) dg])
        ''Phone Scam'' ''high'' None,
      ScamPattern
        (seq [str ''error'', star ws, opt (seq [str ''code'', star ws]), opt (str ''#''),
         star ws, str ''0x'', Repeat 4 None (Chr [Range (of_char CHR ''0'') (of_char CHR ''9''),
         Range (of_char CHR ''a'') (of_char CHR ''f'')])])
        ''Fake Error Code'' ''high'' None,
      ScamPattern
        (seq [str ''virus'', opt (str ''es''), plus ws, alt [str ''detected'', str ''found'']])
        ''Fake Virus Alert'' ''high'' None,
      ScamPattern
        (seq [str ''your'', plus ws, str ''account'', plus ws, alt [seq [str ''will'', plus ws,
         str ''be''], seq [str ''has'', plus ws, str ''been'']], plus ws, alt [str ''suspended'',
         str ''closed'', str ''terminated'', str ''locked'', str ''disabled'']])
        ''Account Threat'' ''high'' None,
      ScamPattern
        (seq [str ''verify'', plus ws, opt (seq [str ''your'', plus ws]), alt [str ''account'',
         str ''identity''], plus ws, alt [str ''within'', str ''before'', str ''immediately'']])
        ''Urgency Tactic'' ''medium'' None,
      ScamPattern
        (seq [str ''official'', plus ws, str ''notice'', plus ws, str ''from'', plus ws,
         opt (seq [str ''the'', plus ws]), alt [str ''irs'', str ''fbi'', str ''doj'',
         str ''ssa'']])
        ''Government Impersonation'' ''high'' None,
      ScamPattern
        (seq [str ''failure'', plus ws, str ''to'', plus ws, alt [str ''respond'',
         str ''comply'', str ''verify''], plus ws, alt [str ''will'', str ''may''], plus ws,
         str ''result''])
        ''Threat Language'' ''medium'' None,
      ScamPattern
        (seq [str ''you'', alt [seq [Chr [Lit 39], str ''ve''], seq [plus ws, str ''have'']],
         plus ws, opt (seq [str ''been'', plus ws]), str ''selected'', plus ws,
         opt (seq [str ''as'', plus ws]), opt (seq [str ''a'', plus ws]), alt [str ''winner'',
         str ''lucky'']])
        ''Reward Scam'' ''high'' None,
      ScamPattern
        (seq [str ''claim'', plus ws, str ''your'', plus ws, alt [str ''prize'', str ''reward'',
         seq [str ''winning'', opt (str ''s'')], str ''gift''], star ws, opt (alt [str ''now'',
         str ''today'', str ''here''])])
        ''Prize Scam'' ''high'' None,
      ScamPattern
        (seq [str ''congratulations'', opt (str ''!''), plus ws, str ''you'', plus ws,
         alt [str ''won'', seq [str ''have'', plus ws, str ''won''], seq [str ''are'', plus ws,
         str ''a'', plus ws, str ''winner'']]])
        ''Prize Scam'' ''high'' None,
      ScamPattern
        (seq [str ''spin'', plus ws, opt (seq [str ''the'', plus ws]), str ''wheel''])
        ''Fake Prize Wheel'' ''medium'' None,
      ScamPattern
        (seq [alt [str ''message'', str ''contact'', str ''add'', str ''text''], plus ws,
         str ''me'', plus ws, alt [str ''on'', str ''at'', str ''via''], plus ws,
         alt [str ''whatsapp'', str ''telegram'', str ''signal'', str ''hangouts'']])
        ''Platform Migration'' ''medium'' None,
      ScamPattern
        (seq [str ''my'', plus ws, alt [str ''whatsapp'', str ''telegram''], plus ws,
         alt [str ''number'', str ''is'', str '':'']])
        ''Platform Migration'' ''medium'' None,
      ScamPattern
        (seq [str ''let'', opt (Chr [Lit 39]), str ''s'', plus ws, alt [str ''move'',
         str ''continue'', str ''chat''], plus ws, alt [str ''on'', str ''to'', str ''via''],
         plus ws, alt [str ''whatsapp'', str ''telegram'', str ''signal'']])
        ''Platform Migration'' ''medium'' None,
      ScamPattern
        (seq [str ''i'', plus ws, alt [str ''made'', str ''earned'', str ''got''], plus ws,
         str ''$'', star ws, plus (Chr [Digit, Lit (of_char CHR '','')]), star ws,
         alt [str ''in'', str ''from'', str ''per'', str ''this'', str ''last''], star ws,
         opt (seq [str ''a'', plus ws]), alt [str ''week'', str ''day'', str ''month'',
         str ''hour'']])
        ''Income Claim'' ''medium'' None,
      ScamPattern
        (seq [str ''earn'', plus ws, opt (str ''$''), star ws, plus (Chr [Digit,
         Lit (of_char CHR '','')]), star ws, alt [str ''per'', str ''a'', str ''every'',
         str ''each''], star ws, alt [str ''week'', str ''day'', str ''month'', str ''hour'']])
        ''Income Claim'' ''medium'' None,
      ScamPattern
        (alt [seq [str ''work'', star ws, opt (str ''ing''), plus ws, str ''from'', plus ws,
         str ''home'', Repeat 0 (Some 100) AnyChar, str ''$''], seq [alt [str ''$'',
         str ''earn''], Repeat 0 (Some 100) AnyChar, str ''work'', star ws, opt (str ''ing''),
         plus ws, str ''from'', plus ws, str ''home'']])
        ''Work-From-Home Scam'' ''medium'' None]"

text \<open>Lines 148 to 173 of the scanner.\<close>

definition SCAM_PATTERNS_148_173 :: "scam_pattern list" where
  "SCAM_PATTERNS_148_173 =
     [ScamPattern
        (seq [str ''be'', plus ws, str ''your'', plus ws, str ''own'', plus ws, str ''boss''])
        ''MLM/Pyramid'' ''low'' None,
      ScamPattern
        (seq [str ''join'', plus ws, str ''my'', plus ws, str ''team''])
        ''MLM/Pyramid'' ''low'' None,
      ScamPattern
        (seq [str ''financial'', plus ws, str ''freedom'', star ws, opt (alt [str ''today'',
         str ''now'', str ''guaranteed'', seq [str ''is'', plus ws, str ''possible'']])])
        ''Income Scam'' ''medium'' None,
      ScamPattern
        (seq [str ''passive'', plus ws, str ''income'', star ws, opt (alt [str ''daily'',
         str ''weekly'', str ''monthly'', str ''guaranteed'', str ''opportunity''])])
        ''Income Scam'' ''medium'' None,
      ScamPattern
        (seq [str ''life'', opt AnyChar, str ''changing'', plus ws, alt [str ''money'',
         str ''income'', str ''opportunity'', str ''amount'']])
        ''Income Scam'' ''medium'' None,
      ScamPattern
        (seq [str ''dm'', plus ws, alt [str ''me'', str ''for''], plus ws,
         opt (seq [str ''more'', plus ws]), alt [str ''info'', str ''details'',
         str ''opportunity'']])
        ''DM Solicitation'' ''low'' None,
      ScamPattern
        (seq [str ''link'', plus ws, str ''in'', plus ws, opt (seq [str ''my'', plus ws]),
         alt [str ''bio'', str ''profile'']])
        ''Bio Link Solicitation'' ''low'' None,
      ScamPattern
        (seq [str ''limited'', plus ws, alt [seq [str ''spot'', opt (str ''s'')],
         seq [str ''slot'', opt (str ''s'')], seq [str ''opening'', opt (str ''s'')]], plus ws,
         alt [str ''left'', str ''available'', str ''remaining'']])
        ''Fake Scarcity'' ''medium'' None,
      ScamPattern
        (seq [str ''only'', plus ws, plus dg, plus ws, alt [seq [str ''spot'', opt (str ''s'')],
         seq [str ''slot'', opt (str ''s'')], str ''left'']])
        ''Fake Scarcity'' ''medium'' None,
      ScamPattern
        (seq [str ''this'', plus ws, alt [seq [str ''won'', opt (Chr [Lit 39]), str ''t''],
         seq [str ''will'', plus ws, str ''not'']], plus ws, str ''last'', plus ws,
         alt [str ''long'', str ''forever'']])
        ''Fake Scarcity'' ''low'' None,
      ScamPattern
        (seq [str ''pay'', star ws, opt (str ''ment''), plus ws, alt [str ''via'', str ''with'',
         str ''by'', str ''using''], plus ws, alt [seq [str ''gift'', plus ws, str ''card''],
         str ''itunes'', seq [str ''google'', plus ws, str ''play'', plus ws, str ''card''],
         seq [str ''steam'', plus ws, str ''card'']]])
        ''Gift Card Payment Scam'' ''high'' None,
      ScamPattern
        (seq [str ''pay'', star ws, opt (str ''ment''), plus ws, alt [str ''via'', str ''with'',
         str ''by'', str ''using''], plus ws, alt [str ''zelle'', str ''venmo'',
         seq [str ''cash'', star ws, str ''app''], seq [str ''western'', plus ws, str ''union''],
         str ''moneygram''], plus ws, str ''only''])
        ''Untraceable Payment'' ''high'' None,
      ScamPattern
        (seq [str ''wire'', plus ws, str ''transfer'', plus ws, str ''only''])
        ''Untraceable Payment'' ''high'' None,
      ScamPattern
        (seq [str ''no'', plus ws, alt [str ''refund'', str ''return''], opt (str ''s''),
         star ws, opt (alt [str ''accepted'', str ''available'', str ''possible'',
         str ''period''])])
        ''No Refund Warning'' ''low'' None,
      ScamPattern
        (seq [str ''shipping'', plus ws, str ''from'', plus ws, alt [str ''overseas'',
         str ''china'', str ''abroad'']])
        ''Overseas Shipping'' ''low'' None,
      ScamPattern
        (seq [alt [str ''like'', str ''share'', str ''follow'', str ''retweet'', str ''tag''],
         plus ws, alt [str ''and'', str ''&'', str ''to''], plus ws, alt [str ''win'',
         str ''enter'', str ''get'', str ''claim'']])
        ''Engagement Bait'' ''low'' None,
      ScamPattern
        (seq [str ''giveaway'', opt (str ''!''), star ws, alt [str ''enter'', str ''click'',
         str ''follow'', str ''like'', str ''share'', str ''tag'']])
        ''Giveaway Bait'' ''low'' None,
      ScamPattern
        (seq [alt [seq [str ''elon'', plus ws, str ''musk''], seq [str ''mr'', star ws,
         str ''beast''], seq [str ''jeff'', plus ws, str ''bezos'']], plus ws,
         opt (seq [str ''is'', plus ws]), alt [seq [str ''giving'', plus ws, str ''away''],
         str ''giveaway'', str ''crypto'', str ''bitcoin'']])
        ''Fake Celebrity Giveaway'' ''high'' None,
      ScamPattern
        (seq [str ''pre'', opt (str ''-''), str ''approved'', plus ws, opt (seq [str ''for'',
         plus ws, str ''a'', plus ws]), alt [str ''loan'', str ''credit'', str ''mortgage'']])
        ''Loan Scam'' ''medium'' None,
      ScamPattern
        (seq [str ''instant'', plus ws, alt [str ''loan'', str ''credit'', str ''cash'',
         str ''approval'']])
        ''Loan Scam'' ''medium'' None]"

text \<open>Lines 174 to 199 of the scanner.\<close>

definition SCAM_PATTERNS_174_199 :: "scam_pattern list" where
  "SCAM_PATTERNS_174_199 =
     [ScamPattern
        (seq [str ''no'', plus ws, str ''credit'', plus ws, str ''check'', plus ws,
         alt [str ''required'', str ''needed'', str ''necessary'']])
        ''Loan Scam'' ''medium'' None,
      ScamPattern
        (seq [str ''bad'', plus ws, str ''credit'', plus ws, alt [str ''ok'', str ''accepted'',
         str ''welcome'', seq [str ''no'', plus ws, str ''problem'']]])
        ''Loan Scam'' ''medium'' None,
      ScamPattern
        (seq [str ''los'', opt (str ''t''), plus ws, plus dg, star ws, alt [seq [str ''lb'',
         opt (str ''s'')], str ''kg'', seq [str ''pound'', opt (str ''s'')]], plus ws,
         alt [str ''in'', str ''within''], plus ws, plus dg, star ws, alt [seq [str ''day'',
         opt (str ''s'')], seq [str ''week'', opt (str ''s'')]]])
        ''Weight Loss Scam'' ''low'' None,
      ScamPattern
        (seq [str ''doctor'', opt (str ''s''), plus ws, alt [str ''hate'', seq [str ''don'',
         opt (Chr [Lit 39]), str ''t'', plus ws, str ''want'', plus ws, str ''you'', plus ws,
         str ''to'', plus ws, str ''know'']]])
        ''Health Scam'' ''medium'' None,
      ScamPattern
        (seq [str ''miracle'', plus ws, alt [str ''cure'', str ''pill'', str ''supplement'',
         seq [str ''weight'', plus ws, str ''loss'']]])
        ''Health Scam'' ''medium'' None,
      ScamPattern
        (seq [str ''i'', opt (Chr [Lit 39]), str ''m'', plus ws, opt (seq [str ''a'', plus ws]),
         str ''representative'', plus ws, alt [str ''of'', str ''from''], plus ws,
         alt [str ''facebook'', str ''meta'', str ''instagram'', str ''paypal'', str ''amazon'',
         str ''microsoft'', str ''x'', str ''twitter'']])
        ''Platform Impersonation'' ''high'' None,
      ScamPattern
        (seq [str ''customer'', plus ws, alt [str ''service'', str ''support''], plus ws,
         alt [str ''here'', str ''representative'', str ''agent'']])
        ''Fake Support'' ''medium'' None,
      ScamPattern
        (seq [str ''your'', plus ws, alt [str ''facebook'', str ''instagram'', str ''paypal'',
         str ''amazon'', str ''twitter'', str ''x''], plus ws, alt [str ''account'',
         str ''page''], plus ws, alt [seq [str ''has'', plus ws, str ''been''],
         seq [str ''will'', plus ws, str ''be''], str ''is''], plus ws, alt [str ''flagged'',
         str ''disabled'', str ''suspended'', str ''deleted'', str ''restricted'']])
        ''Fake Account Warning'' ''high'' None,
      ScamPattern
        (seq [str ''official'', plus ws, alt [str ''page'', str ''account''], plus ws,
         alt [str ''of'', str ''for'']])
        ''Impersonation Risk'' ''low'' None,
      ScamPattern
        (seq [str ''verified'', plus ws, alt [str ''by'', str ''account'', str ''badge'',
         str ''page'']])
        ''Fake Verification Claim'' ''low'' None,
      ScamPattern
        (seq [str ''this'', plus ws, str ''is'', plus ws, opt (seq [str ''the'', plus ws]),
         alt [str ''real'', str ''official'', str ''authentic''], plus ws, alt [str ''me'',
         str ''account'', str ''page'']])
        ''Impersonation Risk'' ''low'' None,
      ScamPattern
        (seq [str ''check'', plus ws, alt [str ''my'', str ''the''], plus ws,
         alt [str ''pinned'', str ''first''], plus ws, alt [str ''tweet'', str ''post'']])
        ''Reply Bot'' ''medium'' None,
      ScamPattern
        (seq [str ''i'', opt (Chr [Lit 39]), str ''ll'', plus ws, alt [str ''teach'',
         str ''show'', str ''help''], plus ws, str ''you'', plus ws, opt (seq [str ''how'',
         plus ws, str ''to'', plus ws]), alt [str ''make'', str ''earn'', str ''get''], plus ws,
         opt (str ''$''), dg])
        ''Guru Scam'' ''medium'' None,
      ScamPattern
        (seq [str ''reply'', plus ws, opt (seq [str ''with'', plus ws]), opt (Chr [Lit 34,
         Lit 39]), alt [str ''interested'', str ''yes'', str ''info'', str ''me'',
         str ''ready''], opt (Chr [Lit 34, Lit 39]), star ws, opt (alt [str ''below'',
         str ''here''])])
        ''Engagement Farming'' ''low'' None,
      ScamPattern
        (seq [str ''drop'', plus ws, opt (seq [str ''a'', plus ws]), opt (Chr [Lit 34, Lit 39]),
         alt [str ''yes'', str ''ready'', str ''info'', str ''me'', str ''interested''],
         opt (Chr [Lit 34, Lit 39]), plus ws, alt [str ''below'', str ''if'', str ''and'',
         str ''to'']])
        ''Engagement Farming'' ''low'' None,
      ScamPattern
        (seq [str ''first'', plus ws, plus dg, plus ws, alt [str ''people'', str ''followers'',
         str ''replies''], plus ws, opt (seq [str ''to'', plus ws]), alt [str ''get'',
         str ''receive'', str ''win'']])
        ''Fake Giveaway'' ''medium'' None,
      ScamPattern
        (seq [str ''giving'', plus ws, str ''away'', plus ws, opt (str ''$''), dg,
         star (Chr [Digit, Lit (of_char CHR '','')]), star ws, alt [str ''to'', str ''for'',
         str ''worth'']])
        ''Fake Cash Giveaway'' ''medium'' None,
      ScamPattern
        (seq [str ''invest'', star ws, opt (alt [str ''ed'', str ''ing'']), plus ws,
         opt (str ''$''), dg, star (Chr [Digit, Lit (of_char CHR '','')]), star ws,
         alt [str ''and'', str '',''], star ws, alt [str ''got'', str ''received'', str ''made'',
         str ''earned''], plus ws, opt (str ''$''), dg, star (Chr [Digit,
         Lit (of_char CHR '','')])])
        ''Fake Testimonial'' ''high'' None,
      ScamPattern
        (seq [str ''thank'', opt (str ''s''), plus ws, opt (seq [str ''to'', plus ws]),
         alt [str ''mr'', str ''mrs'', str ''dr'', str ''professor'', str ''master'',
         str ''coach'', str ''trader''], plus ws, plus (Chr [Word]), star ws, alt [str ''for'',
         str ''who'']])
        ''Fake Testimonial'' ''medium'' None,
      ScamPattern
        (seq [str ''forex'', plus ws, alt [seq [str ''trade'', opt (str ''r'')], str ''signal'',
         str ''mentor'', str ''coach'', str ''master'', str ''guru'']])
        ''Forex Scam'' ''medium'' None]"

text \<open>Lines 200 to 223 of the scanner.\<close>

definition SCAM_PATTERNS_200_223 :: "scam_pattern list" where
  "SCAM_PATTERNS_200_223 =
     [ScamPattern
        (seq [str ''binary'', plus ws, alt [str ''option'', str ''trading'', str ''signal'']])
        ''Binary Options Scam'' ''high'' None,
      ScamPattern
        (seq [str ''my'', plus ws, opt (seq [str ''trading'', plus ws]), str ''mentor'', plus ws,
         alt [str ''helped'', str ''showed'', str ''taught'']])
        ''Fake Mentor Scam'' ''medium'' None,
      ScamPattern
        (alt [seq [str ''pro'', opt (Chr [Lit (of_char CHR ''-''), Lit (of_char CHR '' '')]),
         str ''tip''], seq [str ''insider'', plus ws, alt [str ''info'', str ''tip'',
         str ''knowledge'']]])
        ''Insider Tip Scam'' ''low'' None,
      ScamPattern
        (seq [str ''0x'',
         Repeat 40 (Some 40) (Chr [Range (of_char CHR ''a'') (of_char CHR ''f''),
         Range (of_char CHR ''A'') (of_char CHR ''F''),
         Range (of_char CHR ''0'') (of_char CHR ''9'')])])
        ''Crypto Wallet Address'' ''medium'' None,
      ScamPattern
        (seq [str ''hiring'', plus ws, alt [str ''now'', str ''immediately'', str ''urgently''],
         opt (str ''!''), star ws, opt (seq [str ''no'', plus ws, str ''experience''])])
        ''Job Scam'' ''medium'' None,
      ScamPattern
        (seq [str ''no'', plus ws, alt [str ''experience'', str ''degree'', str ''resume''],
         plus ws, alt [str ''needed'', str ''required'', str ''necessary'']])
        ''Job Scam'' ''medium'' None,
      ScamPattern
        (seq [str ''earn'', plus ws, str ''$'', dg, star (Chr [Digit, Lit (of_char CHR '','')]),
         star ws, alt [str ''/'', seq [plus ws, str ''per'', plus ws]], alt [str ''week'',
         str ''day'', str ''hour''], star ws, opt (seq [str ''from'', plus ws, str ''home''])])
        ''Job Scam'' ''medium'' None,
      ScamPattern
        (seq [str ''make'', plus ws, str ''money'', plus ws, alt [str ''online'',
         seq [str ''from'', plus ws, str ''home''], seq [str ''from'', plus ws, str ''your'',
         plus ws, str ''phone'']]])
        ''Job Scam'' ''medium'' None,
      ScamPattern
        (seq [str ''data'', plus ws, str ''entry'', plus ws, alt [str ''job'', str ''work'',
         str ''position''], Repeat 0 (Some 100) AnyChar, str ''$'', dg])
        ''Data Entry Scam'' ''medium'' None,
      ScamPattern
        (seq [str ''pay'', plus ws, opt (seq [str ''a'', plus ws]), alt [str ''registration'',
         str ''training'', str ''starter'', str ''kit''], plus ws, str ''fee''])
        ''Job Fee Scam'' ''high'' None,
      ScamPattern
        (seq [str ''secret'', plus ws, alt [str ''shopper'', seq [str ''mystery'', plus ws,
         str ''shopper'']]])
        ''Mystery Shopper Scam'' ''medium'' None,
      ScamPattern
        (seq [str ''envelope'', plus ws, str ''stuffing''])
        ''Envelope Stuffing Scam'' ''medium'' None,
      ScamPattern
        (seq [str ''typing'', plus ws, alt [str ''job'', str ''work'', str ''position''],
         star ws, opt (seq [str ''from'', plus ws, str ''home''])])
        ''Typing Scam'' ''low'' None,
      ScamPattern
        (seq [str ''we'', plus ws, str ''found'', plus ws, str ''your'', plus ws,
         alt [str ''resume'', str ''profile'', str ''cv'']])
        ''Fake Recruiter'' ''medium'' None,
      ScamPattern
        (seq [str ''congratulations'', star AnyChar, str ''selected'', plus ws, str ''for'',
         plus ws, opt (seq [str ''a'', plus ws]), alt [str ''position'', str ''job'',
         str ''role'', str ''interview'']])
        ''Fake Job Offer'' ''high'' None,
      ScamPattern
        (seq [str ''work'', plus ws, str ''from'', plus ws, alt [str ''home'', str ''anywhere''],
         Repeat 0 (Some 100) AnyChar, str ''$'', dg, star (Chr [Digit, Lit (of_char CHR '','')]),
         star ws, alt [str ''per'', str ''a'', str ''daily'', str ''weekly'']])
        ''WFH Scam'' ''medium'' None,
      ScamPattern
        (seq [str ''below'', plus ws, str ''market'', plus ws, alt [str ''price'', str ''value'',
         str ''rate'', str ''rent'']])
        ''Rental Scam'' ''medium'' None,
      ScamPattern
        (seq [alt [str ''deposit'', str ''rent''], plus ws, alt [str ''via'', str ''with'',
         str ''by''], plus ws, alt [str ''wire'', str ''zelle'', str ''venmo'',
         seq [str ''cash'', star ws, str ''app''], seq [str ''gift'', plus ws, str ''card'']]])
        ''Rental Payment Scam'' ''high'' None,
      ScamPattern
        (seq [str ''can'', opt (Chr [Lit 39]), str ''t'', plus ws, alt [str ''show'',
         str ''view'', str ''visit''], plus ws, opt (seq [str ''the'', plus ws]),
         alt [str ''property'', str ''apartment'', str ''house'', str ''unit''], plus ws,
         alt [seq [str ''in'', plus ws, str ''person''], seq [str ''right'', plus ws,
         str ''now'']]])
        ''Rental Scam'' ''high'' None,
      ScamPattern
        (seq [str ''i'', opt (Chr [Lit 39]), str ''m'', plus ws, alt [seq [str ''out'', plus ws,
         str ''of'', plus ws, alt [str ''town'', str ''country'', str ''state'']],
         str ''overseas'', str ''abroad'', str ''deployed'', str ''traveling''], star ws,
         opt (alt [seq [str ''right'', plus ws, str ''now''], str ''currently'']),
         Repeat 0 (Some 100) AnyChar, plus ws, alt [str ''key'', str ''property'', str ''rent'',
         str ''lease'']])
        ''Rental Scam'' ''high'' None]"

text \<open>Lines 224 to 251 of the scanner.\<close>

definition SCAM_PATTERNS_224_251 :: "scam_pattern list" where
  "SCAM_PATTERNS_224_251 =
     [ScamPattern
        (seq [str ''send'', plus ws, opt (seq [str ''the'', plus ws]), str ''deposit'', plus ws,
         alt [str ''first'', str ''now'', str ''today'', str ''before'']])
        ''Rental Deposit Scam'' ''high'' None,
      ScamPattern
        (seq [str ''first'', plus ws, str ''month'', opt AnyChar, opt (str ''s''), plus ws,
         str ''rent'', plus ws, alt [str ''plus'', str ''and'', str ''+''], plus ws,
         str ''deposit'', plus ws, alt [str ''via'', str ''through'', str ''by'']])
        ''Rental Payment Scam'' ''medium'' None,
      ScamPattern
        (seq [str ''available'', plus ws, str ''immediately'', Repeat 0 (Some 100) AnyChar,
         str ''no'', plus ws, alt [str ''lease'', seq [str ''credit'', plus ws, str ''check'']]])
        ''Rental Scam'' ''medium'' None,
      ScamPattern
        (seq [str ''selling'', plus ws, opt (seq [str ''my'', plus ws]),
         alt [seq [str ''ticket'', opt (str ''s'')], seq [str ''passe'', opt (str ''s'')]],
         plus ws, alt [str ''for'', str ''to'', str ''at''], plus ws, opt (seq [str ''a'',
         plus ws]), alt [str ''discount'', str ''less'', str ''half'', str ''cheap'']])
        ''Ticket Scam'' ''medium'' None,
      ScamPattern
        (seq [alt [seq [str ''sold'', plus ws, str ''out''], seq [str ''last'', plus ws,
         str ''minute'']], plus ws, alt [seq [str ''ticket'', opt (str ''s'')],
         seq [str ''passe'', opt (str ''s'')]], plus ws, str ''available''])
        ''Ticket Scam'' ''medium'' None,
      ScamPattern
        (seq [str ''can'', opt (Chr [Lit 39]), str ''t'', plus ws, alt [str ''go'',
         seq [str ''make'', plus ws, str ''it''], str ''attend''], Repeat 0 (Some 100) AnyChar,
         str ''selling'', plus ws, opt (seq [str ''my'', plus ws]), str ''ticket'',
         opt (str ''s'')])
        ''Ticket Scam Risk'' ''low'' None,
      ScamPattern
        (seq [str ''vip'', plus ws, alt [seq [str ''ticket'', opt (str ''s'')],
         seq [str ''passe'', opt (str ''s'')], str ''access''], plus ws, alt [seq [str ''for'',
         plus ws, str ''sale''], str ''available'', seq [str ''at'', plus ws, str ''a'', plus ws,
         str ''discount'']]])
        ''VIP Ticket Scam'' ''medium'' None,
      ScamPattern
        (seq [str ''meet'', plus ws, str ''and'', plus ws, str ''greet'', plus ws,
         alt [seq [str ''passe'', opt (str ''s'')], seq [str ''ticket'', opt (str ''s'')],
         seq [str ''package'', opt (str ''s'')]], plus ws, str ''available''])
        ''Fake Meet & Greet'' ''medium'' None,
      ScamPattern
        (seq [str ''free'', plus ws, alt [str ''puppy'', str ''puppies'', str ''kitten'',
         str ''kittens'', str ''dog'', str ''cat''], plus ws, opt (seq [str ''to'', plus ws]),
         opt (seq [str ''a'', plus ws]), opt (seq [str ''good'', plus ws]), str ''home''])
        ''Pet Scam Risk'' ''low'' None,
      ScamPattern
        (seq [alt [str ''puppy'', str ''kitten'', str ''dog'', str ''cat''], plus ws,
         opt (seq [str ''for'', plus ws]), alt [str ''adoption'', str ''sale''],
         Repeat 0 (Some 100) AnyChar, str ''$'', dg])
        ''Pet Scam Risk'' ''low'' None,
      ScamPattern
        (seq [str ''shipping'', plus ws, alt [str ''fee'', str ''cost''], plus ws,
         alt [str ''for'', seq [str ''to'', plus ws, str ''deliver'']], plus ws,
         opt (seq [str ''the'', plus ws]), alt [str ''puppy'', str ''kitten'', str ''pet'',
         str ''dog'', str ''cat'']])
        ''Pet Shipping Scam'' ''high'' None,
      ScamPattern
        (seq [str ''pet'', plus ws, alt [str ''transportation'', str ''delivery'',
         str ''shipping''], plus ws, alt [str ''insurance'', str ''fee'', str ''cost'',
         str ''charge'']])
        ''Pet Shipping Scam'' ''high'' None,
      ScamPattern
        (seq [str ''akc'', plus ws, str ''registered'', Repeat 0 (Some 100) AnyChar, str ''$'',
         dg])
        ''Fake Breeder'' ''medium'' None,
      ScamPattern
        (seq [str ''donate'', plus ws, alt [str ''now'', str ''today'', str ''here'',
         str ''directly''], star ws, opt (seq [str ''to'', plus ws]), opt (alt [str ''help'',
         str ''save'', str ''support''])])
        ''Donation Solicitation'' ''low'' None,
      ScamPattern
        (seq [str ''100%'', plus ws, opt (seq [str ''of'', plus ws]), opt (seq [str ''all'',
         plus ws]), alt [seq [str ''donation'', opt (str ''s'')], str ''proceeds''], plus ws,
         alt [str ''go'', str ''goes''], plus ws, opt (seq [str ''directly'', plus ws]),
         str ''to''])
        ''Charity Scam Risk'' ''medium'' None,
      ScamPattern
        (seq [str ''send'', plus ws, alt [seq [str ''donation'', opt (str ''s'')], str ''money'',
         seq [str ''fund'', opt (str ''s'')]], plus ws, alt [str ''to'', str ''via''], plus ws,
         opt (seq [str ''this'', plus ws]), alt [seq [str ''cash'', star ws, str ''app''],
         str ''venmo'', str ''zelle'', str ''paypal'', str ''bitcoin'', str ''btc'']])
        ''Suspicious Donation'' ''high'' None,
      ScamPattern
        (alt [seq [str ''go'', star ws, str ''fund'', star ws, str ''me'',
         Repeat 0 (Some 100) AnyChar, str ''share''], seq [str ''share'',
         Repeat 0 (Some 100) AnyChar, str ''go'', star ws, str ''fund'', star ws, str ''me'']])
        ''GoFundMe Share Request'' ''low'' None,
      ScamPattern
        (seq [str ''my'', plus ws, alt [str ''child'', str ''baby'', str ''son'',
         str ''daughter'', str ''family'', str ''mother'', str ''father''], plus ws,
         opt (seq [str ''is'', plus ws]), alt [str ''sick'', str ''dying'', seq [str ''has'',
         plus ws, str ''cancer''], seq [str ''need'', opt (str ''s''), plus ws,
         str ''surgery'']]])
        ''Sympathy Scam Risk'' ''medium'' None,
      ScamPattern
        (seq [str ''irs'', plus ws, alt [str ''refund'', str ''payment'', str ''stimulus'',
         str ''deposit'']])
        ''IRS Scam'' ''high'' None,
      ScamPattern
        (seq [str ''tax'', plus ws, alt [str ''refund'', str ''rebate''], plus ws,
         alt [str ''available'', str ''ready'', str ''pending'']])
        ''Tax Scam'' ''high'' None]"

text \<open>Lines 252 to 279 of the scanner.\<close>

definition SCAM_PATTERNS_252_279 :: "scam_pattern list" where
  "SCAM_PATTERNS_252_279 =
     [ScamPattern
        (seq [str ''government'', plus ws, alt [str ''grant'', str ''payment'', str ''stimulus'',
         str ''relief''], plus ws, alt [str ''available'', str ''free'', seq [str ''for'',
         plus ws, str ''you'']]])
        ''Government Grant Scam'' ''high'' None,
      ScamPattern
        (seq [str ''you'', plus ws, alt [str ''qualify'', seq [str ''are'', plus ws,
         str ''eligible'']], plus ws, str ''for'', plus ws, opt (seq [str ''a'', plus ws]),
         opt (seq [str ''free'', plus ws]), alt [str ''government'', str ''federal'',
         str ''state''], plus ws, alt [str ''grant'', str ''money'', str ''fund'']])
        ''Government Grant Scam'' ''high'' None,
      ScamPattern
        (seq [str ''social'', plus ws, str ''security'', plus ws, alt [str ''number'',
         str ''benefit'', str ''payment''], plus ws, alt [seq [str ''has'', plus ws,
         str ''been''], str ''is''], plus ws, alt [str ''suspended'', str ''compromised'',
         str ''frozen'']])
        ''SSA Scam'' ''high'' None,
      ScamPattern
        (seq [str ''unclaimed'', plus ws, alt [str ''tax'', str ''government'', str ''federal''],
         plus ws, alt [str ''refund'', str ''money'', str ''payment'', str ''fund'']])
        ''Unclaimed Money Scam'' ''high'' None,
      ScamPattern
        (seq [str ''your'', plus ws, alt [str ''package'', str ''parcel'', str ''order'',
         str ''delivery''], plus ws, alt [str ''is'', seq [str ''has'', plus ws, str ''been'']],
         plus ws, alt [str ''held'', str ''delayed'', str ''stuck'', str ''pending'',
         str ''waiting'']])
        ''Delivery Scam'' ''medium'' None,
      ScamPattern
        (seq [str ''pay'', plus ws, opt (seq [str ''a'', plus ws]), alt [seq [str ''custom'',
         opt (str ''s'')], str ''delivery'', str ''shipping'', str ''clearance''], plus ws,
         alt [str ''fee'', str ''charge'', str ''duty''], plus ws, opt (seq [str ''to'',
         plus ws]), alt [str ''release'', str ''receive'', str ''claim'']])
        ''Delivery Fee Scam'' ''high'' None,
      ScamPattern
        (alt [seq [str ''schedule'', plus ws, str ''your'', plus ws, str ''delivery''],
         seq [str ''redelivery'', plus ws, str ''fee'']])
        ''Delivery Scam'' ''medium'' None,
      ScamPattern
        (seq [alt [str ''usps'', str ''fedex'', str ''ups'', str ''dhl''], plus ws,
         alt [str ''package'', str ''parcel'', str ''order''], plus ws,
         alt [str ''notification'', str ''alert'', str ''update'']])
        ''Fake Delivery Alert'' ''medium'' None,
      ScamPattern
        (alt [seq [str ''free'', plus ws, str ''trial'', Repeat 0 (Some 100) AnyChar,
         str ''credit'', plus ws, str ''card''], seq [str ''credit'', plus ws, str ''card'',
         Repeat 0 (Some 100) AnyChar, str ''free'', plus ws, str ''trial'']])
        ''Subscription Trap'' ''medium'' None,
      ScamPattern
        (seq [str ''only'', plus ws, alt [str ''pay'', seq [str ''cover'', opt (str ''s'')]],
         plus ws, opt (seq [str ''for'', plus ws]), alt [str ''shipping'', str ''postage'',
         str ''handling'']])
        ''Hidden Subscription'' ''medium'' None,
      ScamPattern
        (alt [seq [str ''cancel'', plus ws, str ''anytime'', Repeat 0 (Some 100) AnyChar,
         str ''act'', plus ws, str ''now''], seq [str ''act'', plus ws, str ''now'',
         Repeat 0 (Some 100) AnyChar, str ''cancel'', plus ws, str ''anytime'']])
        ''Subscription Pressure'' ''low'' None,
      ScamPattern
        (seq [str ''exclusive'', plus ws, alt [str ''membership'', str ''access'', str ''club''],
         star ws, alt [str ''only'', str ''just''], plus ws, str ''$'', dg])
        ''Membership Trap'' ''medium'' None,
      ScamPattern
        (seq [str ''scan'', plus ws, alt [str ''this'', str ''the'', str ''my''], plus ws,
         str ''qr'', plus ws, str ''code''])
        ''QR Code Risk'' ''medium'' None,
      ScamPattern
        (seq [str ''qr'', plus ws, str ''code'', plus ws, alt [str ''to'', str ''for''], plus ws,
         alt [str ''claim'', str ''get'', str ''receive'', str ''win'', str ''access'',
         str ''pay'']])
        ''QR Code Scam'' ''medium'' None,
      ScamPattern
        (seq [str ''cash'', plus ws, str ''flip'', opt (str ''ping'')])
        ''Cash Flipping Scam'' ''high'' None,
      ScamPattern
        (seq [str ''turn'', plus ws, opt (str ''$''), dg, star (Chr [Digit,
         Lit (of_char CHR '','')]), plus ws, alt [str ''into'', str ''to''], plus ws,
         opt (str ''$''), dg, star (Chr [Digit, Lit (of_char CHR '','')])])
        ''Money Multiplication Scam'' ''high'' None,
      ScamPattern
        (seq [str ''send'', plus ws, opt (str ''$''), dg, star (Chr [Digit,
         Lit (of_char CHR '','')]), star ws, opt (alt [str ''and'', str '','']), star ws,
         alt [str ''get'', str ''receive'', seq [str ''i'', opt (Chr [Lit 39]), str ''ll'',
         plus ws, str ''send'']], star ws, opt (seq [str ''back'', plus ws]), opt (str ''$''),
         dg, star (Chr [Digit, Lit (of_char CHR '','')])])
        ''Cash Flipping Scam'' ''high'' None,
      ScamPattern
        (seq [str ''money'', plus ws, alt [str ''flip'', str ''double'', str ''multiply'',
         str ''method'']])
        ''Cash Flipping Scam'' ''high'' None,
      ScamPattern
        (seq [str ''who'', plus ws, alt [seq [str ''want'', opt (str ''s'')], seq [str ''need'',
         opt (str ''s'')]], plus ws, opt (seq [str ''a'', plus ws]), opt (seq [str ''cash'',
         plus ws]), str ''flip''])
        ''Cash Flipping Scam'' ''high'' None,
      ScamPattern
        (seq [str ''bless'', opt (str ''ing''), plus ws, alt [str ''someone'', str ''people'',
         str ''you''], plus ws, str ''with'', plus ws, alt [str ''cash'', str ''money'',
         str ''$'']])
        ''Cash Blessing Scam'' ''medium'' None]"

text \<open>Lines 282 to 307 of the scanner.\<close>

definition SCAM_PATTERNS_282_307 :: "scam_pattern list" where
  "SCAM_PATTERNS_282_307 =
     [ScamPattern
        (seq [str ''sugar'', plus ws, alt [str ''daddy'', str ''mommy'', str ''mama'',
         str ''baby'']])
        ''Sugar Scam'' ''medium'' None,
      ScamPattern
        (seq [str ''looking'', plus ws, str ''for'', plus ws, opt (seq [str ''a'', plus ws]),
         str ''loyal'', plus ws, opt (seq [str ''sugar'', plus ws]), alt [str ''baby'',
         str ''babe'']])
        ''Sugar Scam'' ''medium'' None,
      ScamPattern
        (seq [str ''i'', opt (Chr [Lit 39]), str ''ll'', plus ws, alt [str ''pay'', str ''send'',
         str ''give''], plus ws, opt (seq [str ''you'', plus ws]), opt (str ''$''), dg,
         star (Chr [Digit, Lit (of_char CHR '','')]), star ws, alt [str ''weekly'',
         str ''daily'', seq [str ''per'', plus ws, str ''week''], str ''allowance'']])
        ''Sugar Scam'' ''high'' None,
      ScamPattern
        (seq [str ''weekly'', plus ws, str ''allowance'', plus ws, str ''of'', plus ws,
         opt (str ''$''), dg, star (Chr [Digit, Lit (of_char CHR '','')])])
        ''Sugar Scam'' ''high'' None,
      ScamPattern
        (seq [str ''need'', plus ws, opt (seq [str ''a'', plus ws]), alt [str ''loyal'',
         str ''honest'', str ''trustworthy''], plus ws, opt (seq [str ''sugar'', plus ws]),
         alt [str ''baby'', str ''babe'']])
        ''Sugar Scam'' ''medium'' None,
      ScamPattern
        (seq [str ''i'', plus ws, alt [str ''have'', str ''got''], plus ws,
         opt (seq [str ''your'', plus ws]), alt [str ''private'', str ''intimate'',
         str ''explicit''], plus ws, alt [seq [str ''photo'', opt (str ''s'')],
         seq [str ''picture'', opt (str ''s'')], seq [str ''video'', opt (str ''s'')],
         str ''content'']])
        ''Sextortion Threat'' ''critical'' None,
      ScamPattern
        (seq [alt [str ''pay'', str ''send''], plus ws, alt [str ''or'', str ''otherwise''],
         plus ws, alt [seq [str ''i'', opt (Chr [Lit 39]), str ''ll''], seq [str ''we'', plus ws,
         str ''will'']], plus ws, alt [str ''release'', str ''share'', str ''post'',
         str ''send'', str ''publish'']])
        ''Blackmail Threat'' ''critical'' None,
      ScamPattern
        (seq [str ''i'', opt (Chr [Lit 39]), str ''ll'', plus ws, alt [str ''expose'',
         str ''leak'', str ''share'', str ''release'', str ''publish''], plus ws,
         opt (seq [str ''your'', plus ws]), alt [seq [str ''photo'', opt (str ''s'')],
         seq [str ''picture'', opt (str ''s'')], seq [str ''video'', opt (str ''s'')],
         seq [str ''secret'', opt (str ''s'')]]])
        ''Blackmail Threat'' ''critical'' None,
      ScamPattern
        (seq [str ''i'', plus ws, str ''recorded'', plus ws, alt [str ''you'', seq [str ''your'',
         plus ws, str ''screen''], seq [str ''your'', plus ws, str ''webcam'']]])
        ''Sextortion Scam'' ''critical'' None,
      ScamPattern
        (seq [str ''your'', plus ws, alt [str ''camera'', str ''webcam''], plus ws,
         alt [str ''was'', seq [str ''has'', plus ws, str ''been'']], plus ws,
         alt [str ''hacked'', str ''compromised'', str ''accessed'']])
        ''Sextortion Scam'' ''critical'' None,
      ScamPattern
        (seq [str ''accidentally'', plus ws, alt [str ''sent'', str ''paid'',
         str ''transferred''], plus ws, opt (seq [str ''you'', plus ws]), alt [seq [str ''too'',
         plus ws, str ''much''], seq [opt (str ''$''), dg]]])
        ''Overpayment Scam'' ''high'' None,
      ScamPattern
        (seq [str ''please'', plus ws, alt [str ''send'', str ''refund'', str ''return''],
         plus ws, opt (seq [str ''the'', plus ws]), alt [str ''difference'', str ''extra'',
         str ''overpayment'']])
        ''Overpayment Scam'' ''high'' None,
      ScamPattern
        (seq [str ''you'', plus ws, alt [str ''are'', seq [str ''have'', plus ws, str ''been'']],
         plus ws, alt [str ''owed'', str ''due''], plus ws, opt (seq [str ''a'', plus ws]),
         str ''refund''])
        ''Fake Refund'' ''medium'' None,
      ScamPattern
        (seq [str ''claim'', plus ws, str ''your'', plus ws, str ''refund''])
        ''Fake Refund'' ''medium'' None,
      ScamPattern
        (alt [seq [str ''pending'', plus ws, str ''refund'', Repeat 0 (Some 100) AnyChar,
         str ''verify''], seq [str ''verify'', Repeat 0 (Some 100) AnyChar, str ''pending'',
         plus ws, str ''refund'']])
        ''Fake Refund'' ''high'' None,
      ScamPattern
        (seq [str ''recruit'', plus ws, opt (seq [plus dg, plus ws]), alt [seq [str ''member'',
         opt (str ''s'')], str ''people'', seq [str ''friend'', opt (str ''s'')],
         seq [str ''partner'', opt (str ''s'')]], plus ws, alt [str ''and'', str ''to''],
         plus ws, alt [str ''earn'', str ''get'', str ''receive'']])
        ''Pyramid Scheme'' ''high'' None,
      ScamPattern
        (alt [seq [str ''down'', star ws, str ''line''], seq [str ''up'', star ws,
         str ''line'']])
        ''MLM Language'' ''medium'' None,
      ScamPattern
        (seq [str ''matrix'', plus ws, alt [str ''program'', str ''system'', str ''plan'',
         str ''opportunity'']])
        ''Matrix Scheme'' ''high'' None,
      ScamPattern
        (seq [str ''gifting'', plus ws, alt [str ''circle'', str ''table'', str ''program'']])
        ''Gifting Circle Scam'' ''high'' None,
      ScamPattern
        (seq [str ''blessing'', plus ws, alt [str ''loom'', str ''circle'']])
        ''Blessing Loom Scam'' ''high'' None]"

text \<open>Lines 308 to 337 of the scanner.\<close>

definition SCAM_PATTERNS_308_337 :: "scam_pattern list" where
  "SCAM_PATTERNS_308_337 =
     [ScamPattern
        (seq [str ''get'', plus ws, str ''paid'', plus ws, alt [str ''to'', str ''for''],
         plus ws, str ''recruit'', opt (str ''ing'')])
        ''Pyramid Scheme'' ''high'' None,
      ScamPattern
        (seq [str ''guaranteed'', plus ws, str ''scholarship''])
        ''Scholarship Scam'' ''high'' None,
      ScamPattern
        (seq [str ''scholarship'', plus ws, alt [str ''fee'', seq [str ''application'', plus ws,
         str ''fee''], seq [str ''processing'', plus ws, str ''fee'']]])
        ''Scholarship Fee Scam'' ''high'' None,
      ScamPattern
        (seq [str ''you'', alt [seq [Chr [Lit 39], str ''ve''], seq [plus ws, str ''have'']],
         plus ws, str ''been'', plus ws, alt [str ''awarded'', seq [str ''selected'', plus ws,
         str ''for'']], plus ws, opt (seq [str ''a'', plus ws]), str ''scholarship''])
        ''Fake Scholarship'' ''high'' None,
      ScamPattern
        (seq [str ''free'', plus ws, str ''money'', plus ws, str ''for'', plus ws,
         alt [str ''college'', str ''school'', str ''education'', str ''university'']])
        ''Scholarship Scam Risk'' ''medium'' None,
      ScamPattern
        (seq [str ''guaranteed'', plus ws, alt [str ''visa'', seq [str ''green'', plus ws,
         str ''card''], str ''citizenship'', seq [str ''work'', plus ws, str ''permit'']]])
        ''Immigration Scam'' ''high'' None,
      ScamPattern
        (seq [str ''lottery'', plus ws, alt [str ''visa'', seq [str ''green'', plus ws,
         str ''card'']], plus ws, alt [str ''winner'', str ''result'', str ''selected'']])
        ''Visa Lottery Scam'' ''high'' None,
      ScamPattern
        (seq [str ''immigration'', plus ws, alt [str ''lawyer'', str ''attorney'',
         str ''agent''], star ws, alt [str ''fee'', seq [str ''charge'', opt (str ''s'')],
         seq [str ''special'', plus ws, str ''rate'']]])
        ''Immigration Scam Risk'' ''medium'' None,
      ScamPattern
        (seq [str ''your'', plus ws, alt [str ''car'', str ''vehicle'', str ''auto''], plus ws,
         alt [str ''warranty'', str ''insurance''], plus ws, alt [seq [str ''has'', plus ws,
         str ''expired''], seq [str ''is'', plus ws, str ''expiring''], seq [str ''about'',
         plus ws, str ''to'', plus ws, str ''expire'']]])
        ''Warranty Scam'' ''high'' None,
      ScamPattern
        (seq [str ''extended'', plus ws, alt [str ''warranty'', str ''protection''], plus ws,
         alt [str ''offer'', str ''deal'', str ''available'']])
        ''Extended Warranty Scam'' ''medium'' None,
      ScamPattern
        (seq [str ''final'', plus ws, alt [str ''notice'', str ''warning''],
         Repeat 0 (Some 100) AnyChar, str ''warranty''])
        ''Warranty Scam'' ''high'' None,
      ScamPattern
        (seq [str ''free'', plus ws, alt [str ''vacation'', str ''trip'', str ''cruise'',
         str ''holiday''], star ws, alt [str ''to'', str ''for'', str ''if'', str ''when'']])
        ''Vacation Scam'' ''medium'' None,
      ScamPattern
        (seq [str ''timeshare'', plus ws, alt [str ''presentation'', str ''offer'',
         str ''opportunity'']])
        ''Timeshare Pitch'' ''low'' None,
      ScamPattern
        (seq [str ''you'', alt [seq [Chr [Lit 39], str ''ve''], seq [plus ws, str ''have'']],
         plus ws, alt [str ''won'', seq [str ''been'', plus ws, str ''selected'', plus ws,
         str ''for'']], plus ws, opt (seq [str ''a'', plus ws]), opt (seq [str ''free'',
         plus ws]), alt [str ''vacation'', str ''trip'', str ''cruise'']])
        ''Vacation Scam'' ''high'' None,
      ScamPattern
        (seq [str ''all'', Chr [Space, Lit (of_char CHR ''-'')], str ''inclusive'', plus ws,
         alt [str ''resort'', str ''vacation'', str ''trip''], star ws, alt [str ''only'',
         str ''just'', str ''for''], plus ws, str ''$'', dg])
        ''Vacation Scam Risk'' ''medium'' None,
      ScamPattern
        (seq [str ''you'', plus ws, str ''won'', opt (Chr [Lit 39]), str ''t'', plus ws,
         str ''believe'', plus ws, str ''what'', plus ws, str ''happened''])
        ''Clickbait'' ''low'' None,
      ScamPattern
        (seq [str ''shocking'', plus ws, alt [str ''truth'', str ''news'', str ''reveal'',
         str ''video'', seq [str ''photo'', opt (str ''s'')]]])
        ''Clickbait'' ''low'' None,
      ScamPattern
        (seq [str ''this'', plus ws, alt [str ''video'', str ''photo'', str ''story''], plus ws,
         str ''is'', plus ws, str ''going'', plus ws, str ''viral''])
        ''Clickbait'' ''low'' None,
      ScamPattern
        (seq [str ''the'', plus ws, alt [str ''government'', str ''media'', str ''they''],
         plus ws, alt [seq [str ''doesn'', opt (Chr [Lit 39]), str ''t''], seq [str ''don'',
         opt (Chr [Lit 39]), str ''t'']], plus ws, str ''want'', plus ws, str ''you'', plus ws,
         str ''to'', plus ws, alt [str ''know'', str ''see'']])
        ''Conspiracy Clickbait'' ''low'' None,
      ScamPattern
        (seq [str ''leaked'', plus ws, alt [str ''video'', seq [str ''photo'', opt (str ''s'')],
         seq [str ''document'', opt (str ''s'')], str ''footage'']])
        ''Clickbait'' ''low'' None]"

text \<open>Lines 338 to 363 of the scanner.\<close>

definition SCAM_PATTERNS_338_363 :: "scam_pattern list" where
  "SCAM_PATTERNS_338_363 =
     [ScamPattern
        (alt [seq [str ''celebrity'', Repeat 0 (Some 100) AnyChar, str ''died''],
         seq [str ''died'', Repeat 0 (Some 100) AnyChar, str ''celebrity'']])
        ''Death Hoax Clickbait'' ''low'' None,
      ScamPattern
        (seq [str ''still'', plus ws, str ''available'', opt (str ''?''),
         Repeat 0 (Some 100) AnyChar, str ''cash'', plus ws, str ''only''])
        ''Marketplace Caution'' ''low'' (Some [''facebook'']),
      ScamPattern
        (seq [str ''my'', plus ws, alt [str ''husband'', str ''wife'', str ''son'',
         str ''daughter'', str ''relative''], plus ws, alt [str ''left'', str ''passed'',
         seq [str ''doesn'', opt (Chr [Lit 39]), str ''t'', plus ws, str ''need'']]])
        ''Emotional Marketplace Pitch'' ''low'' (Some [''facebook'']),
      ScamPattern
        (seq [str ''moving'', plus ws, alt [str ''sale'', str ''away'', str ''overseas''],
         Repeat 0 (Some 100) AnyChar, str ''must'', plus ws, alt [str ''sell'', str ''go'']])
        ''Urgency Marketplace Pitch'' ''low'' (Some [''facebook'']),
      ScamPattern
        (seq [alt [seq [str ''pick'', plus ws, str ''up''], str ''meet''], plus ws, str ''at'',
         plus ws, opt (seq [str ''a'', plus ws]), alt [seq [str ''gas'', plus ws,
         str ''station''], seq [str ''parking'', plus ws, str ''lot''], seq [str ''neutral'',
         plus ws, str ''location'']]])
        ''Marketplace Safety'' ''low'' (Some [''facebook'']),
      ScamPattern
        (seq [str ''i'', opt (Chr [Lit 39]), str ''ll'', plus ws, alt [str ''ship'',
         str ''send'', str ''mail''], plus ws, alt [str ''it'', seq [str ''the'', plus ws,
         str ''item'']], Repeat 0 (Some 100) AnyChar, str ''pay'', plus ws, alt [str ''first'',
         str ''upfront'', seq [str ''in'', plus ws, str ''advance'']]])
        ''Marketplace Prepayment Scam'' ''high'' (Some [''facebook'']),
      ScamPattern
        (seq [str ''deposit'', plus ws, opt (seq [str ''to'', plus ws]), str ''hold'', plus ws,
         alt [str ''it'', seq [str ''the'', plus ws, str ''item'']]])
        ''Marketplace Deposit Scam'' ''medium'' (Some [''facebook'']),
      ScamPattern
        (seq [str ''send'', plus ws, opt (seq [str ''a'', plus ws]), str ''verification'',
         plus ws, str ''code''])
        ''Verification Code Scam'' ''high'' None,
      ScamPattern
        (seq [str ''google'', plus ws, str ''voice'', plus ws, alt [str ''verification'',
         str ''code'', str ''number'']])
        ''Google Voice Scam'' ''high'' None,
      ScamPattern
        (seq [str ''brand'', plus ws, alt [str ''ambassador'', seq [str ''collab'',
         opt (str ''oration'')], str ''partnership'', str ''deal'']])
        ''Fake Brand Deal'' ''low'' (Some [''instagram'']),
      ScamPattern
        (seq [str ''we'', opt (Chr [Lit 39]), str ''d'', plus ws, str ''love'', plus ws,
         alt [str ''to'', seq [str ''for'', plus ws, str ''you'', plus ws, str ''to'']], plus ws,
         alt [str ''feature'', str ''promote'', str ''collaborate'', str ''partner'']])
        ''Fake Collab Request'' ''low'' (Some [''instagram'']),
      ScamPattern
        (seq [str ''send'', plus ws, str ''us'', plus ws, opt (seq [str ''a'', plus ws]),
         str ''dm'', plus ws, alt [str ''for'', seq [str ''to'', plus ws, str ''get'']], plus ws,
         opt (seq [str ''a'', plus ws]), str ''discount''])
        ''DM Discount Scam'' ''low'' (Some [''instagram'']),
      ScamPattern
        (seq [str ''get'', plus ws, plus dg, opt (str ''k''), opt (str ''+''), plus ws,
         alt [str ''followers'', str ''likes'', str ''views''], plus ws, alt [str ''in'',
         str ''within'', str ''under'']])
        ''Fake Follower Service'' ''medium'' (Some [''instagram'', ''x'', ''tiktok'']),
      ScamPattern
        (seq [str ''buy'', plus ws, opt (seq [str ''real'', plus ws]), alt [str ''followers'',
         str ''likes'', str ''views'', str ''engagement'']])
        ''Fake Engagement Service'' ''medium'' (Some [''instagram'', ''x'', ''tiktok'']),
      ScamPattern
        (seq [str ''grow'', plus ws, str ''your'', plus ws, alt [str ''account'',
         str ''following'', str ''page''], plus ws, alt [str ''fast'', str ''instantly'',
         str ''overnight'']])
        ''Fake Growth Service'' ''medium'' (Some [''instagram'', ''x'', ''tiktok'']),
      ScamPattern
        (seq [str ''sub'', opt (str ''scribe''), plus ws, opt (seq [str ''to'', plus ws]),
         str ''my'', plus ws, str ''channel''])
        ''Sub4Sub Spam'' ''low'' (Some [''youtube'']),
      ScamPattern
        (alt [seq [str ''sub'', star ws, str ''4'', star ws, str ''sub''], seq [str ''follow'',
         star ws, str ''4'', star ws, str ''follow''], str ''f4f'', str ''s4s''])
        ''Sub4Sub Spam'' ''low'' (Some [''youtube'', ''instagram'', ''tiktok'']),
      ScamPattern
        (seq [str ''check'', plus ws, str ''out'', plus ws, str ''my'', plus ws,
         alt [str ''channel'', str ''video'', str ''content'']])
        ''Self-Promo Spam'' ''low'' (Some [''youtube'']),
      ScamPattern
        (seq [str ''free'', plus ws, alt [seq [str ''v'', opt (str ''-''), str ''bucks''],
         str ''robux'', seq [str ''coin'', opt (str ''s'')], seq [str ''gem'', opt (str ''s'')],
         seq [str ''diamond'', opt (str ''s'')]]])
        ''Game Currency Scam'' ''high'' None,
      ScamPattern
        (seq [alt [seq [str ''v'', opt (str ''-''), str ''bucks''], str ''robux''], plus ws,
         alt [str ''generator'', str ''hack'', str ''free'', str ''glitch'', str ''method'']])
        ''Game Currency Scam'' ''high'' None]"

text \<open>Lines 366 to 395 of the scanner.\<close>

definition SCAM_PATTERNS_366_395 :: "scam_pattern list" where
  "SCAM_PATTERNS_366_395 =
     [ScamPattern
        (seq [str ''get'', plus ws, alt [str ''verified'', seq [str ''your'', plus ws,
         str ''blue'', plus ws, alt [str ''check'', str ''tick'', str ''badge'']]]])
        ''Fake Verification'' ''medium'' None,
      ScamPattern
        (seq [str ''verified'', plus ws, alt [str ''badge'', str ''check'', str ''tick''],
         plus ws, opt (seq [str ''for'', plus ws]), alt [str ''only'', str ''just''], plus ws,
         opt (str ''$''), dg])
        ''Fake Verification Sale'' ''high'' None,
      ScamPattern
        (seq [str ''apply'', plus ws, str ''for'', plus ws, str ''verification'', plus ws,
         alt [str ''here'', str ''now'', str ''today'']])
        ''Fake Verification'' ''medium'' None,
      ScamPattern
        (seq [str ''invoice'', plus ws, opt (str ''#''), plus dg, Repeat 0 (Some 100) AnyChar,
         str ''$'', seq [plus (Chr [Digit, Lit (of_char CHR '','')]), opt (str ''.''), star dg]])
        ''Fake Invoice'' ''high'' None,
      ScamPattern
        (seq [str ''payment'', plus ws, alt [str ''due'', str ''overdue'', str ''outstanding'',
         str ''pending''], star ws, opt (seq [str ''of'', plus ws]), str ''$''])
        ''Fake Invoice'' ''high'' None,
      ScamPattern
        (seq [str ''your'', plus ws, alt [str ''subscription'', str ''membership'',
         str ''order''], plus ws, alt [seq [str ''has'', plus ws, str ''been''], str ''was''],
         plus ws, alt [str ''renewed'', str ''charged'', str ''billed'']])
        ''Fake Billing Alert'' ''high'' None,
      ScamPattern
        (seq [str ''unauthorized'', plus ws, alt [str ''charge'', str ''transaction'',
         str ''payment'', str ''purchase''], plus ws, alt [str ''of'', str ''for''], plus ws,
         str ''$''])
        ''Fake Charge Alert'' ''high'' None,
      ScamPattern
        (seq [str ''reset'', plus ws, str ''your'', plus ws, str ''password'', plus ws,
         alt [str ''immediately'', str ''now'', str ''here'']])
        ''Credential Harvesting'' ''high'' None,
      ScamPattern
        (seq [str ''your'', plus ws, str ''password'', plus ws, alt [seq [str ''has'', plus ws,
         str ''been''], str ''was''], plus ws, alt [str ''compromised'', str ''leaked'',
         str ''exposed'', str ''found'']])
        ''Fake Password Alert'' ''high'' None,
      ScamPattern
        (seq [str ''unusual'', plus ws, alt [seq [str ''sign'', opt (Chr [Space,
         Lit (of_char CHR ''-'')]), str ''in''], str ''login'', str ''activity''], plus ws,
         alt [str ''attempt'', str ''detected'', str ''from'']])
        ''Fake Login Alert'' ''medium'' None,
      ScamPattern
        (seq [str ''someone'', plus ws, alt [seq [str ''tried'', plus ws, str ''to''],
         seq [str ''is'', plus ws, str ''trying'', plus ws, str ''to'']], plus ws,
         alt [str ''access'', seq [str ''log'', star ws, str ''in'', star ws, str ''to''],
         str ''hack''], plus ws, str ''your'', plus ws, str ''account''])
        ''Fake Security Alert'' ''high'' None,
      ScamPattern
        (seq [str ''complete'', plus ws, alt [str ''this'', str ''a''], plus ws,
         opt (seq [str ''short'', plus ws]), alt [str ''survey'', str ''questionnaire''],
         plus ws, alt [str ''to'', str ''and''], plus ws, alt [str ''win'', str ''get'',
         str ''receive'', str ''claim'']])
        ''Survey Scam'' ''medium'' None,
      ScamPattern
        (seq [str ''take'', plus ws, alt [str ''this'', str ''our'', str ''a''], plus ws,
         str ''survey'', Repeat 0 (Some 100) AnyChar, opt (str ''$''), plus dg, star ws,
         alt [seq [str ''gift'', plus ws, str ''card''], str ''cash'', str ''reward'']])
        ''Survey Scam'' ''medium'' None,
      ScamPattern
        (seq [str ''your'', plus ws, str ''opinion'', plus ws, opt (seq [str ''is'', plus ws]),
         str ''worth'', plus ws, opt (str ''$''), dg])
        ''Survey Scam'' ''medium'' None,
      ScamPattern
        (seq [str ''download'', plus ws, alt [str ''this'', str ''my'', str ''our'',
         str ''the''], plus ws, opt (seq [str ''free'', plus ws]), alt [str ''app'',
         str ''software'', str ''tool'', str ''program''], plus ws, alt [str ''to'',
         str ''and''], plus ws, alt [str ''earn'', str ''make'', str ''win'', str ''get'']])
        ''Fake App Scam'' ''high'' None,
      ScamPattern
        (seq [str ''this'', plus ws, alt [str ''app'', str ''bot'', str ''software'',
         str ''tool''], plus ws, alt [seq [str ''make'', opt (str ''s'')], seq [str ''earn'',
         opt (str ''s'')], seq [str ''generate'', opt (str ''s'')]], plus ws, opt (str ''$''),
         dg, star (Chr [Digit, Lit (of_char CHR '','')]), star ws, alt [str ''per'', str ''a'',
         str ''daily'', str ''weekly'']])
        ''Fake Earning App'' ''high'' None,
      ScamPattern
        (seq [str ''get'', plus ws, str ''paid'', plus ws, alt [str ''to'', str ''for''],
         plus ws, alt [seq [str ''watch'', opt (str ''ing'')], seq [str ''click'',
         opt (str ''ing'')], seq [str ''lik'', alt [str ''e'', str ''ing'']], seq [str ''view'',
         opt (str ''ing'')]]])
        ''Fake Earning App'' ''medium'' None,
      ScamPattern
        (seq [str ''eliminate'', plus ws, opt (seq [str ''your'', plus ws]), alt [str ''debt'',
         seq [str ''student'', plus ws, str ''loan'', opt (str ''s'')], seq [str ''credit'',
         plus ws, str ''card'', plus ws, str ''debt'']]])
        ''Debt Relief Scam'' ''medium'' None,
      ScamPattern
        (seq [str ''debt'', plus ws, alt [str ''forgiveness'', str ''relief'',
         str ''consolidation''], plus ws, alt [str ''program'', str ''plan'', str ''offer''],
         star ws, opt (alt [str ''free'', str ''available'', str ''now''])])
        ''Debt Relief Scam'' ''medium'' None,
      ScamPattern
        (seq [str ''student'', plus ws, str ''loan'', plus ws, alt [str ''forgiveness'',
         str ''cancellation'', str ''relief''], plus ws, alt [str ''apply'', str ''available'',
         str ''free'']])
        ''Student Loan Scam'' ''medium'' None]"

text \<open>Lines 396 to 427 of the scanner.\<close>

definition SCAM_PATTERNS_396_427 :: "scam_pattern list" where
  "SCAM_PATTERNS_396_427 =
     [ScamPattern
        (seq [str ''settle'', plus ws, str ''your'', plus ws, str ''debt'', plus ws, str ''for'',
         plus ws, alt [str ''pennies'', str ''cents'', str ''less'']])
        ''Debt Settlement Scam'' ''medium'' None,
      ScamPattern
        (seq [str ''i'', opt (Chr [Lit 39]), str ''m'', plus ws, alt [str ''stuck'',
         str ''stranded'', str ''trapped''], plus ws, alt [str ''in'', str ''at'',
         str ''overseas'', str ''abroad'']])
        ''Distress Scam'' ''medium'' None,
      ScamPattern
        (seq [str ''i'', plus ws, alt [str ''was'', str ''got''], plus ws, alt [str ''robbed'',
         str ''mugged'', str ''kidnapped'', str ''arrested'']])
        ''Distress Scam'' ''medium'' None,
      ScamPattern
        (seq [str ''please'', plus ws, alt [str ''wire'', str ''send'', str ''transfer''],
         plus ws, str ''money'', plus ws, alt [str ''urgently'', str ''immediately'',
         str ''asap'', str ''now'']])
        ''Emergency Money Request'' ''high'' None,
      ScamPattern
        (seq [str ''i'', opt (Chr [Lit 39]), str ''ll'', plus ws, str ''pay'', plus ws,
         opt (seq [str ''you'', plus ws]), str ''back'', plus ws, alt [seq [str ''as'', plus ws,
         str ''soon'', plus ws, str ''as''], seq [str ''when'', plus ws, str ''i''],
         str ''tomorrow'', seq [str ''next'', plus ws, str ''week'']]])
        ''Money Request'' ''low'' None,
      ScamPattern
        (alt [seq [str ''hospital'', plus ws, alt [str ''bill'', seq [str ''fee'',
         opt (str ''s'')]], Repeat 0 (Some 100) AnyChar, str ''help''], seq [str ''help'',
         Repeat 0 (Some 100) AnyChar, str ''hospital'', plus ws, alt [str ''bill'',
         seq [str ''fee'', opt (str ''s'')]]]])
        ''Medical Emergency Scam'' ''medium'' None,
      ScamPattern
        (seq [str ''ai'', opt (Chr [Space, Lit (of_char CHR ''-'')]), alt [str ''generated'',
         str ''powered'', str ''trading'', str ''bot'', seq [str ''earn'', opt (str ''s'')],
         seq [str ''make'', opt (str ''s'')]]])
        ''AI Scam Tool'' ''medium'' None,
      ScamPattern
        (seq [alt [str ''trading'', str ''earning'', str ''money''], plus ws, alt [str ''bot'',
         str ''robot'', str ''ai'', str ''algorithm''], plus ws, alt [str ''that'',
         str ''which'', str ''guaranteed'']])
        ''AI Trading Scam'' ''high'' None,
      ScamPattern
        (seq [str ''chat'', star ws, str ''gpt'', plus ws, alt [str ''money'', str ''earn'',
         str ''hack'', str ''method'', str ''trading'', seq [str ''passive'', plus ws,
         str ''income'']]])
        ''AI Income Scam'' ''medium'' None,
      ScamPattern
        (alt [seq [str ''ai'', plus ws, str ''clone''], seq [str ''clone'', plus ws, str ''my'',
         plus ws, str ''voice''], str ''deepfake''])
        ''Deepfake Risk'' ''medium'' None,
      ScamPattern
        (seq [str ''buy'', plus ws, opt (seq [str ''a'', plus ws]), alt [seq [str ''gift'',
         plus ws, str ''card''], seq [str ''itunes'', plus ws, str ''card''],
         seq [str ''google'', plus ws, str ''play'', plus ws, str ''card''], seq [str ''steam'',
         plus ws, str ''card'']], plus ws, alt [str ''and'', str ''then''], plus ws,
         str ''send''])
        ''Gift Card Scam'' ''high'' None,
      ScamPattern
        (seq [str ''send'', plus ws, opt (seq [str ''the'', plus ws]), opt (seq [str ''gift'',
         plus ws, str ''card'', plus ws]), alt [str ''code'', str ''number'', str ''pin'',
         str ''redemption'']])
        ''Gift Card Scam'' ''high'' None,
      ScamPattern
        (seq [str ''pay'', plus ws, alt [str ''in'', str ''with'', str ''using'', str ''via''],
         plus ws, str ''gift'', plus ws, str ''card'', opt (str ''s'')])
        ''Gift Card Payment'' ''high'' None,
      ScamPattern
        (seq [str ''i'', plus ws, alt [str ''lost'', seq [str ''can'', opt (Chr [Lit 39]),
         str ''t'', plus ws, str ''access'']], plus ws, str ''my'', plus ws, str ''account'',
         star AnyChar, str ''help''])
        ''Account Recovery Scam'' ''low'' None,
      ScamPattern
        (seq [str ''verification'', plus ws, str ''code'', plus ws, alt [str ''was'',
         str ''just''], plus ws, str ''sent'', plus ws, str ''to'', plus ws, alt [str ''your'',
         str ''my'']])
        ''Verification Code Scam'' ''high'' None,
      ScamPattern
        (seq [str ''can'', plus ws, str ''you'', plus ws, str ''forward'', plus ws,
         alt [str ''the'', str ''a'', str ''my''], plus ws, alt [str ''code'', str ''otp'',
         str ''verification'']])
        ''OTP Theft'' ''critical'' None,
      ScamPattern
        (seq [alt [str ''replica'', str ''1:1'', seq [str ''aaa'', star ws, star (str ''+'')],
         seq [str ''mirror'', plus ws, str ''quality'']], plus ws, alt [str ''watch'',
         str ''bag'', seq [str ''shoe'', opt (str ''s'')], seq [str ''sneaker'',
         opt (str ''s'')], str ''designer'']])
        ''Counterfeit Goods'' ''medium'' None,
      ScamPattern
        (seq [alt [str ''gucci'', seq [str ''louis'', star ws, str ''vuitton''], str ''rolex'',
         str ''nike'', str ''jordan''], star ws, opt (seq [str ''for'', plus ws]),
         alt [str ''only'', str ''just''], plus ws, str ''$'', Repeat 1 (Some 2) dg])
        ''Counterfeit Goods'' ''high'' None,
      ScamPattern
        (seq [str ''factory'', plus ws, str ''direct'', plus ws, alt [str ''price'',
         str ''deal'', str ''wholesale'']])
        ''Counterfeit Risk'' ''low'' None,
      ScamPattern
        (seq [str ''your'', plus ws, alt [str ''email'', str ''number'', str ''phone''], plus ws,
         alt [str ''was'', seq [str ''has'', plus ws, str ''been'']], plus ws,
         opt (seq [str ''randomly'', plus ws]), str ''selected''])
        ''Lottery Scam'' ''high'' None]"

text \<open>Lines 428 to 453 of the scanner.\<close>

definition SCAM_PATTERNS_428_453 :: "scam_pattern list" where
  "SCAM_PATTERNS_428_453 =
     [ScamPattern
        (seq [str ''you'', alt [seq [Chr [Lit 39], str ''ve''], seq [plus ws, str ''have'']],
         plus ws, str ''won'', plus ws, opt (seq [str ''a'', plus ws]), opt (str ''$''),
         plus (Chr [Digit, Lit (of_char CHR '','')]), star ws, opt (seq [str ''in'', plus ws]),
         opt (seq [str ''the'', plus ws]), alt [str ''lottery'', str ''sweepstakes'',
         str ''draw'']])
        ''Lottery Scam'' ''high'' None,
      ScamPattern
        (seq [str ''international'', plus ws, alt [str ''lottery'', str ''sweepstakes''],
         plus ws, alt [str ''winner'', str ''notification'', str ''result'']])
        ''International Lottery Scam'' ''high'' None,
      ScamPattern
        (seq [str ''winning'', plus ws, alt [str ''ticket'', str ''number'',
         str ''notification''], plus ws, alt [str ''ref'', str ''reference'', str ''id'']])
        ''Lottery Scam'' ''high'' None,
      ScamPattern
        (seq [str ''prize'', plus ws, str ''claim'', plus ws, alt [str ''agent'', str ''office'',
         str ''department'']])
        ''Lottery Scam'' ''high'' None,
      ScamPattern
        (seq [str ''hire'', plus ws, opt (seq [str ''a'', plus ws]), alt [str ''hacker'',
         seq [str ''ethical'', plus ws, str ''hacker'']]])
        ''Hacking Service Scam'' ''high'' None,
      ScamPattern
        (seq [str ''hack'', plus ws, opt (seq [str ''any'', plus ws]), alt [str ''account'',
         str ''instagram'', str ''facebook'', str ''snapchat'', str ''whatsapp'', str ''email'',
         str ''phone'']])
        ''Hacking Service Scam'' ''high'' None,
      ScamPattern
        (seq [str ''recover'', plus ws, alt [str ''hacked'', str ''stolen'', str ''lost''],
         plus ws, alt [str ''account'', str ''instagram'', str ''facebook'']])
        ''Account Recovery Scam'' ''medium'' None,
      ScamPattern
        (seq [str ''spy'', plus ws, alt [str ''on'', str ''app'', str ''software'',
         str ''tool''], star ws, alt [str ''your'', str ''someone'', str ''partner'',
         str ''spouse'', str ''cheating'']])
        ''Spyware Scam'' ''high'' None,
      ScamPattern
        (seq [str ''legal'', plus ws, alt [str ''action'', seq [str ''proceeding'',
         opt (str ''s'')]], plus ws, alt [seq [str ''will'', plus ws, str ''be''],
         seq [str ''has'', plus ws, str ''been'']], plus ws, alt [str ''taken'',
         str ''initiated'', str ''filed'']])
        ''Legal Threat Scam'' ''high'' None,
      ScamPattern
        (seq [str ''you'', plus ws, alt [str ''are'', seq [str ''have'', plus ws, str ''been'']],
         plus ws, opt (seq [str ''being'', plus ws]), alt [str ''sued'', str ''charged'',
         str ''indicted'']])
        ''Legal Threat Scam'' ''high'' None,
      ScamPattern
        (seq [str ''arrest'', plus ws, str ''warrant'', plus ws, alt [seq [str ''has'', plus ws,
         str ''been''], str ''was''], plus ws, alt [str ''issued'', str ''filed'']])
        ''Fake Arrest Warrant'' ''high'' None,
      ScamPattern
        (seq [str ''court'', plus ws, alt [str ''summons'', str ''hearing'', str ''appearance''],
         plus ws, alt [str ''scheduled'', str ''required'', str ''mandatory'']])
        ''Fake Court Notice'' ''high'' None,
      ScamPattern
        (seq [str ''sorry'', plus ws, alt [seq [str ''wrong'', plus ws, alt [str ''number'',
         str ''person'']], seq [str ''i'', plus ws, str ''didn'', opt (Chr [Lit 39]), str ''t'',
         plus ws, str ''mean'', plus ws, str ''to'']]])
        ''Wrong Number Opener'' ''low'' None,
      ScamPattern
        (seq [str ''oh'', plus ws, opt (seq [str ''you'', plus ws, str ''seem'', plus ws]),
         alt [str ''nice'', str ''interesting'', str ''friendly'', str ''kind''], star AnyChar,
         str ''where'', plus ws, alt [str ''are'', str ''do''], plus ws, str ''you''])
        ''Pig Butchering Opener'' ''medium'' None,
      ScamPattern
        (seq [str ''i'', plus ws, alt [str ''accidentally'', str ''mistakenly''], plus ws,
         alt [str ''added'', str ''messaged'', str ''texted'', str ''contacted''], plus ws,
         alt [str ''you'', seq [str ''the'', plus ws, str ''wrong'']]])
        ''Wrong Number Scam'' ''medium'' None,
      ScamPattern
        (seq [str ''my'', plus ws, alt [str ''uncle'', str ''aunt'', str ''friend'',
         str ''cousin''], plus ws, alt [seq [str ''work'', opt (str ''s'')], str ''is''],
         plus ws, alt [str ''in'', str ''at''], plus ws, alt [str ''finance'', str ''crypto'',
         str ''trading'', str ''investment'']])
        ''Pig Butchering'' ''high'' None,
      ScamPattern
        (seq [str ''i'', plus ws, str ''know'', plus ws, opt (seq [str ''a'', plus ws]),
         alt [str ''great'', str ''good'', str ''amazing'', str ''reliable''], plus ws,
         alt [str ''investment'', str ''trading''], plus ws, alt [str ''platform'', str ''app'',
         str ''opportunity'']])
        ''Pig Butchering'' ''high'' None,
      ScamPattern
        (seq [str ''do'', plus ws, str ''you'', plus ws, alt [str ''invest'', str ''trade'',
         seq [str ''know'', plus ws, str ''about'']], star ws, alt [str ''crypto'',
         str ''bitcoin'', str ''forex'', str ''stock'']])
        ''Pig Butchering Probe'' ''medium'' None,
      ScamPattern
        (seq [str ''let'', plus ws, str ''me'', plus ws, alt [str ''show'', str ''teach'',
         str ''help''], plus ws, str ''you'', plus ws, opt (seq [str ''how'', plus ws,
         str ''to'', plus ws]), alt [str ''invest'', str ''trade'', seq [str ''make'', plus ws,
         str ''money'']]])
        ''Pig Butchering'' ''high'' None,
      ScamPattern
        (seq [str ''this'', plus ws, alt [str ''platform'', str ''app'', str ''site''], plus ws,
         opt (seq [str ''is'', plus ws]), alt [str ''regulated'', str ''licensed'', str ''safe'',
         str ''secure''], plus ws, alt [str ''by'', str ''and'']])
        ''Fake Platform Legitimacy'' ''medium'' None]"

text \<open>Lines 454 to 481 of the scanner.\<close>

definition SCAM_PATTERNS_454_481 :: "scam_pattern list" where
  "SCAM_PATTERNS_454_481 =
     [ScamPattern
        (seq [str ''i'', alt [seq [Chr [Lit 39], str ''ve''], seq [plus ws, str ''have'']],
         plus ws, alt [str ''already'', str ''just''], plus ws, alt [str ''made'',
         str ''earned'', str ''withdrawn''], plus ws, opt (str ''$''), dg, star (Chr [Digit,
         Lit (of_char CHR '','')]), star ws, alt [str ''from'', str ''on'', str ''with''],
         plus ws, alt [str ''this'', str ''the''], plus ws, alt [str ''platform'', str ''app'']])
        ''Pig Butchering Testimonial'' ''high'' None,
      ScamPattern
        (seq [str ''you'', plus ws, alt [str ''just'', str ''only''], plus ws, str ''need'',
         plus ws, opt (seq [str ''to'', plus ws]), alt [str ''deposit'', str ''invest'',
         seq [str ''put'', plus ws, str ''in'']], plus ws, opt (str ''$''), dg])
        ''Pig Butchering Deposit'' ''high'' None,
      ScamPattern
        (seq [str ''minimum'', plus ws, alt [str ''deposit'', str ''investment''], plus ws,
         opt (seq [str ''is'', plus ws]), alt [str ''only'', str ''just''], plus ws,
         opt (str ''$''), dg])
        ''Pig Butchering Deposit'' ''medium'' None,
      ScamPattern
        (seq [str ''receive'', opt (str ''d''), plus ws, opt (seq [str ''a'', plus ws]),
         alt [str ''package'', str ''parcel'', str ''item''], plus ws, opt (seq [str ''you'',
         plus ws]), str ''didn'', opt (Chr [Lit 39]), str ''t'', plus ws, str ''order''])
        ''Brushing Scam'' ''medium'' None,
      ScamPattern
        (seq [str ''scan'', plus ws, alt [str ''the'', str ''this''], plus ws, alt [str ''qr'',
         str ''barcode''], plus ws, opt (seq [str ''code'', plus ws]), alt [str ''on'',
         str ''inside''], plus ws, opt (seq [str ''the'', plus ws]), alt [str ''package'',
         str ''parcel'', str ''box'']])
        ''Brushing QR Scam'' ''high'' None,
      ScamPattern
        (seq [str ''mystery'', plus ws, alt [str ''package'', str ''box'', str ''parcel''],
         plus ws, alt [str ''arrived'', seq [str ''showed'', plus ws, str ''up''],
         str ''delivered'']])
        ''Brushing Scam'' ''medium'' None,
      ScamPattern
        (seq [str ''get'', plus ws, str ''paid'', plus ws, opt (seq [str ''to'', plus ws]),
         alt [str ''complete'', str ''do'', str ''finish''], plus ws, opt (seq [str ''simple'',
         plus ws]), str ''task'', opt (str ''s'')])
        ''Task Scam'' ''high'' None,
      ScamPattern
        (seq [str ''complete'', plus ws, opt (seq [str ''simple'', plus ws]), str ''task'',
         opt (str ''s''), plus ws, alt [str ''and'', str ''to''], plus ws, alt [str ''earn'',
         str ''get'', str ''receive''], plus ws, opt (str ''$''), dg])
        ''Task Scam'' ''high'' None,
      ScamPattern
        (seq [str ''task'', plus ws, alt [str ''commission'', str ''bonus'', str ''reward''],
         plus ws, opt (str ''$''), dg])
        ''Task Scam'' ''high'' None,
      ScamPattern
        (seq [str ''deposit'', plus ws, opt (seq [str ''to'', plus ws]), alt [str ''unlock'',
         str ''access''], plus ws, alt [str ''higher'', str ''more'', str ''premium''], plus ws,
         alt [seq [str ''task'', opt (str ''s'')], seq [str ''level'', opt (str ''s'')],
         seq [str ''earning'', opt (str ''s'')]]])
        ''Task Scam Deposit Trap'' ''critical'' None,
      ScamPattern
        (seq [str ''like'', plus ws, opt (seq [str ''and'', plus ws]), alt [str ''review'',
         str ''rate''], plus ws, alt [seq [str ''product'', opt (str ''s'')], seq [str ''app'',
         opt (str ''s'')], seq [str ''video'', opt (str ''s'')]], plus ws, opt (seq [str ''and'',
         plus ws]), alt [str ''earn'', seq [str ''get'', plus ws, str ''paid'']]])
        ''Task Scam'' ''high'' None,
      ScamPattern
        (seq [str ''daily'', plus ws, alt [seq [str ''task'', opt (str ''s'')],
         seq [str ''mission'', opt (str ''s'')]], plus ws, alt [str ''earn'', str ''pay'',
         str ''reward'']])
        ''Task Scam'' ''medium'' None,
      ScamPattern
        (seq [str ''commission'', plus ws, alt [str ''per'', seq [str ''for'', plus ws,
         str ''each''], str ''every''], plus ws, alt [str ''task'', str ''order'',
         str ''review'']])
        ''Task Scam'' ''high'' None,
      ScamPattern
        (seq [str ''upgrade'', plus ws, alt [str ''to'', str ''your''], plus ws,
         opt (seq [str ''zelle'', plus ws]), alt [str ''business'', str ''premium''], plus ws,
         str ''account''])
        ''Zelle Scam'' ''high'' None,
      ScamPattern
        (seq [str ''zelle'', plus ws, alt [str ''limit'', seq [str ''daily'', plus ws,
         str ''limit''], seq [str ''transaction'', plus ws, str ''limit'']], plus ws,
         alt [str ''exceeded'', str ''reached'', str ''hit'']])
        ''Zelle Scam'' ''high'' None,
      ScamPattern
        (seq [str ''zelle'', plus ws, alt [str ''payment'', str ''transfer''], plus ws,
         alt [str ''pending'', str ''failed'', seq [str ''on'', plus ws, str ''hold'']],
         Repeat 0 (Some 100) AnyChar, str ''upgrade''])
        ''Zelle Scam'' ''high'' None,
      ScamPattern
        (seq [str ''recover'', plus ws, opt (seq [str ''your'', plus ws]), alt [str ''lost'',
         str ''stolen'', str ''scammed''], plus ws, alt [str ''money'', seq [str ''fund'',
         opt (str ''s'')], str ''crypto'', str ''bitcoin'']])
        ''Recovery Scam'' ''high'' None,
      ScamPattern
        (seq [str ''i'', plus ws, opt (seq [str ''was'', plus ws]), opt (seq [str ''also'',
         plus ws]), str ''scammed'', plus ws, alt [str ''but'', str ''and''], plus ws,
         alt [str ''this'', str ''someone'', str ''a''], plus ws, alt [str ''person'',
         str ''hacker'', str ''expert'']])
        ''Recovery Scam'' ''high'' None,
      ScamPattern
        (seq [str ''ethical'', plus ws, str ''hacker'', plus ws, alt [str ''helped'',
         str ''recovered'', seq [str ''got'', plus ws, str ''back'']], plus ws, str ''my'',
         plus ws, alt [str ''money'', seq [str ''fund'', opt (str ''s'')], str ''crypto'']])
        ''Recovery Scam'' ''high'' None,
      ScamPattern
        (seq [str ''contact'', plus ws, Repeat 1 (Some 30) AnyChar, plus ws,
         opt (seq [str ''to'', plus ws]), alt [str ''recover'', str ''retrieve'',
         seq [str ''get'', plus ws, str ''back'']], plus ws, opt (seq [str ''your'', plus ws]),
         alt [str ''money'', seq [str ''fund'', opt (str ''s'')], str ''crypto'']])
        ''Recovery Scam'' ''high'' None]"

text \<open>Lines 484 to 507 of the scanner.\<close>

definition SCAM_PATTERNS_484_507 :: "scam_pattern list" where
  "SCAM_PATTERNS_484_507 =
     [ScamPattern
        (seq [str ''buy'', plus ws, opt (seq [str ''real'', plus ws]), alt [seq [str ''play'',
         opt (str ''s'')], seq [str ''stream'', opt (str ''s'')], seq [str ''listener'',
         opt (str ''s'')], seq [str ''follower'', opt (str ''s'')], seq [str ''repost'',
         opt (str ''s'')], seq [str ''like'', opt (str ''s'')]], star ws, opt (seq [str ''for'',
         plus ws]), alt [str ''cheap'', str ''only'', str ''just'', str ''$'']])
        ''Fake Engagement Service'' ''medium'' (Some [''soundcloud'', ''youtube'']),
      ScamPattern
        (seq [alt [str ''get'', str ''buy'', str ''boost''], plus ws, plus dg, opt (str ''k''),
         opt (str ''+''), star ws, alt [seq [str ''play'', opt (str ''s'')], seq [str ''stream'',
         opt (str ''s'')], seq [str ''follower'', opt (str ''s'')], seq [str ''repost'',
         opt (str ''s'')], seq [str ''listener'', opt (str ''s'')]]])
        ''Fake Engagement Service'' ''medium'' (Some [''soundcloud'', ''youtube'']),
      ScamPattern
        (seq [str ''promo'', opt (alt [str ''te'', str ''tion'']), plus ws,
         opt (seq [str ''your'', plus ws]), alt [str ''track'', str ''song'', str ''music'',
         str ''beat'', str ''album''], star ws, alt [str ''to'', str ''for''], star ws, plus dg,
         opt (str ''k''), opt (str ''+''), star ws, alt [seq [str ''listener'', opt (str ''s'')],
         seq [str ''follower'', opt (str ''s'')], str ''people'']])
        ''Fake Promotion Service'' ''medium'' (Some [''soundcloud'', ''youtube'']),
      ScamPattern
        (seq [str ''send'', plus ws, opt (seq [str ''your'', plus ws]), alt [str ''track'',
         str ''beat'', str ''music'', str ''song''], plus ws, alt [str ''to'', str ''for''],
         plus ws, opt (seq [str ''a'', plus ws]), opt (seq [str ''free'', plus ws]),
         alt [str ''review'', str ''promo'', str ''feature'', str ''repost'']])
        ''Promo Scam Risk'' ''low'' (Some [''soundcloud'', ''youtube'']),
      ScamPattern
        (seq [alt [str ''a&r'', str ''label'', seq [str ''record'', plus ws, str ''label''],
         seq [str ''major'', plus ws, str ''label'']], plus ws, opt (seq [str ''is'', plus ws]),
         alt [str ''looking'', str ''searching'', str ''scouting''], plus ws, alt [str ''for'',
         str ''at''], plus ws, opt (seq [str ''new'', plus ws]), alt [str ''talent'',
         seq [str ''artist'', opt (str ''s'')], str ''music'']])
        ''Fake Label Scout'' ''medium'' (Some [''soundcloud'', ''youtube'']),
      ScamPattern
        (seq [str ''sign'', opt (alt [str ''ed'', str ''ing'']), plus ws,
         alt [seq [str ''artist'', opt (str ''s'')], str ''talent''], plus ws, alt [str ''to'',
         str ''for''], plus ws, alt [str ''our'', str ''a'', str ''the''], plus ws,
         alt [str ''label'', str ''deal'', str ''contract'']])
        ''Fake Record Deal'' ''medium'' (Some [''soundcloud'', ''youtube'']),
      ScamPattern
        (seq [str ''i'', alt [seq [Chr [Lit 39], str ''m''], seq [plus ws, str ''am'']], plus ws,
         opt (seq [str ''a'', plus ws]), alt [str ''producer'', str ''a&r'', str ''scout'',
         str ''manager''], plus ws, alt [str ''at'', str ''for'', str ''from'', str ''with''],
         plus ws])
        ''Fake Industry Contact'' ''low'' (Some [''soundcloud'', ''youtube'']),
      ScamPattern
        (seq [str ''pay'', plus ws, opt (seq [str ''for'', plus ws]), opt (seq [str ''a'',
         plus ws]), alt [str ''feature'', str ''verse'', seq [str ''collab'',
         opt (str ''oration'')]], plus ws, alt [str ''with'', str ''from'', str ''by'']])
        ''Paid Feature Scam Risk'' ''low'' (Some [''soundcloud'', ''youtube'']),
      ScamPattern
        (seq [str ''free'', plus ws, alt [seq [str ''beat'', opt (str ''s'')],
         seq [str ''instrumental'', opt (str ''s'')], seq [str ''type'', plus ws, str ''beat'',
         opt (str ''s'')]], star ws, alt [str ''link'', str ''download'', str ''dm'']])
        ''Free Beat Bait'' ''low'' (Some [''soundcloud'', ''youtube'']),
      ScamPattern
        (seq [str ''guarantee'', plus ws, opt (seq [str ''you'', plus ws]),
         alt [seq [str ''play'', opt (str ''s'')], seq [str ''stream'', opt (str ''s'')],
         str ''viral'', seq [str ''view'', opt (str ''s'')], seq [str ''listener'',
         opt (str ''s'')]]])
        ''Fake Guarantee'' ''high'' (Some [''soundcloud'', ''youtube'']),
      ScamPattern
        (seq [str ''get'', plus ws, alt [str ''signed'', str ''noticed'', str ''discovered''],
         plus ws, opt (seq [str ''by'', plus ws]), opt (seq [str ''a'', plus ws]),
         opt (seq [str ''major'', plus ws]), alt [str ''label'', str ''record'',
         str ''industry'']])
        ''Fake Discovery Promise'' ''medium'' (Some [''soundcloud'', ''youtube'']),
      ScamPattern
        (seq [str ''submit'', plus ws, opt (seq [str ''your'', plus ws]), alt [str ''music'',
         str ''track'', str ''song'', str ''beat''], plus ws, alt [str ''here'', str ''now'',
         str ''today''], star ws, opt (seq [str ''for'', plus ws]), alt [str ''consideration'',
         str ''review'', str ''feature'', str ''playlist'']])
        ''Music Submission Scam'' ''low'' (Some [''soundcloud'', ''youtube'']),
      ScamPattern
        (seq [str ''playlist'', plus ws, alt [str ''placement'', str ''submission'',
         str ''feature''], star ws, opt (alt [str ''only'', str ''just'']), star ws,
         opt (str ''$''), dg])
        ''Paid Playlist Scam'' ''medium'' (Some [''soundcloud'', ''youtube'']),
      ScamPattern
        (seq [str ''last'', plus ws, alt [str ''chance'', str ''day'', str ''hour'',
         str ''opportunity''], plus ws, opt (seq [str ''to'', plus ws]), alt [str ''join'',
         str ''buy'', str ''invest'', str ''claim'', str ''get'']])
        ''FOMO Manipulation'' ''medium'' None,
      ScamPattern
        (seq [str ''offer'', plus ws, alt [seq [str ''expire'', opt (str ''s'')],
         seq [str ''end'', opt (str ''s'')]], plus ws, opt (seq [str ''in'', plus ws]), plus dg,
         star ws, alt [seq [str ''hour'', opt (str ''s'')], seq [str ''minute'',
         opt (str ''s'')], seq [str ''min'', opt (str ''s'')]]])
        ''Fake Time Pressure'' ''medium'' None,
      ScamPattern
        (seq [str ''only'', plus ws, alt [str ''available'', str ''open''], plus ws,
         alt [str ''for'', str ''to''], plus ws, opt (seq [str ''the'', plus ws]),
         alt [str ''first'', str ''next''], plus ws, plus dg])
        ''Fake Scarcity'' ''medium'' None,
      ScamPattern
        (seq [str ''act'', plus ws, alt [str ''fast'', str ''now'', str ''quickly'',
         str ''immediately''], plus ws, alt [str ''before'', str ''or'']])
        ''Urgency Manipulation'' ''low'' None,
      ScamPattern
        (seq [str ''i'', opt (Chr [Lit 39]), str ''m'', plus ws, alt [str ''giving'',
         str ''sending''], plus ws, opt (seq [str ''away'', plus ws]), opt (str ''$''), dg,
         star (Chr [Digit, Lit (of_char CHR '','')]), plus ws, opt (seq [str ''to'', plus ws]),
         alt [str ''random'', seq [str ''the'', plus ws, str ''first''], str ''everyone'']])
        ''Generosity Scam'' ''medium'' None,
      ScamPattern
        (seq [str ''who'', plus ws, alt [seq [str ''need'', opt (str ''s'')], seq [str ''want'',
         opt (str ''s'')]], plus ws, opt (str ''$''), dg, star (Chr [Digit,
         Lit (of_char CHR '','')]), star ws, opt (str ''?'')])
        ''Generosity Scam'' ''medium'' None,
      ScamPattern
        (seq [str ''drop'', plus ws, str ''your'', plus ws, alt [seq [str ''cash'', star ws,
         str ''app''], str ''venmo'', str ''zelle'', str ''paypal''], star ws,
         opt (alt [str ''tag'', str ''handle'', str ''below'', str ''username''])])
        ''Cash Tag Harvesting'' ''medium'' None]"

definition SCAM_PATTERNS :: "scam_pattern list" where
  "SCAM_PATTERNS =
     SCAM_PATTERNS_94_117
     @ SCAM_PATTERNS_118_147
     @ SCAM_PATTERNS_148_173
     @ SCAM_PATTERNS_174_199
     @ SCAM_PATTERNS_200_223
     @ SCAM_PATTERNS_224_251
     @ SCAM_PATTERNS_252_279
     @ SCAM_PATTERNS_282_307
     @ SCAM_PATTERNS_308_337
     @ SCAM_PATTERNS_338_363
     @ SCAM_PATTERNS_366_395
     @ SCAM_PATTERNS_396_427
     @ SCAM_PATTERNS_428_453
     @ SCAM_PATTERNS_454_481
     @ SCAM_PATTERNS_484_507"

subsection \<open>The checks of one post\<close>

text \<open>The platform filter of \<open>_checkPatterns\<close>: false where the loop continues.\<close>

definition platform_allows :: "string option \<Rightarrow> scam_pattern \<Rightarrow> bool" where
  "platform_allows platformName sp =
     (case platforms sp of None \<Rightarrow> True
      | Some ps \<Rightarrow> (case platformName of None \<Rightarrow> False | Some n \<Rightarrow> n \<in> set ps))"

definition pattern_finding :: "scam_pattern \<Rightarrow> finding" where
  "pattern_finding sp =
     \<lparr>severity = Some (pattern_severity sp), category = Some (pattern_category sp),
      message = None, detail = None\<rparr>"

definition pattern_hits :: "string option \<Rightarrow> jsstring \<Rightarrow> scam_pattern list \<Rightarrow> scam_pattern list"
  where
  "pattern_hits platformName normalizedText sps =
     filter (\<lambda>sp. platform_allows platformName sp \<and> test True (pattern sp) normalizedText) sps"

definition checkPatterns :: "string option \<Rightarrow> jsstring \<Rightarrow> finding list" where
  "checkPatterns platformName text =
     map pattern_finding (pattern_hits platformName (normalize text) SCAM_PATTERNS)"

text \<open>
  The three emoji regexes have the flags \<open>g\<close> and \<open>u\<close>: \<open>text.match\<close> returns every
  code point of the class, a surrogate pair counting as one.
\<close>

fun code_points :: "jsstring \<Rightarrow> nat list" where
  "code_points [] = []"
| "code_points [c] = [c]"
| "code_points (hi # lo # cs) =
     (if 0xD800 \<le> hi \<and> hi \<le> 0xDBFF \<and> 0xDC00 \<le> lo \<and> lo \<le> 0xDFFF
      then (0x10000 + (hi - 0xD800) * 0x400 + (lo - 0xDC00)) # code_points cs
      else hi # code_points (lo # cs))"

definition money_emojis :: "nat list" where
  "money_emojis = [0x1F4B0, 0x1F4B5, 0x1F4B4, 0x1F4B6, 0x1F4B7, 0x1F4B8, 0x1F911, 0x1F4B2]"

definition hype_emojis :: "nat list" where
  "hype_emojis = [0x1F680, 0x1F525, 0x1F4A5, 0x1F48E, 0x2B06, 0xFE0F, 0x1F4C8, 0x1F31F, 0x2728]"

definition alert_emojis :: "nat list" where
  "alert_emojis = [0x26A0, 0xFE0F, 0x1F6A8, 0x274C, 0x2757, 0x203C, 0xFE0F, 0x1F6D1]"

definition count_in :: "nat list \<Rightarrow> jsstring \<Rightarrow> nat" where
  "count_in cls text = length (filter (\<lambda>c. c \<in> set cls) (code_points text))"

definition social_finding_of :: "string \<Rightarrow> string \<Rightarrow> string \<Rightarrow> finding" where
  "social_finding_of sev cat det =
     \<lparr>severity = Some sev, category = Some cat, message = None, detail = Some det\<rparr>"

definition urgency_words :: rx where
  "urgency_words =
     alt [str ''urgent'', str ''important'', str ''warning'', str ''attention'',
     str ''breaking'', str ''alert'']"

definition phonePattern :: rx where
  "phonePattern =
     seq [WordBoundary, opt (str ''+''), Repeat 1 (Some 3) dg, opt (Chr [Lit (of_char CHR ''-''),
     Lit (of_char CHR ''.''), Space]), opt (str ''(''), Repeat 3 (Some 3) dg, opt (str '')''),
     opt (Chr [Lit (of_char CHR ''-''), Lit (of_char CHR ''.''), Space]), Repeat 3 (Some 3) dg,
     opt (Chr [Lit (of_char CHR ''-''), Lit (of_char CHR ''.''), Space]), Repeat 4 (Some 4) dg,
     WordBoundary]"

definition emailPattern :: rx where
  "emailPattern =
     seq [WordBoundary, plus (Chr [Word, Lit (of_char CHR ''.''), Lit (of_char CHR ''+''),
     Lit (of_char CHR ''-'')]), str ''@'', plus (Chr [Word, Lit (of_char CHR ''-'')]), str ''.'',
     plus (Chr [Word, Lit (of_char CHR ''.'')]), WordBoundary]"

definition suspiciousContext :: rx where
  "suspiciousContext =
     alt [seq [str ''contact'', plus ws, alt [str ''me'', str ''us'']], seq [str ''send'',
     plus ws, str ''message''], seq [str ''reach'', plus ws, alt [str ''me'', str ''out'']],
     seq [str ''dm'', plus ws, str ''me''], str ''whatsapp'', str ''telegram'', seq [str ''for'',
     plus ws, opt (seq [str ''more'', plus ws]), alt [str ''info'', str ''details'']]]"

definition whatsapp_number :: rx where
  "whatsapp_number =
     alt [seq [str ''whatsapp'', Repeat 0 (Some 60) AnyChar, opt (str ''+''), Repeat 10 None dg],
     seq [opt (str ''+''), Repeat 10 None dg, Repeat 0 (Some 60) AnyChar, str ''whatsapp'']]"

definition checkEmojiPatterns :: "jsstring \<Rightarrow> finding list" where
  "checkEmojiPatterns text =
     (let moneyEmojis = count_in money_emojis text;
          hypeEmojis = count_in hype_emojis text;
          alertEmojis = count_in alert_emojis text;
          totalSuspicious = moneyEmojis + hypeEmojis + alertEmojis
      in (if moneyEmojis \<ge> 3 \<or> totalSuspicious \<ge> 5
          then [social_finding_of ''low'' ''Emoji Pattern''
                  (''Excessive money/hype emojis ('' @ string_of_nat totalSuspicious @ '') ''
                   @ em_dash @ '' common in scam and spam posts'')]
          else [])
         @ (if alertEmojis \<ge> 2 \<and> test True urgency_words text
            then [social_finding_of ''medium'' ''Fake Urgency''
                    (''Alert emojis combined with urgency language '' @ em_dash
                     @ '' common social media scare tactic'')]
            else []))"

definition checkContactSolicitation :: "jsstring \<Rightarrow> finding list" where
  "checkContactSolicitation text =
     (let hasPhone = test False phonePattern text;
          hasEmail = test False emailPattern text
      in (if (hasPhone \<or> hasEmail) \<and> test True suspiciousContext text
          then [social_finding_of ''low'' ''Contact Solicitation''
                  (''Post shares '' @ (if hasPhone then ''phone number'' else ''email'')
                   @ '' with contact request '' @ em_dash
                   @ '' may be legitimate, but common in scams'')]
          else [])
         @ (if test True whatsapp_number text
            then [social_finding_of ''medium'' ''WhatsApp Solicitation''
                    (''Post shares a WhatsApp number '' @ em_dash
                     @ '' scammers use this to move conversations off-platform'')]
            else []))"

subsection \<open>Combination rules\<close>

record combo_rule =
  require :: "string list"
  escalate :: string
  label :: string

definition right_arrow :: string where
  "right_arrow = [CHR 0xE2, CHR 0x86, CHR 0x92]"

definition COMBO_RULES :: "combo_rule list" where
  "COMBO_RULES =
     [\<lparr>require = [''Bio Link Solicitation'', ''Income Claim''], escalate = ''medium'',
        label = ''Income Pitch + Bio Link''\<rparr>,
      \<lparr>require = [''Bio Link Solicitation'', ''Emoji Pattern''], escalate = ''medium'',
        label = ''Bio Link + Hype Emojis''\<rparr>,
      \<lparr>require = [''DM Solicitation'', ''Income Claim''], escalate = ''medium'',
        label = ''Income Pitch + DM Request''\<rparr>,
      \<lparr>require = [''DM Solicitation'', ''Fake Scarcity''], escalate = ''medium'',
        label = ''DM + Fake Scarcity''\<rparr>,
      \<lparr>require = [''MLM/Pyramid'', ''Income Claim''], escalate = ''high'',
        label = ''MLM + Income Claims''\<rparr>,
      \<lparr>require = [''Engagement Farming'', ''Income Claim''], escalate = ''high'',
        label = ''Engagement Farm + Income''\<rparr>,
      \<lparr>require = [''Engagement Farming'', ''Guru Scam''], escalate = ''high'',
        label = ''Engagement Farm + Guru''\<rparr>,
      \<lparr>require = [''Platform Migration'', ''Income Claim''], escalate = ''high'',
        label = ''Off-Platform + Income''\<rparr>,
      \<lparr>require = [''Platform Migration'', ''Romance Scam''], escalate = ''high'',
        label = ''Off-Platform + Romance''\<rparr>,
      \<lparr>require = [''Platform Migration'', ''Contact Solicitation''], escalate = ''medium'',
        label = ''Off-Platform + Contact Request''\<rparr>,
      \<lparr>require = [''Platform Migration'', ''Investment Scam''], escalate = ''high'',
        label = ''Off-Platform + Investment''\<rparr>,
      \<lparr>require = [''Wrong Number Opener'', ''Pig Butchering Probe''], escalate = ''high'',
        label = ''Wrong Number '' @ right_arrow @ '' Investment Probe''\<rparr>,
      \<lparr>require = [''Wrong Number Scam'', ''Platform Migration''], escalate = ''high'',
        label = ''Wrong Number '' @ right_arrow @ '' Off-Platform''\<rparr>,
      \<lparr>require = [''Pig Butchering Probe'', ''Pig Butchering Deposit''], escalate = ''critical'',
        label = ''Pig Butchering: Probe '' @ right_arrow @ '' Deposit''\<rparr>,
      \<lparr>require = [''Romance Scam'', ''Advance Fee Scam''], escalate = ''critical'',
        label = ''Romance + Fee Request''\<rparr>,
      \<lparr>require = [''Romance Manipulation'', ''Platform Migration''], escalate = ''high'',
        label = ''Romance + Off-Platform''\<rparr>,
      \<lparr>require = [''Romance Manipulation'', ''WhatsApp Solicitation''], escalate = ''high'',
        label = ''Romance + WhatsApp''\<rparr>,
      \<lparr>require = [''Fake Scarcity'', ''Income Claim''], escalate = ''high'',
        label = ''Scarcity + Income Claims''\<rparr>,
      \<lparr>require = [''FOMO Manipulation'', ''Investment Scam''], escalate = ''high'',
        label = ''FOMO + Investment''\<rparr>,
      \<lparr>require = [''Fake Time Pressure'', ''Prize Scam''], escalate = ''high'',
        label = ''Time Pressure + Prize''\<rparr>,
      \<lparr>require = [''Urgency Manipulation'', ''Advance Fee Scam''], escalate = ''high'',
        label = ''Urgency + Fee''\<rparr>,
      \<lparr>require = [''Emoji Pattern'', ''Income Claim''], escalate = ''medium'',
        label = ''Hype Emojis + Income''\<rparr>,
      \<lparr>require = [''Emoji Pattern'', ''Fake Cash Giveaway''], escalate = ''high'',
        label = ''Hype Emojis + Giveaway''\<rparr>,
      \<lparr>require = [''Emoji Pattern'', ''Cash Flipping Scam''], escalate = ''high'',
        label = ''Hype Emojis + Cash Flip''\<rparr>,
      \<lparr>require = [''Generosity Scam'', ''Cash Tag Harvesting''], escalate = ''high'',
        label = ''Fake Generosity + Cash Tag Collection''\<rparr>,
      \<lparr>require = [''Task Scam'', ''Platform Migration''], escalate = ''high'',
        label = ''Task Scam + Off-Platform''\<rparr>,
      \<lparr>require = [''Task Scam'', ''Task Scam Deposit Trap''], escalate = ''critical'',
        label = ''Task Scam '' @ right_arrow @ '' Deposit Trap''\<rparr>,
      \<lparr>require = [''Recovery Scam'', ''Contact Solicitation''], escalate = ''critical'',
        label = ''Recovery Scam + Contact''\<rparr>,
      \<lparr>require = [''Recovery Scam'', ''WhatsApp Solicitation''], escalate = ''critical'',
        label = ''Recovery Scam + WhatsApp''\<rparr>,
      \<lparr>require = [''Fake Engagement Service'', ''DM Solicitation''], escalate = ''high'',
        label = ''Fake Plays + DM Request''\<rparr>,
      \<lparr>require = [''Fake Engagement Service'', ''Platform Migration''], escalate = ''high'',
        label = ''Fake Plays + Off-Platform''\<rparr>,
      \<lparr>require = [''Fake Label Scout'', ''Platform Migration''], escalate = ''high'',
        label = ''Fake Label + Off-Platform''\<rparr>,
      \<lparr>require = [''Fake Label Scout'', ''Advance Fee Scam''], escalate = ''critical'',
        label = ''Fake Label + Fee Request''\<rparr>,
      \<lparr>require = [''Fake Discovery Promise'', ''Advance Fee Scam''], escalate = ''critical'',
        label = ''Fake Discovery + Fee''\<rparr>]"

definition combo_finding :: "combo_rule \<Rightarrow> finding" where
  "combo_finding rule =
     social_finding_of (escalate rule) ''Pattern Combination'' (''Combined signals: '' @ label rule)"

text \<open>The number of distinct categories among the findings of severity \<open>low\<close>.\<close>

definition uniqueLowCategories :: "finding list \<Rightarrow> nat" where
  "uniqueLowCategories fs =
     length (insertion_order (map category (filter (\<lambda>f. severity f = Some ''low'') fs)))"

definition checkCombinations :: "finding list \<Rightarrow> finding list" where
  "checkCombinations fs =
     (if length fs < 2 then fs
      else
        (let categories = set (map category fs);
             fs = fs @ map combo_finding
                        (filter (\<lambda>rule. list_all (\<lambda>cat. Some cat \<in> categories) (require rule))
                           COMBO_RULES);
             n = uniqueLowCategories fs
         in if n \<ge> 4
            then fs @ [social_finding_of ''high'' ''Multiple Indicators''
                         (string_of_nat n @ '' different warning categories detected '' @ em_dash
                          @ '' the combination is highly suspicious'')]
            else if n \<ge> 3
            then fs @ [social_finding_of ''medium'' ''Multiple Indicators''
                         (string_of_nat n @ '' different warning categories detected '' @ em_dash
                          @ '' worth extra caution'')]
            else fs))"

subsection \<open>Scanning a post\<close>

text \<open>
  What \<open>_scanPost\<close> reads of a post element: its \<open>innerText\<close>, whether it already holds
  an inline warning, and the findings that \<open>_checkLinks\<close> pushes for its links (none for a
  post without links).
\<close>

record post =
  innerText :: jsstring
  has_warning :: bool
  link_findings :: "finding list"

definition trim :: "jsstring \<Rightarrow> jsstring" where
  "trim s = rev (dropWhile is_space (rev (dropWhile is_space s)))"

text \<open>
  \<open>_scanPost\<close> for a post that is not in \<open>_scannedPosts\<close>: \<open>None\<close> where it returns before
  the checks, otherwise the findings after step 5.
\<close>

definition scanPost :: "platform \<Rightarrow> post \<Rightarrow> finding list option" where
  "scanPost pl p =
     (if has_warning p then None
      else
        (let text = trim (innerText p);
             minLen = (case minTextLength pl of None \<Rightarrow> 20 | Some n \<Rightarrow> if n = 0 then 20 else n)
         in if length text < minLen then None
            else Some (checkCombinations
                         (checkPatterns (Some (name pl)) text
                          @ link_findings p
                          @ checkEmojiPatterns text
                          @ checkContactSolicitation text))))"

subsection \<open>Concrete posts\<close>

definition facebook :: platform where
  "facebook =
     \<lparr>name = ''facebook'',
      hosts = [''facebook.com'', ''www.facebook.com'', ''m.facebook.com'', ''web.facebook.com''],
      paranoia = ''high'', ownShortener = None, genericFallback = False,
      minTextLength = None\<rparr>"

definition dm_team_text :: jsstring where
  "dm_team_text = ascii ''DM me for more info and join my team''"

definition dm_team_income_text :: jsstring where
  "dm_team_income_text = ascii ''DM me for more info and join my team. I made $5000 last week''"

definition dm_team_post :: post where
  "dm_team_post = \<lparr>innerText = dm_team_text, has_warning = False, link_findings = []\<rparr>"

definition dm_team_income_post :: post where
  "dm_team_income_post =
     \<lparr>innerText = dm_team_income_text, has_warning = False, link_findings = []\<rparr>"

definition income_finding :: finding where
  "income_finding =
     \<lparr>severity = Some ''medium'', category = Some ''Income Claim'',
      message = None, detail = None\<rparr>"

section \<open>Evaluation of the number model\<close>

lemma floor_rat_numeral_div [simp]:
  "\<lfloor>numeral a / numeral b :: rat\<rfloor> = numeral a div numeral b"
  by (metis floor_divide_of_int_eq of_int_numeral)

lemma ceiling_rat_numeral_div [simp]:
  "\<lceil>numeral a / numeral b :: rat\<rceil> = - (- numeral a div numeral b)"
  using ceiling_divide_eq_div [of "numeral a" "numeral b", where ?'a = rat] by simp

lemma binary_exponent_fuel_numeral:
  "binary_exponent_fuel (numeral k) x =
     (if 2 \<le> x then binary_exponent_fuel (pred_numeral k) (x / 2) + 1
      else if x < 1 then binary_exponent_fuel (pred_numeral k) (2 * x) - 1
      else 0)"
  by (simp add: numeral_eq_Suc)

lemmas fl_eval = fl_def round_to_ulp_def round_half_even_def ties_to_even_def
  binary_exponent_def binary_exponent_fuel_numeral pow2_def

lemmas results_eval = score_or_0_def get_result_def findings_of_def allFindings_def
  Object_keys_def insertion_order_def

section \<open>The scoring aggregator\<close>

lemma clamp_range: "0 \<le> clamp w \<and> clamp w \<le> 100"
  by (simp add: clamp_def)

lemma clamp_escalate_True: "41 \<le> clamp (critical_escalation True w)"
  by (simp add: clamp_def critical_escalation_def THRESHOLDS_def)

lemma getLevel_ge_41: "41 \<le> s \<Longrightarrow> getLevel s \<noteq> Safe \<and> getLevel s \<noteq> Caution"
  by (simp add: getLevel_def THRESHOLDS_def)

lemma level_aggregate: "level (aggregate r) = getLevel (score (aggregate r))"
  by (simp add: aggregate_def Let_def)

lemma score_aggregate:
  "score (aggregate r) = clamp (critical_escalation (hasCritical (allFindings r)) \<lceil>weightedScore r\<rceil>)"
  by (simp add: aggregate_def Let_def)

lemma findings_aggregate:
  "findings (aggregate r) = sort_key (\<lambda>f. severityOrder (severity f)) (allFindings r)"
  by (simp add: aggregate_def Let_def)

lemma summary_aggregate:
  "summary (aggregate r)
   = generateSummary (level (aggregate r)) (score (aggregate r)) (findings (aggregate r))"
  by (simp add: aggregate_def Let_def)

lemma weightedScore_unfold:
  "weightedScore r =
     js_add (js_add (js_add (js_add (js_add (js_add (js_add (js_add (js_add 0
       (js_mul (score_or_0 r ''keywords'') (fl (18 / 100))))
       (js_mul (score_or_0 r ''structural'') (fl (14 / 100))))
       (js_mul (score_or_0 r ''phishing'') (fl (14 / 100))))
       (js_mul (score_or_0 r ''socialEngineering'') (fl (10 / 100))))
       (js_mul (score_or_0 r ''fakeEcommerce'') (fl (10 / 100))))
       (js_mul (score_or_0 r ''cryptoScam'') (fl (10 / 100))))
       (js_mul (score_or_0 r ''techSupport'') (fl (8 / 100))))
       (js_mul (score_or_0 r ''romanceFee'') (fl (8 / 100))))
       (js_mul (score_or_0 r ''maliciousDownload'') (fl (8 / 100)))"
  unfolding weightedScore_def WEIGHTS_def by simp

lemma allFindings_seed: "allFindings seed_phrase_results = [seed_phrase_finding]"
  by (simp add: results_eval seed_phrase_results_def)

lemma weightedScore_seed: "weightedScore seed_phrase_results = 5"
  by (simp add: weightedScore_unfold seed_phrase_results_def js_add_def js_mul_def
      results_eval fl_eval)

lemma is_critical_seed: "is_critical seed_phrase_finding"
  by (simp add: is_critical_def seed_phrase_finding_def)

text \<open>
  C1. Whenever the combined findings of a result map contain a finding of severity
  \<open>critical\<close>, or one whose category is in the critical-escalation set, the level of the
  aggregated assessment is neither \<open>safe\<close> nor \<open>caution\<close>, and its score is at least one
  point above the caution/warning boundary.
\<close>

theorem aggregate_critical_escalation:
  assumes "\<exists>f \<in> set (allFindings r).
             severity f = Some ''critical''
             \<or> (\<exists>c \<in> set CRITICAL_ESCALATION_CATEGORIES. category f = Some c)"
  shows "level (aggregate r) \<noteq> Safe \<and> level (aggregate r) \<noteq> Caution
         \<and> THRESHOLDS Caution + 1 \<le> score (aggregate r)"
proof -
  from assms obtain f where f: "f \<in> set (allFindings r)" "is_critical f"
    by (auto simp: is_critical_def)
  then have "hasCritical (allFindings r)"
    by (auto simp: hasCritical_def list_ex_iff)
  then have "41 \<le> score (aggregate r)"
    by (simp add: score_aggregate clamp_escalate_True)
  then show ?thesis
    using getLevel_ge_41 [of "score (aggregate r)"]
    by (simp add: level_aggregate THRESHOLDS_def)
qed

theorem aggregate_critical_escalation_witness:
  "(\<exists>f \<in> set (allFindings seed_phrase_results).
      severity f = Some ''critical''
      \<or> (\<exists>c \<in> set CRITICAL_ESCALATION_CATEGORIES. category f = Some c))
   \<and> level (aggregate seed_phrase_results) \<noteq> Safe
   \<and> level (aggregate seed_phrase_results) \<noteq> Caution
   \<and> THRESHOLDS Caution + 1 \<le> score (aggregate seed_phrase_results)"
proof -
  have h: "\<exists>f \<in> set (allFindings seed_phrase_results).
      severity f = Some ''critical''
      \<or> (\<exists>c \<in> set CRITICAL_ESCALATION_CATEGORIES. category f = Some c)"
    by (simp add: allFindings_seed seed_phrase_finding_def)
  from aggregate_critical_escalation [OF h] h show ?thesis by blast
qed

lemma allFindings_critical_only: "allFindings critical_only_results = [seed_phrase_finding]"
  by (simp add: results_eval critical_only_results_def)

lemma weightedScore_critical_only: "weightedScore critical_only_results = 0"
  by (simp add: weightedScore_unfold critical_only_results_def js_add_def js_mul_def
      results_eval fl_def)

text \<open>
  C2, as stated, fails: a result map whose only entry has score \<open>0\<close> and one critical
  finding has weighted sum \<open>0\<close>, whose ceiling clamped to \<open>[0,100]\<close> is \<open>0\<close>; the
  aggregated score is \<open>41\<close>.
\<close>

theorem aggregate_score_not_clamped_ceiling:
  "score (aggregate critical_only_results) = 41
   \<and> min 100 (max 0 \<lceil>weightedScore critical_only_results\<rceil>) = 0"
  by (simp add: score_aggregate weightedScore_critical_only allFindings_critical_only
      hasCritical_def is_critical_seed critical_escalation_def clamp_def THRESHOLDS_def)

text \<open>
  C2, amended. The nine weight literals sum to exactly \<open>1\<close>. With \<open>c\<close> the ceiling of the
  sum, accumulated in binary64 arithmetic in the order of \<open>WEIGHTS\<close>, of detector score
  times weight (a missing score counting \<open>0\<close>), the page score is \<open>c\<close>, raised to \<open>41\<close>
  when \<open>c < 41\<close> and some finding is critical or of an escalation category, then
  clamped to \<open>[0,100]\<close>. The level is \<open>safe\<close> for a score up to \<open>15\<close>, \<open>caution\<close> up to
  \<open>40\<close>, \<open>warning\<close> up to \<open>65\<close>, and \<open>danger\<close> above.
\<close>

theorem aggregate_score_and_level:
  "sum_list (map snd WEIGHTS) = 1 \<and> length WEIGHTS = 9
   \<and> weightedScore r =
     js_add (js_add (js_add (js_add (js_add (js_add (js_add (js_add (js_add 0
       (js_mul (score_or_0 r ''keywords'') (fl (18 / 100))))
       (js_mul (score_or_0 r ''structural'') (fl (14 / 100))))
       (js_mul (score_or_0 r ''phishing'') (fl (14 / 100))))
       (js_mul (score_or_0 r ''socialEngineering'') (fl (10 / 100))))
       (js_mul (score_or_0 r ''fakeEcommerce'') (fl (10 / 100))))
       (js_mul (score_or_0 r ''cryptoScam'') (fl (10 / 100))))
       (js_mul (score_or_0 r ''techSupport'') (fl (8 / 100))))
       (js_mul (score_or_0 r ''romanceFee'') (fl (8 / 100))))
       (js_mul (score_or_0 r ''maliciousDownload'') (fl (8 / 100)))
   \<and> score (aggregate r) =
       min 100 (max 0 (if hasCritical (allFindings r) \<and> \<lceil>weightedScore r\<rceil> < 41 then 41
                       else \<lceil>weightedScore r\<rceil>))
   \<and> 0 \<le> score (aggregate r) \<and> score (aggregate r) \<le> 100
   \<and> level (aggregate r) =
       (if score (aggregate r) \<le> 15 then Safe
        else if score (aggregate r) \<le> 40 then Caution
        else if score (aggregate r) \<le> 65 then Warning
        else Danger)"
proof -
  have w: "sum_list (map snd WEIGHTS) = 1 \<and> length WEIGHTS = 9"
    by (simp add: WEIGHTS_def)
  have s: "score (aggregate r) =
       min 100 (max 0 (if hasCritical (allFindings r) \<and> \<lceil>weightedScore r\<rceil> < 41 then 41
                       else \<lceil>weightedScore r\<rceil>))"
    by (simp add: score_aggregate clamp_def critical_escalation_def THRESHOLDS_def)
  have b: "0 \<le> score (aggregate r) \<and> score (aggregate r) \<le> 100"
    using clamp_range by (simp add: score_aggregate)
  have l: "level (aggregate r) =
       (if score (aggregate r) \<le> 15 then Safe
        else if score (aggregate r) \<le> 40 then Caution
        else if score (aggregate r) \<le> 65 then Warning
        else Danger)"
    by (simp add: level_aggregate getLevel_def THRESHOLDS_def)
  from w s b l weightedScore_unfold [of r] show ?thesis
    by blast
qed

theorem aggregate_score_and_level_witness:
  "score (aggregate seed_phrase_results) = 41 \<and> level (aggregate seed_phrase_results) = Warning"
  using aggregate_score_and_level [of seed_phrase_results]
  by (simp add: weightedScore_seed allFindings_seed hasCritical_def is_critical_seed)

text \<open>
  Binary64 rounding is visible in the score: nine detectors that all score \<open>40\<close> have the
  exact weighted sum \<open>40\<close>, and the accumulated sum is slightly larger, so that its
  ceiling is \<open>41\<close>.
\<close>

lemma weightedScore_uniform_40: "\<lceil>weightedScore uniform_40_results\<rceil> = 41"
  by (simp add: weightedScore_unfold uniform_40_results_def WEIGHTS_def js_add_def js_mul_def
      results_eval fl_eval)

subsection \<open>Partial result maps\<close>

lemma map_of_with_defaults:
  "map_of (with_defaults r) k =
     (case map_of r k of
        Some v \<Rightarrow> Some (default_entry v)
      | None \<Rightarrow> if k \<in> set (map fst WEIGHTS) then Some (Some zero_result) else None)"
proof -
  have 1: "map_of (map (\<lambda>(k, v). (k, default_entry v)) r) k = map_option default_entry (map_of r k)"
    by (induction r) auto
  have 2: "map_of (map (\<lambda>k. (k, Some zero_result)) ks) k
           = (if k \<in> set ks then Some (Some zero_result) else None)" for ks
    by (induction ks) auto
  show ?thesis
  proof (cases "map_of r k")
    case None
    then have "k \<notin> set (map fst r)"
      by (simp add: map_of_eq_None_iff)
    with None show ?thesis
      by (simp add: with_defaults_def map_add_def 1 2)
  next
    case (Some v)
    then show ?thesis
      by (simp add: with_defaults_def map_add_def 1 2)
  qed
qed

lemma score_or_0_with_defaults: "score_or_0 (with_defaults r) k = score_or_0 r k"
  by (simp add: score_or_0_def get_result_def map_of_with_defaults default_entry_def
      zero_result_def split: option.splits)

lemma findings_of_with_defaults: "findings_of (with_defaults r) k = findings_of r k"
  by (simp add: findings_of_def get_result_def map_of_with_defaults default_entry_def
      zero_result_def split: option.splits)

lemma weightedScore_with_defaults: "weightedScore (with_defaults r) = weightedScore r"
  by (simp add: weightedScore_def score_or_0_with_defaults)

lemma findings_of_absent: "k \<notin> set (map fst r) \<Longrightarrow> findings_of r k = []"
  by (simp add: findings_of_def get_result_def map_of_eq_None_iff [THEN iffD2])

lemma remdups_fresh_append:
  "distinct ys \<Longrightarrow> set xs \<inter> set ys = {} \<Longrightarrow> remdups (ys @ xs) = ys @ remdups xs"
  by (induction ys) auto

lemma insertion_order_append_fresh:
  assumes "distinct ys" and "set xs \<inter> set ys = {}"
  shows "insertion_order (xs @ ys) = insertion_order xs @ ys"
proof -
  from assms have "remdups (rev ys @ rev xs) = rev ys @ remdups (rev xs)"
    by (intro remdups_fresh_append) auto
  then show ?thesis
    by (simp add: insertion_order_def)
qed

lemma Object_keys_with_defaults:
  "Object_keys (with_defaults r)
   = Object_keys r @ filter (\<lambda>k. k \<notin> set (map fst r)) (map fst WEIGHTS)"
proof -
  let ?ys = "filter (\<lambda>k. k \<notin> set (map fst r)) (map fst WEIGHTS)"
  have "distinct (map fst WEIGHTS)"
    by (simp add: WEIGHTS_def)
  then have d: "distinct ?ys"
    by (rule distinct_filter)
  have i: "set (map fst r) \<inter> set ?ys = {}"
    by auto
  have m: "map fst (with_defaults r) = map fst r @ ?ys"
    by (simp add: with_defaults_def comp_def case_prod_unfold)
  show ?thesis
    unfolding Object_keys_def m by (rule insertion_order_append_fresh [OF d i])
qed

lemma allFindings_with_defaults: "allFindings (with_defaults r) = allFindings r"
proof -
  have e: "findings_of (with_defaults r) = findings_of r"
    by (rule ext) (rule findings_of_with_defaults)
  show ?thesis
    by (auto simp: allFindings_def Object_keys_with_defaults e findings_of_absent)
qed

lemma aggregate_with_defaults: "aggregate (with_defaults r) = aggregate r"
  by (simp add: aggregate_def weightedScore_with_defaults allFindings_with_defaults)

lemma with_defaults_complete:
  "k \<in> set (map fst WEIGHTS) \<Longrightarrow> well_formed_entry (get_result (with_defaults r) k)"
  by (auto simp: well_formed_entry_def get_result_def map_of_with_defaults default_entry_def
      zero_result_def split: option.splits)

text \<open>
  C10. On any result map, with detector entries absent, \<open>null\<close>, or lacking their score or
  findings, \<open>aggregate\<close> returns the assessment it returns on the completed map, in which
  each of the nine detectors has an entry and every missing score is \<open>0\<close> and every
  missing findings array is empty. The assessment is well formed: the score lies in
  \<open>[0,100]\<close>, the level is the band of the score, the findings are the findings present
  in the map, and the summary is the summary of that level, score and findings.
\<close>

theorem aggregate_partial_results:
  "aggregate r = aggregate (with_defaults r)
   \<and> (\<forall>k \<in> set (map fst WEIGHTS). well_formed_entry (get_result (with_defaults r) k))
   \<and> 0 \<le> score (aggregate r) \<and> score (aggregate r) \<le> 100
   \<and> level (aggregate r) = getLevel (score (aggregate r))
   \<and> mset (findings (aggregate r)) = mset (allFindings r)
   \<and> summary (aggregate r)
       = generateSummary (level (aggregate r)) (score (aggregate r)) (findings (aggregate r))"
proof -
  have b: "0 \<le> score (aggregate r) \<and> score (aggregate r) \<le> 100"
    using clamp_range by (simp add: score_aggregate)
  have m: "mset (findings (aggregate r)) = mset (allFindings r)"
    by (simp add: findings_aggregate)
  from b m show ?thesis
    using with_defaults_complete [of _ r] level_aggregate [of r] summary_aggregate [of r]
    by (simp add: aggregate_with_defaults)
qed

lemma weightedScore_partial: "\<lceil>weightedScore partial_results\<rceil> = 5"
  by (simp add: weightedScore_unfold partial_results_def js_add_def js_mul_def
      results_eval fl_eval)

lemma allFindings_partial: "allFindings partial_results = [low_finding]"
  by (simp add: results_eval partial_results_def)

theorem aggregate_partial_results_witness:
  "aggregate partial_results = aggregate (with_defaults partial_results)
   \<and> well_formed_entry (get_result (with_defaults partial_results) ''keywords'')
   \<and> \<not> well_formed_entry (get_result partial_results ''keywords'')
   \<and> score (aggregate partial_results) = 5
   \<and> level (aggregate partial_results) = Safe
   \<and> findings (aggregate partial_results) = [low_finding]"
proof -
  have k: "''keywords'' \<in> set (map fst WEIGHTS)"
    by (simp add: WEIGHTS_def)
  have n: "\<not> well_formed_entry (get_result partial_results ''keywords'')"
    by (simp add: well_formed_entry_def get_result_def partial_results_def)
  have s: "score (aggregate partial_results) = 5"
    by (simp add: score_aggregate weightedScore_partial allFindings_partial hasCritical_def
        is_critical_def low_finding_def CRITICAL_ESCALATION_CATEGORIES_def critical_escalation_def
        clamp_def)
  have f: "findings (aggregate partial_results) = [low_finding]"
    by (simp add: findings_aggregate allFindings_partial)
  have l: "level (aggregate partial_results) = Safe"
    by (simp add: level_aggregate s getLevel_def THRESHOLDS_def)
  note t = aggregate_partial_results [of partial_results]
  from t have a: "aggregate partial_results = aggregate (with_defaults partial_results)"
    by blast
  from t k have w: "well_formed_entry (get_result (with_defaults partial_results) ''keywords'')"
    by blast
  from a w n s l f show ?thesis
    by blast
qed

section \<open>The text normalizer\<close>

lemma replace_homoglyph_cases:
  "replace_homoglyph c = [c]
   \<or> (\<exists>a \<in> set (ascii ''aeopcyxikBHM''). replace_homoglyph c = [a])"
  by (simp add: replace_homoglyph_def glyph_or_self_def HOMOGLYPH_RE_def HOMOGLYPHS_def ascii_def)

lemma ascii_letter_fixed:
  "a \<in> set (ascii ''aeopcyxikBHM'') \<Longrightarrow> \<not> INVISIBLE_RE a \<and> replace_homoglyph a = [a]"
  by (auto simp: ascii_def INVISIBLE_RE_def replace_homoglyph_def HOMOGLYPH_RE_def)

lemma replace_homoglyph_stable:
  assumes "\<not> INVISIBLE_RE c" and "d \<in> set (replace_homoglyph c)"
  shows "\<not> INVISIBLE_RE d \<and> replace_homoglyph d = [d]"
proof -
  from replace_homoglyph_cases [of c] show ?thesis
  proof
    assume "replace_homoglyph c = [c]"
    with assms show ?thesis by simp
  next
    assume "\<exists>a \<in> set (ascii ''aeopcyxikBHM''). replace_homoglyph c = [a]"
    then obtain a where "a \<in> set (ascii ''aeopcyxikBHM'')" "replace_homoglyph c = [a]"
      by blast
    with assms(2) ascii_letter_fixed [of a] show ?thesis by simp
  qed
qed

lemma fold_homoglyphs_fixed:
  "\<forall>d \<in> set xs. \<not> INVISIBLE_RE d \<and> replace_homoglyph d = [d] \<Longrightarrow>
   concat (map replace_homoglyph (filter (\<lambda>c. \<not> INVISIBLE_RE c) xs)) = xs"
  by (induction xs) auto

lemma normalize_image_stable:
  "d \<in> set (normalize s) \<Longrightarrow> \<not> INVISIBLE_RE d \<and> replace_homoglyph d = [d]"
  by (auto simp: normalize_def dest: replace_homoglyph_stable split: if_splits)

text \<open>
  C3. \<open>normalize\<close> maps every string to a string, the empty string to the empty string,
  and is idempotent.
\<close>

theorem normalize_idempotent:
  "normalize [] = [] \<and> normalize (normalize s) = normalize s"
proof -
  have e: "normalize t = concat (map replace_homoglyph (filter (\<lambda>c. \<not> INVISIBLE_RE c) t))"
    for t
    by (simp add: normalize_def)
  have "normalize (normalize s)
        = concat (map replace_homoglyph (filter (\<lambda>c. \<not> INVISIBLE_RE c) (normalize s)))"
    by (rule e)
  also have "\<dots> = normalize s"
    by (rule fold_homoglyphs_fixed) (blast dest: normalize_image_stable)
  finally have "normalize (normalize s) = normalize s" .
  moreover have "normalize [] = []"
    by (simp add: normalize_def)
  ultimately show ?thesis
    by blast
qed

lemma normalize_cyrillic_paypal: "normalize cyrillic_paypal = ascii ''paypal''"
  by (simp add: normalize_def cyrillic_paypal_def ascii_def INVISIBLE_RE_def
      replace_homoglyph_def glyph_or_self_def HOMOGLYPH_RE_def HOMOGLYPHS_def)

section \<open>Domain lists\<close>

lemma split_evil_github_io:
  "split CHR ''.'' ''evil.github.io'' = [''evil'', ''github'', ''io'']"
  by simp

lemma split_a_example_com:
  "split CHR ''.'' ''a.example.com'' = [''a'', ''example'', ''com'']"
  by simp

text \<open>
  C8. \<open>isAllowed("evil.github.io")\<close> is false although \<open>github.io\<close> is on the user
  allowlist (the host itself not being listed), because \<open>github.io\<close> is a shared-hosting
  entry; \<open>isAllowed("a.example.com")\<close> is true when \<open>example.com\<close> is allowlisted, and
  \<open>example.com\<close> is not a shared-hosting entry.
\<close>

theorem isAllowed_shared_hosting:
  "(''github.io'' \<in> allow \<and> ''evil.github.io'' \<notin> allow \<longrightarrow> \<not> isAllowed allow ''evil.github.io'')
   \<and> ''github.io'' \<in> SHARED_HOSTING
   \<and> (''example.com'' \<in> allow \<longrightarrow> isAllowed allow ''a.example.com'')
   \<and> ''example.com'' \<notin> SHARED_HOSTING"
proof -
  have l1: "toLowerCase ''evil.github.io'' = ''evil.github.io''"
    by (simp add: toLowerCase_def toLowerCase_char_def)
  have l2: "toLowerCase ''a.example.com'' = ''a.example.com''"
    by (simp add: toLowerCase_def toLowerCase_char_def)
  have g: "''github.io'' \<in> SHARED_HOSTING"
    by (simp add: SHARED_HOSTING_def)
  have e: "''example.com'' \<notin> SHARED_HOSTING"
    by (simp add: SHARED_HOSTING_def)
  have p1: "\<not> parent_allowed allow [''evil'', ''github'', ''io''] 1"
    by (subst parent_allowed.simps) (use g in simp)
  have p2: "''example.com'' \<in> allow \<Longrightarrow> parent_allowed allow [''a'', ''example'', ''com''] 1"
    by (subst parent_allowed.simps) (use e in simp)
  from g e p1 p2 show ?thesis
    by (simp add: isAllowed_def l1 l2 split_evil_github_io split_a_example_com)
qed

theorem isAllowed_shared_hosting_witness:
  "\<not> isAllowed {''github.io''} ''evil.github.io''
   \<and> isAllowed {''example.com''} ''a.example.com''
   \<and> isAllowed {''github.io'', ''evil.github.io''} ''evil.github.io''"
proof -
  have x: "isAllowed {''github.io'', ''evil.github.io''} ''evil.github.io''"
    by (simp add: isAllowed_def toLowerCase_def toLowerCase_char_def)
  from isAllowed_shared_hosting [of "{''github.io''}"]
    isAllowed_shared_hosting [of "{''example.com''}"] x
  show ?thesis by simp
qed

section \<open>The social-findings merge\<close>

lemma merge_new_present:
  "\<forall>f \<in> set new. category f \<in> cats \<Longrightarrow> merge_new fs cats new = fs"
  by (induction new) auto

lemma merge_new_keeps: "f \<in> set fs \<Longrightarrow> f \<in> set (merge_new fs cats new)"
  by (induction new arbitrary: fs cats) auto

lemma merge_new_covers:
  "f \<in> set new \<Longrightarrow>
   category f \<in> cats \<or> category f \<in> category ` set (merge_new fs cats new)"
proof (induction new arbitrary: fs cats)
  case Nil
  then show ?case by simp
next
  case (Cons a new)
  show ?case
  proof (cases "category a \<in> cats")
    case True
    with Cons show ?thesis by auto
  next
    case False
    have a: "a \<in> set (merge_new (fs @ [a]) (insert (category a) cats) new)"
      by (rule merge_new_keeps) simp
    show ?thesis
    proof (cases "f = a")
      case True
      with a False show ?thesis by auto
    next
      case neq: False
      with Cons.prems have "f \<in> set new" by simp
      from Cons.IH [OF this, of "insert (category a) cats" "fs @ [a]"] a False
      show ?thesis by auto
    qed
  qed
qed

lemma update_level_idem: "update_level (update_level a) = update_level a"
  by (simp add: update_level_def)

lemma score_update_level: "score (update_level a) = score a"
  by (simp add: update_level_def)

lemma findings_update_level: "findings (update_level a) = findings a"
  by (simp add: update_level_def)

lemma findings_merge_social:
  "findings (merge_social fs a)
   = merge_new (findings a) (set (map category (findings a))) (map social_finding fs)"
  by (simp add: merge_social_def Let_def findings_update_level)

lemma score_merge_social:
  "min (sum_list (map (\<lambda>f. severityScore (severity f)) (findings (merge_social fs a)))) 100
   \<le> score (merge_social fs a)"
  by (auto simp: merge_social_def Let_def score_update_level findings_update_level min_def)

lemma update_level_merge_social: "update_level (merge_social fs a) = merge_social fs a"
  by (simp add: merge_social_def Let_def update_level_idem)

lemma merge_social_fixed:
  assumes "merge_new (findings a) (set (map category (findings a))) (map social_finding fs)
           = findings a"
    and "min (sum_list (map (\<lambda>f. severityScore (severity f)) (findings a))) 100 \<le> score a"
    and "update_level a = a"
  shows "merge_social fs a = a"
proof -
  have c: "\<not> (score a < sum_list (map (\<lambda>f. severityScore (severity f)) (findings a))
               \<and> score a < 100)"
    using assms(2) by (auto simp: min_def split: if_splits)
  have "merge_social fs a = update_level (a\<lparr>findings := findings a\<rparr>)"
    unfolding merge_social_def Let_def assms(1) using c by auto
  with assms(3) show ?thesis by simp
qed

lemma merge_social_idem: "merge_social fs (merge_social fs a) = merge_social fs a"
proof (rule merge_social_fixed)
  let ?new = "map social_finding fs"
  let ?m = "merge_new (findings a) (set (map category (findings a))) ?new"
  have f1: "findings (merge_social fs a) = ?m"
    by (rule findings_merge_social)
  have "\<forall>f \<in> set ?new. category f \<in> set (map category ?m)"
    using merge_new_covers [of _ ?new "set (map category (findings a))" "findings a"]
      merge_new_keeps [of _ "findings a" "set (map category (findings a))" ?new]
    by auto
  then have "merge_new ?m (set (map category ?m)) ?new = ?m"
    by (rule merge_new_present)
  then show "merge_new (findings (merge_social fs a))
               (set (map category (findings (merge_social fs a)))) ?new
             = findings (merge_social fs a)"
    by (simp only: f1)
next
  show "min (sum_list (map (\<lambda>f. severityScore (severity f)) (findings (merge_social fs a)))) 100
        \<le> score (merge_social fs a)"
    by (rule score_merge_social)
next
  show "update_level (merge_social fs a) = merge_social fs a"
    by (rule update_level_merge_social)
qed

text \<open>
  C7. A second \<open>addSocialFindings\<close> with the same batch, right after the first, leaves the
  stored assessment as the first call left it: no finding is added, and score, level and
  summary are unchanged.
\<close>

theorem addSocialFindings_idempotent:
  "results_slot (addSocialFindings fs (addSocialFindings fs st))
   = results_slot (addSocialFindings fs st)"
proof (cases "fs = []")
  case True
  then show ?thesis by (simp add: addSocialFindings_def)
next
  case False
  have r: "results_slot (addSocialFindings fs s)
           = Some (merge_social fs (case results_slot s of
                       None \<Rightarrow> \<lparr>level = Safe, score = 0, findings = [], summary = '''',
                                 allowlisted = False, blocklisted = False\<rparr>
                     | Some r \<Rightarrow> r))" for s
    using False
    by (simp add: addSocialFindings_def Let_def sendToBackground_def showBannerIfAllowed_def)
  show ?thesis
    by (simp add: r merge_social_idem)
qed

lemma social_batch_once:
  "results_slot (addSocialFindings [dm_finding, mlm_finding] fresh_analyzer)
   = Some \<lparr>level = Safe, score = 10,
           findings = [social_finding dm_finding, social_finding mlm_finding],
           summary = '''', allowlisted = False, blocklisted = False\<rparr>"
  by (simp add: addSocialFindings_def fresh_analyzer_def merge_social_def Let_def
      social_finding_def dm_finding_def mlm_finding_def js_or_def severityScore_def
      update_level_def sendToBackground_def showBannerIfAllowed_def)

theorem addSocialFindings_idempotent_witness:
  "map_option score (results_slot fresh_analyzer) = None
   \<and> map_option score (results_slot (addSocialFindings [dm_finding, mlm_finding] fresh_analyzer))
       = Some 10
   \<and> map_option score
         (results_slot (addSocialFindings [dm_finding, mlm_finding]
            (addSocialFindings [dm_finding, mlm_finding] fresh_analyzer)))
       = Some 10"
  using addSocialFindings_idempotent [of "[dm_finding, mlm_finding]" fresh_analyzer]
  by (simp add: social_batch_once) (simp add: fresh_analyzer_def)

section \<open>A detector that throws\<close>

lemma run_all_Inr_all:
  "run_all calls = Inr r \<Longrightarrow> c \<in> set calls \<Longrightarrow> \<not> isl (snd c)"
  by (induction calls arbitrary: r) (auto split: sum.splits)

lemma run_all_throws:
  "\<exists>c \<in> set calls. isl (snd c) \<Longrightarrow> \<exists>err. run_all calls = Inl err"
  by (cases "run_all calls") (auto dest: run_all_Inr_all)

lemma run_all_returns:
  "\<forall>c \<in> set calls. \<not> isl (snd c) \<Longrightarrow> \<exists>r. run_all calls = Inr r"
  by (induction calls) (auto split: sum.splits)

text \<open>
  C4, as stated, fails. After a re-run has cleared \<open>_results\<close>, a pass in which the keyword
  scanner throws and the structural detector reports an external form action stores no
  assessment and sends none; had the keyword scanner returned score \<open>0\<close> and no findings, the
  pass would have stored one.
\<close>

theorem analyze_throw_loses_pass:
  "results_slot (analyze keyword_scanner_throws fresh_analyzer) = None
   \<and> sent (analyze keyword_scanner_throws fresh_analyzer) = []
   \<and> results_slot
         (analyze (keyword_scanner_throws\<lparr>KeywordScanner_scan := Inr zero_result\<rparr>) fresh_analyzer)
       \<noteq> None"
  by (simp add: analyze_def detector_calls_def keyword_scanner_throws_def fresh_analyzer_def
      Let_def sendToBackground_def showBannerIfAllowed_def)

text \<open>
  C4, amended. If any detector throws during an analysis pass, \<open>_analyze\<close> catches the
  exception and logs it, and the pass produces no assessment: \<open>_results\<close> keeps the value it
  had, nothing is sent to the background worker and no banner is requested; the results of
  the other detectors are discarded. A pass in which no detector throws stores an
  assessment.
\<close>

theorem analyze_detector_throws:
  "((\<exists>c \<in> set (detector_calls d). isl (snd c)) \<longrightarrow>
      results_slot (analyze d st) = results_slot st
      \<and> sent (analyze d st) = sent st
      \<and> bannerCallId (analyze d st) = bannerCallId st
      \<and> length (console_errors (analyze d st)) = Suc (length (console_errors st)))
   \<and> ((\<forall>c \<in> set (detector_calls d). \<not> isl (snd c)) \<longrightarrow>
      results_slot (analyze d st) \<noteq> None
      \<and> length (sent (analyze d st)) = Suc (length (sent st)))"
proof (intro conjI impI)
  assume "\<exists>c \<in> set (detector_calls d). isl (snd c)"
  then obtain err where e: "run_all (detector_calls d) = Inl err"
    using run_all_throws by blast
  show "results_slot (analyze d st) = results_slot st"
    and "sent (analyze d st) = sent st"
    and "bannerCallId (analyze d st) = bannerCallId st"
    and "length (console_errors (analyze d st)) = Suc (length (console_errors st))"
    by (simp_all add: analyze_def e)
next
  assume "\<forall>c \<in> set (detector_calls d). \<not> isl (snd c)"
  then obtain r where r: "run_all (detector_calls d) = Inr r"
    using run_all_returns by blast
  show "results_slot (analyze d st) \<noteq> None"
    and "length (sent (analyze d st)) = Suc (length (sent st))"
    by (simp_all add: analyze_def r Let_def sendToBackground_def showBannerIfAllowed_def)
qed

theorem analyze_detector_throws_witness:
  "(\<exists>c \<in> set (detector_calls keyword_scanner_throws). isl (snd c))
   \<and> results_slot (analyze keyword_scanner_throws fresh_analyzer) = None
   \<and> length (console_errors (analyze keyword_scanner_throws fresh_analyzer)) = 1"
proof -
  have h: "\<exists>c \<in> set (detector_calls keyword_scanner_throws). isl (snd c)"
    by (simp add: detector_calls_def keyword_scanner_throws_def)
  from analyze_detector_throws [of keyword_scanner_throws fresh_analyzer] h
  show ?thesis
    by (simp add: fresh_analyzer_def)
qed

section \<open>Where severities are validated\<close>

lemma warning_rank_valid: "warning_rank s \<noteq> 0 \<Longrightarrow> s \<in> set VALID_SEV"
  by (simp add: warning_rank_def VALID_SEV_def split: if_splits)

lemma max_step_valid:
  assumes "mx \<in> set VALID_SEV"
  shows "max_step mx f \<in> set VALID_SEV"
proof -
  let ?sev = "case severity f of None \<Rightarrow> ''low''
              | Some s \<Rightarrow> if warning_rank s \<noteq> 0 then s else ''low''"
  have low: "''low'' \<in> set VALID_SEV"
    by (simp add: VALID_SEV_def)
  have "?sev \<in> set VALID_SEV"
    by (cases "severity f") (use low in \<open>auto intro: warning_rank_valid\<close>)
  with assms show ?thesis
    by (simp add: max_step_def Let_def)
qed

lemma foldl_max_step_valid:
  "mx \<in> set VALID_SEV \<Longrightarrow> foldl max_step mx fs \<in> set VALID_SEV"
  by (induction fs arbitrary: mx) (simp_all add: max_step_valid)

lemma finding_row_valid: "severity_text (finding_row_of f) \<in> set VALID_SEV"
  by (simp add: finding_row_of_def Let_def VALID_SEV_def split: option.splits)

lemma allFindings_bogus: "allFindings bogus_results = [bogus_finding]"
  by (simp add: results_eval bogus_results_def)

lemma merge_new_subset: "set (merge_new fs cats new) \<subseteq> set fs \<union> set new"
proof (induction new arbitrary: fs cats)
  case Nil
  show ?case by simp
next
  case (Cons a new)
  from Cons.IH [of "fs @ [a]" "insert (category a) cats"] Cons.IH [of fs cats]
  show ?case by auto
qed

lemma results_slot_addSocialFindings:
  "new \<noteq> [] \<Longrightarrow>
   results_slot (addSocialFindings new st)
   = Some (merge_social new
       (case results_slot st of
          None \<Rightarrow> \<lparr>level = Safe, score = 0, findings = [], summary = '''',
                   allowlisted = False, blocklisted = False\<rparr>
        | Some r \<Rightarrow> r))"
  by (simp add: addSocialFindings_def Let_def sendToBackground_def showBannerIfAllowed_def)

text \<open>
  In \<open>_injectWarning\<close> a finding whose severity is missing or outside the table counts as
  one of severity \<open>low\<close>.
\<close>

lemma max_step_unknown_as_low:
  "severity f \<notin> Some ` set VALID_SEV \<Longrightarrow>
   max_step mx f = max_step mx (f\<lparr>severity := Some ''low''\<rparr>)"
  by (cases "severity f")
     (auto simp: max_step_def Let_def warning_rank_def VALID_SEV_def image_iff)

lemma foldl_max_step_unknown_as_low:
  "foldl max_step mx fs
   = foldl max_step mx
       (map (\<lambda>f. if severity f \<in> Some ` set VALID_SEV then f
                 else f\<lparr>severity := Some ''low''\<rparr>) fs)"
proof (induction fs arbitrary: mx)
  case Nil
  show ?case by simp
next
  case (Cons f fs)
  show ?case
  proof (cases "severity f \<in> Some ` set VALID_SEV")
    case True
    with Cons.IH show ?thesis by simp
  next
    case False
    with Cons.IH max_step_unknown_as_low [OF False, of mx] show ?thesis by simp
  qed
qed

text \<open>
  C9, as stated, fails: the aggregator returns a finding whose severity is \<open>bogus\<close> with
  that severity, and so does the social-findings merge.
\<close>

theorem severity_kept_by_aggregate_and_merge:
  "map severity (findings (aggregate bogus_results)) = [Some ''bogus'']
   \<and> ''bogus'' \<notin> set VALID_SEV
   \<and> map_option (map severity \<circ> findings)
         (results_slot (addSocialFindings [bogus_finding] fresh_analyzer))
       = Some [Some ''bogus'']"
  by (simp add: findings_aggregate allFindings_bogus VALID_SEV_def bogus_finding_def
      addSocialFindings_def fresh_analyzer_def merge_social_def Let_def social_finding_def
      js_or_def severityScore_def update_level_def sendToBackground_def
      showBannerIfAllowed_def)

text \<open>
  C9, amended. A severity is validated against \<open>{critical, high, medium, low}\<close> where
  findings are rendered. Every row of the banner's findings panel shows a severity of that
  set, a severity that is missing or outside the set being replaced by \<open>medium\<close>. The
  severity of a post's inline warning is of that set, a finding whose severity is missing
  or outside the set counting as one of severity \<open>low\<close>. The aggregator and the
  social-findings merge do not validate: the aggregator returns the findings it collected,
  each with the severity it was given; the merge replaces only a missing or empty severity
  by \<open>medium\<close>, and what it stores of a batch are these findings, each other severity as
  given.
\<close>

theorem severity_validated_at_rendering:
  "(\<forall>row \<in> set (finding_rows (createBanner a)). severity_text row \<in> set VALID_SEV)
   \<and> map severity_text (finding_rows (createBanner a))
       = map (\<lambda>f. case severity f of None \<Rightarrow> ''medium''
                   | Some s \<Rightarrow> if s \<in> set VALID_SEV then s else ''medium'') (findings a)
   \<and> maxSeverity fs \<in> set VALID_SEV
   \<and> maxSeverity fs
       = maxSeverity (map (\<lambda>f. if severity f \<in> Some ` set VALID_SEV then f
                                else f\<lparr>severity := Some ''low''\<rparr>) fs)
   \<and> warning_class (injectWarning fs) = ''scaim-post-warning scaim-post-'' @ maxSeverity fs
   \<and> mset (findings (aggregate r)) = mset (allFindings r)
   \<and> severity (social_finding f)
       = Some (case severity f of None \<Rightarrow> ''medium''
               | Some s \<Rightarrow> if s = [] then ''medium'' else s)
   \<and> (new \<noteq> [] \<longrightarrow>
        (\<exists>m. results_slot (addSocialFindings new st) = Some m
           \<and> set (findings m)
              \<subseteq> (case results_slot st of None \<Rightarrow> {} | Some b \<Rightarrow> set (findings b))
                \<union> social_finding ` set new))"
proof -
  have 1: "\<forall>row \<in> set (finding_rows (createBanner a)). severity_text row \<in> set VALID_SEV"
    by (auto simp: createBanner_def Let_def finding_row_valid)
  have 2: "map severity_text (finding_rows (createBanner a))
       = map (\<lambda>f. case severity f of None \<Rightarrow> ''medium''
                   | Some s \<Rightarrow> if s \<in> set VALID_SEV then s else ''medium'') (findings a)"
    by (simp add: createBanner_def Let_def finding_row_of_def comp_def)
  have 3: "maxSeverity fs \<in> set VALID_SEV"
    unfolding maxSeverity_def by (rule foldl_max_step_valid) (simp add: VALID_SEV_def)
  have 4: "maxSeverity fs
       = maxSeverity (map (\<lambda>f. if severity f \<in> Some ` set VALID_SEV then f
                                else f\<lparr>severity := Some ''low''\<rparr>) fs)"
    unfolding maxSeverity_def by (rule foldl_max_step_unknown_as_low)
  have 5: "warning_class (injectWarning fs) = ''scaim-post-warning scaim-post-'' @ maxSeverity fs"
    by (simp add: injectWarning_def Let_def)
  have 6: "mset (findings (aggregate r)) = mset (allFindings r)"
    by (simp add: findings_aggregate)
  have 7: "severity (social_finding f)
       = Some (case severity f of None \<Rightarrow> ''medium''
               | Some s \<Rightarrow> if s = [] then ''medium'' else s)"
    by (simp add: social_finding_def js_or_def)
  have 8: "\<exists>m. results_slot (addSocialFindings new st) = Some m
           \<and> set (findings m)
              \<subseteq> (case results_slot st of None \<Rightarrow> {} | Some b \<Rightarrow> set (findings b))
                \<union> social_finding ` set new"
    if n: "new \<noteq> []"
  proof (cases "results_slot st")
    case None
    with merge_new_subset [of "[]" "{}" "map social_finding new"]
    show ?thesis
      by (simp add: results_slot_addSocialFindings [OF n] findings_merge_social)
  next
    case (Some b)
    with merge_new_subset [of "findings b" "set (map category (findings b))"
        "map social_finding new"]
    show ?thesis
      by (simp add: results_slot_addSocialFindings [OF n] findings_merge_social)
  qed
  from 1 2 3 4 5 6 7 8 show ?thesis
    by blast
qed

theorem severity_validated_at_rendering_witness:
  "map severity (findings (aggregate bogus_results)) = [Some ''bogus'']
   \<and> map severity_text (finding_rows (createBanner (aggregate bogus_results))) = [''medium'']
   \<and> maxSeverity [bogus_finding] = ''low''
   \<and> [bogus_finding] \<noteq> []
   \<and> (\<exists>m. results_slot (addSocialFindings [bogus_finding] fresh_analyzer) = Some m
         \<and> set (findings m) \<subseteq> {social_finding bogus_finding})
   \<and> severity (social_finding bogus_finding) = Some ''bogus''"
proof -
  have s: "map severity (findings (aggregate bogus_results)) = [Some ''bogus'']"
    by (simp add: findings_aggregate allFindings_bogus bogus_finding_def)
  have m: "maxSeverity [bogus_finding] = ''low''"
    by (simp add: maxSeverity_def max_step_def bogus_finding_def warning_rank_def)
  have b: "severity bogus_finding = Some ''bogus''"
    by (simp add: bogus_finding_def)
  have e: "results_slot fresh_analyzer = None"
    by (simp add: fresh_analyzer_def)
  from severity_validated_at_rendering [of "aggregate bogus_results" "[bogus_finding]"
      bogus_results bogus_finding "[bogus_finding]" fresh_analyzer] s m
  show ?thesis
    by (simp add: findings_aggregate allFindings_bogus b e VALID_SEV_def)
qed

section \<open>A cross-origin login form on an HTTP page\<close>

lemma set_findings_aggregate: "set (findings (aggregate r)) = set (allFindings r)"
  by (simp add: findings_aggregate)

lemma allFindings_page_results:
  "allFindings (page_results URL p srest prest others) =
     findings_of (page_results URL p srest prest others) ''keywords''
     @ snd (checkForms URL p)
     @ snd (checkExternalScripts srest) @ snd (checkIframes srest)
     @ snd (checkLinkSpoofing srest) @ snd (checkHTTPS p)
     @ snd (checkExternalResources srest) @ snd (checkObfuscation srest)
     @ snd (checkSensitiveInputs srest)
     @ snd (checkURL prest) @ snd (checkDomain prest) @ snd (checkLoginForms URL p)
     @ snd (checkBrandImpersonation prest)
     @ concat (map (findings_of (page_results URL p srest prest others))
         [''socialEngineering'', ''fakeEcommerce'', ''cryptoScam'', ''techSupport'',
          ''romanceFee'', ''maliciousDownload''])"
  by (simp add: allFindings_def Object_keys_def insertion_order_def page_results_def
      findings_of_def get_result_def StructuralDetector_scan_page_def
      PhishingDetector_scan_page_def scan_result_def)

lemma map_insort_key:
  "map g (insort_key (\<lambda>x. k (g x)) x xs) = insort_key k (g x) (map g xs)"
  by (induction xs) auto

lemma map_sort_key: "map g (sort_key (\<lambda>x. k (g x)) xs) = sort_key k (map g xs)"
  by (induction xs) (simp_all add: map_insort_key)

lemma snd_both: "snd (both a b) = snd a @ snd b"
  by (simp add: both_def)

lemma check_forms_from_member:
  "f \<in> set fs \<Longrightarrow>
   \<exists>j. set (snd (check_form URL p j f)) \<subseteq> set (snd (check_forms_from URL p i fs))"
proof (induction fs arbitrary: i)
  case Nil
  then show ?case by simp
next
  case (Cons g fs)
  show ?case
  proof (cases "f = g")
    case True
    have "set (snd (check_form URL p i f)) \<subseteq> set (snd (check_forms_from URL p i (g # fs)))"
      using True by (simp add: snd_both)
    then show ?thesis by blast
  next
    case False
    with Cons.prems have "f \<in> set fs" by simp
    from Cons.IH [OF this, of "i + 1"] show ?thesis
      by (auto simp: snd_both)
  qed
qed

lemma checkLoginForms_from_member:
  "f \<in> set fs \<Longrightarrow>
   set (snd (check_login_form URL p f)) \<subseteq> set (snd (checkLoginForms_from URL p fs))"
  by (induction fs) (auto simp: snd_both)

lemma check_form_external:
  assumes "action f = Some a" and "a \<noteq> []" and "URL a (href p) = Some h"
    and "h \<noteq> hostname p" and "toLowerCase (js_or (method_attr f) ''get'') = ''post''"
  shows "\<exists>x \<in> set (snd (check_form URL p j f)).
           category x = Some ''External Form Action'' \<and> severity x = Some ''critical''"
  using assms by (simp add: check_form_def Let_def js_or_def snd_both hit_def)

lemma check_login_form_insecure:
  assumes "password_inputs f > 0 \<or> email_or_user_input f" and "protocol p = ''http:''"
  shows "\<exists>x \<in> set (snd (check_login_form URL p f)).
           category x = Some ''Insecure Login'' \<and> severity x = Some ''critical''"
  using assms by (auto simp: check_login_form_def snd_both hit_def)

lemma checkHTTPS_http:
  "protocol p = ''http:'' \<Longrightarrow>
   \<exists>x \<in> set (snd (checkHTTPS p)). category x = Some ''No HTTPS'' \<and> severity x = Some ''high''"
  by (simp add: checkHTTPS_def hit_def)

text \<open>
  A page served over HTTP that holds nothing but one password form posting to another origin:
  its findings, the scores of its detectors and its aggregated score.
\<close>

lemma login_page_score:
  "map (\<lambda>x. (severity x, category x)) (allFindings login_page_results)
           = [(Some ''critical'', Some ''External Form Action''),
              (Some ''critical'', Some ''Insecure Password Field''),
              (Some ''high'', Some ''No HTTPS''),
              (Some ''critical'', Some ''Insecure Login''),
              (Some ''critical'', Some ''External Login Action'')]"
  "score (aggregate login_page_results) = 41"
proof -
  show f: "map (\<lambda>x. (severity x, category x)) (allFindings login_page_results)
           = [(Some ''critical'', Some ''External Form Action''),
              (Some ''critical'', Some ''Insecure Password Field''),
              (Some ''high'', Some ''No HTTPS''),
              (Some ''critical'', Some ''Insecure Login''),
              (Some ''critical'', Some ''External Login Action'')]"
    unfolding login_page_results_def allFindings_page_results
    by (simp add: findings_of_def get_result_def
        page_results_def nothing_else_def zero_result_def nothing_structural_def
        nothing_phishing_def no_hit_def checkForms_def checkLoginForms_def checkHTTPS_def
        check_form_def check_login_form_def login_page_def example_URL_def Let_def js_or_def
        toLowerCase_def toLowerCase_char_def both_def hit_def)
  have s: "score_or_0 login_page_results ''structural'' = 70"
    by (simp add: login_page_results_def score_or_0_def get_result_def page_results_def
        StructuralDetector_scan_page_def scan_result_def nothing_structural_def no_hit_def
        checkForms_def checkHTTPS_def check_form_def login_page_def example_URL_def Let_def
        js_or_def toLowerCase_def toLowerCase_char_def both_def hit_def)
  have p: "score_or_0 login_page_results ''phishing'' = 55"
    by (simp add: login_page_results_def score_or_0_def get_result_def page_results_def
        PhishingDetector_scan_page_def scan_result_def nothing_phishing_def no_hit_def
        checkLoginForms_def check_login_form_def login_page_def example_URL_def
        both_def hit_def)
  have o: "score_or_0 login_page_results k = 0"
    if "k \<in> {''keywords'', ''socialEngineering'', ''fakeEcommerce'', ''cryptoScam'',
              ''techSupport'', ''romanceFee'', ''maliciousDownload''}" for k
    using that
    by (auto simp: login_page_results_def score_or_0_def get_result_def page_results_def
        nothing_else_def zero_result_def)
  have w: "\<lceil>weightedScore login_page_results\<rceil> = 18"
    by (simp add: weightedScore_unfold s p o js_add_def js_mul_def fl_eval)
  have c: "hasCritical (allFindings login_page_results)"
    using f by (auto simp: hasCritical_def list_ex_iff is_critical_def)
  show "score (aggregate login_page_results) = 41"
    by (simp add: score_aggregate w c critical_escalation_def clamp_def THRESHOLDS_def)
qed

text \<open>
  C5, as stated, fails: on an HTTP page that holds nothing but a password form posting to
  another origin, the analysis produces the findings the claim names, and the aggregated
  score is \<open>41\<close>, whose level is \<open>warning\<close>.
\<close>

theorem login_page_is_warning:
  "map category (findings (aggregate login_page_results))
     = [Some ''External Form Action'', Some ''Insecure Password Field'',
        Some ''Insecure Login'', Some ''External Login Action'', Some ''No HTTPS'']
   \<and> map severity (findings (aggregate login_page_results))
     = [Some ''critical'', Some ''critical'', Some ''critical'', Some ''critical'', Some ''high'']
   \<and> score (aggregate login_page_results) = 41
   \<and> level (aggregate login_page_results) = Warning"
proof -
  note f = login_page_score(1) and sc = login_page_score(2)
  have l: "level (aggregate login_page_results) = Warning"
    by (simp add: level_aggregate sc getLevel_def THRESHOLDS_def)
  have "map (\<lambda>x. (severity x, category x)) (findings (aggregate login_page_results))
        = sort_key (\<lambda>x. severityOrder (fst x))
            (map (\<lambda>x. (severity x, category x)) (allFindings login_page_results))"
    using map_sort_key [of "\<lambda>x. (severity x, category x)" "\<lambda>x. severityOrder (fst x)"
        "allFindings login_page_results"]
    by (simp add: findings_aggregate)
  also have "\<dots> = [(Some ''critical'', Some ''External Form Action''),
              (Some ''critical'', Some ''Insecure Password Field''),
              (Some ''critical'', Some ''Insecure Login''),
              (Some ''critical'', Some ''External Login Action''),
              (Some ''high'', Some ''No HTTPS'')]"
    unfolding f by (simp add: severityOrder_def)
  finally have m: "map (\<lambda>x. (severity x, category x)) (findings (aggregate login_page_results))
        = [(Some ''critical'', Some ''External Form Action''),
              (Some ''critical'', Some ''Insecure Password Field''),
              (Some ''critical'', Some ''Insecure Login''),
              (Some ''critical'', Some ''External Login Action''),
              (Some ''high'', Some ''No HTTPS'')]" .
  have "map category (findings (aggregate login_page_results))
        = map snd (map (\<lambda>x. (severity x, category x)) (findings (aggregate login_page_results)))"
    and "map severity (findings (aggregate login_page_results))
        = map fst (map (\<lambda>x. (severity x, category x)) (findings (aggregate login_page_results)))"
    by (simp_all add: comp_def)
  with sc l show ?thesis
    unfolding m by simp
qed

text \<open>
  With the default method (\<open>get\<close>) the same form gets no \<open>External Form Action\<close> finding
  from the structural detector; the phishing detector still reports it.
\<close>

lemma login_page_get_findings:
  "map category
     (allFindings (page_results example_URL login_page_get nothing_structural nothing_phishing
        nothing_else))
   = [Some ''Insecure Password Field'', Some ''No HTTPS'', Some ''Insecure Login'',
      Some ''External Login Action'']"
  unfolding allFindings_page_results
  by (simp add: findings_of_def get_result_def
      page_results_def nothing_else_def zero_result_def nothing_structural_def
      nothing_phishing_def no_hit_def checkForms_def checkLoginForms_def checkHTTPS_def
      check_form_def check_login_form_def login_page_def login_page_get_def example_URL_def
      Let_def js_or_def toLowerCase_def toLowerCase_char_def both_def hit_def)

text \<open>
  C5, amended. On a page served over HTTP that has a login form (a form with a password,
  e-mail or user-name field) whose method is \<open>post\<close> and whose \<open>action\<close> resolves to
  another host than the page's, whatever else the page holds, the analysis produces an
  \<open>External Form Action\<close> finding of severity critical, an \<open>Insecure Login\<close> finding of
  severity critical and a \<open>No HTTPS\<close> finding of severity high, and the aggregated level is
  \<open>warning\<close> or \<open>danger\<close>; it is \<open>danger\<close> exactly when the aggregated score exceeds \<open>65\<close>.
\<close>

theorem cross_origin_login_form_http:
  assumes "protocol p = ''http:''"
    and "f \<in> set (forms p)"
    and "password_inputs f > 0 \<or> email_or_user_input f"
    and "action f = Some a" and "a \<noteq> []"
    and "URL a (href p) = Some h" and "h \<noteq> hostname p"
    and "toLowerCase (js_or (method_attr f) ''get'') = ''post''"
  shows "(\<exists>x \<in> set (findings (page_assessment URL p srest prest others)).
            category x = Some ''External Form Action'' \<and> severity x = Some ''critical'')
       \<and> (\<exists>x \<in> set (findings (page_assessment URL p srest prest others)).
            category x = Some ''Insecure Login'' \<and> severity x = Some ''critical'')
       \<and> (\<exists>x \<in> set (findings (page_assessment URL p srest prest others)).
            category x = Some ''No HTTPS'' \<and> severity x = Some ''high'')
       \<and> (level (page_assessment URL p srest prest others) = Warning
            \<or> level (page_assessment URL p srest prest others) = Danger)
       \<and> (level (page_assessment URL p srest prest others) = Danger
            \<longleftrightarrow> 65 < score (page_assessment URL p srest prest others))"
proof -
  let ?r = "page_results URL p srest prest others"
  have fs: "set (findings (page_assessment URL p srest prest others)) = set (allFindings ?r)"
    by (simp add: page_assessment_def set_findings_aggregate)
  obtain j where "set (snd (check_form URL p j f)) \<subseteq> set (snd (checkForms URL p))"
    using check_forms_from_member [OF assms(2)] unfolding checkForms_def by blast
  with check_form_external [where f = f and a = a and URL = URL and p = p and h = h and j = j]
    assms(4-8)
  have 1: "\<exists>x \<in> set (allFindings ?r).
            category x = Some ''External Form Action'' \<and> severity x = Some ''critical''"
    unfolding allFindings_page_results by auto
  have "set (snd (check_login_form URL p f)) \<subseteq> set (snd (checkLoginForms URL p))"
    using checkLoginForms_from_member [OF assms(2)] unfolding checkLoginForms_def by blast
  with check_login_form_insecure [where f = f and p = p and URL = URL] assms(1) assms(3)
  have 2: "\<exists>x \<in> set (allFindings ?r).
            category x = Some ''Insecure Login'' \<and> severity x = Some ''critical''"
    unfolding allFindings_page_results by auto
  from checkHTTPS_http [OF assms(1)]
  have 3: "\<exists>x \<in> set (allFindings ?r).
            category x = Some ''No HTTPS'' \<and> severity x = Some ''high''"
    unfolding allFindings_page_results by auto
  from 1 have "hasCritical (allFindings ?r)"
    by (auto simp: hasCritical_def list_ex_iff is_critical_def)
  then have s: "41 \<le> score (aggregate ?r)"
    by (simp add: score_aggregate clamp_escalate_True)
  then have 4: "level (aggregate ?r) = Warning \<or> level (aggregate ?r) = Danger"
    using getLevel_ge_41 [of "score (aggregate ?r)"]
    by (cases "level (aggregate ?r)") (simp_all add: level_aggregate)
  have 5: "level (aggregate ?r) = Danger \<longleftrightarrow> 65 < score (aggregate ?r)"
    by (simp add: level_aggregate getLevel_def THRESHOLDS_def)
  from 1 2 3 4 5 show ?thesis
    unfolding fs by (simp add: page_assessment_def)
qed

theorem cross_origin_login_form_http_witness:
  "protocol login_page = ''http:''
   \<and> (\<exists>x \<in> set (findings (page_assessment example_URL login_page nothing_structural
          nothing_phishing nothing_else)).
         category x = Some ''External Form Action'' \<and> severity x = Some ''critical'')
   \<and> level (page_assessment example_URL login_page nothing_structural nothing_phishing
         nothing_else) \<noteq> Danger"
proof -
  let ?f = "\<lparr>action = Some ''https://collector.example/in'', method_attr = Some ''post'',
             hidden_inputs = 0, password_inputs = 1, email_or_user_input = False\<rparr>"
  have 1: "protocol login_page = ''http:''"
    by (simp add: login_page_def)
  have 2: "?f \<in> set (forms login_page)"
    by (simp add: login_page_def)
  have 3: "password_inputs ?f > 0 \<or> email_or_user_input ?f"
    by simp
  have 4: "action ?f = Some ''https://collector.example/in''"
    and 5: "''https://collector.example/in'' \<noteq> []"
    by simp_all
  have 6: "example_URL ''https://collector.example/in'' (href login_page)
           = Some ''collector.example''"
    by (simp add: example_URL_def)
  have 7: "''collector.example'' \<noteq> hostname login_page"
    by (simp add: login_page_def)
  have 8: "toLowerCase (js_or (method_attr ?f) ''get'') = ''post''"
    by (simp add: js_or_def toLowerCase_def toLowerCase_char_def)
  have 9: "score (page_assessment example_URL login_page nothing_structural nothing_phishing
             nothing_else) = 41"
    using login_page_score(2) by (simp add: page_assessment_def login_page_results_def)
  note t = cross_origin_login_form_http [where p = login_page and f = ?f
      and a = "''https://collector.example/in''" and URL = example_URL
      and h = "''collector.example''" and srest = nothing_structural
      and prest = nothing_phishing and others = nothing_else]
  from t [OF 1 2 3 4 5 6 7 8] 1 9
  show ?thesis
    by simp
qed

section \<open>Evaluating the scanner's patterns\<close>

lemma iterate_Nil: "iterate n f [] = []"
  by (cases n) simp_all

lemma at_most_Nil: "at_most k f [] = []"
  by (cases k) simp_all

lemma ends_Nil: "ends i text r [] = []"
  by (induction r) (simp_all add: iterate_Nil at_most_Nil split: option.splits)

lemma ends_str:
  "ends i text (str []) ps = ps"
  "ends i text (str (c # cs)) ps
   = ends i text (str cs) (advance_lit (canonicalize i (of_char c)) i text ps)"
  by (cases cs; simp add: str.simps advance_lit_def)+

lemma ends_seq:
  "ends i text (seq []) ps = ps"
  "ends i text (seq (r # rs)) ps = ends i text (seq rs) (ends i text r ps)"
  by (cases rs; simp add: seq.simps)+

lemma ends_alt:
  "ends i text (alt []) ps = ps"
  "ends i text (alt [r]) ps = ends i text r ps"
  "ends i text (alt (r # q # rs)) ps = ends i text r ps @ ends i text (alt (q # rs)) ps"
  by (simp_all add: alt.simps)

lemma advance_lit_Nil: "advance_lit d i text [] = []"
  by (simp add: advance_lit_def)

lemma advance_lit_False: "advance_lit d False text ps = advance (\<lambda>c. c = d) text ps"
  by (simp add: advance_lit_def canonicalize_def)

lemma numeral_iterate:
  "iterate (numeral k) f ps = (if ps = [] then [] else iterate (pred_numeral k) f (f ps))"
  by (simp add: numeral_eq_Suc)

lemma numeral_at_most:
  "at_most (numeral k) f ps = (if ps = [] then [] else ps @ at_most (pred_numeral k) f (f ps))"
  by (simp add: numeral_eq_Suc)

lemma pattern_hits_append:
  "pattern_hits pl text (xs @ ys) = pattern_hits pl text xs @ pattern_hits pl text ys"
  by (simp add: pattern_hits_def)

lemmas rx_eval = ends_Nil ends_str ends_seq ends_alt advance_lit_Nil advance_lit_False
  numeral_iterate
  numeral_at_most iterate_Nil at_most_Nil canonicalize_def is_digit_def is_word_def
  is_space_def line_terminator_def in_range_def any_number.simps

subsection \<open>The text \<open>dm_team_text\<close>\<close>

lemma dm_team_text_units: "dm_team_text = [68, 77, 32, 109, 101, 32, 102, 111, 114, 32, 109, 111, 114, 101, 32, 105, 110, 102, 111, 32, 97, 110, 100, 32, 106, 111, 105, 110, 32, 109, 121, 32, 116, 101, 97, 109]"
  by (simp add: dm_team_text_def ascii_def)

lemma dm_team_text_length: "length dm_team_text = 36"
  by (simp add: dm_team_text_units)

lemma dm_team_text_positions:
  "all_positions dm_team_text =
       0 # Suc 0 # 2 # 3 # 4 # 5 # 6 # 7 # 8 # 9 # 10 # 11 # 12 # 13 # 14 # 15 #
       16 # 17 # 18 # 19 # 20 # 21 # 22 # 23 # 24 # 25 # 26 # 27 # 28 # 29 # 30 # 31 #
       32 # 33 # 34 # 35 # 36 # []"
  by (simp add: all_positions_def dm_team_text_length upt_rec)

lemma dm_team_text_all:
  "all_positions dm_team_text \<noteq> []"
  "advance ok dm_team_text (all_positions dm_team_text)
   = advance ok dm_team_text (
       0 # Suc 0 # 2 # 3 # 4 # 5 # 6 # 7 # 8 # 9 # 10 # 11 # 12 # 13 # 14 # 15 #
       16 # 17 # 18 # 19 # 20 # 21 # 22 # 23 # 24 # 25 # 26 # 27 # 28 # 29 # 30 # 31 #
       32 # 33 # 34 # 35 # 36 # [])"
  by (simp_all add: dm_team_text_positions)

lemma dm_team_text_at:
  "code_unit_at dm_team_text 0 = Some 68"
  "code_unit_at dm_team_text (Suc 0) = Some 77"
  "code_unit_at dm_team_text 2 = Some 32"
  "code_unit_at dm_team_text 3 = Some 109"
  "code_unit_at dm_team_text 4 = Some 101"
  "code_unit_at dm_team_text 5 = Some 32"
  "code_unit_at dm_team_text 6 = Some 102"
  "code_unit_at dm_team_text 7 = Some 111"
  "code_unit_at dm_team_text 8 = Some 114"
  "code_unit_at dm_team_text 9 = Some 32"
  "code_unit_at dm_team_text 10 = Some 109"
  "code_unit_at dm_team_text 11 = Some 111"
  "code_unit_at dm_team_text 12 = Some 114"
  "code_unit_at dm_team_text 13 = Some 101"
  "code_unit_at dm_team_text 14 = Some 32"
  "code_unit_at dm_team_text 15 = Some 105"
  "code_unit_at dm_team_text 16 = Some 110"
  "code_unit_at dm_team_text 17 = Some 102"
  "code_unit_at dm_team_text 18 = Some 111"
  "code_unit_at dm_team_text 19 = Some 32"
  "code_unit_at dm_team_text 20 = Some 97"
  "code_unit_at dm_team_text 21 = Some 110"
  "code_unit_at dm_team_text 22 = Some 100"
  "code_unit_at dm_team_text 23 = Some 32"
  "code_unit_at dm_team_text 24 = Some 106"
  "code_unit_at dm_team_text 25 = Some 111"
  "code_unit_at dm_team_text 26 = Some 105"
  "code_unit_at dm_team_text 27 = Some 110"
  "code_unit_at dm_team_text 28 = Some 32"
  "code_unit_at dm_team_text 29 = Some 109"
  "code_unit_at dm_team_text 30 = Some 121"
  "code_unit_at dm_team_text 31 = Some 32"
  "code_unit_at dm_team_text 32 = Some 116"
  "code_unit_at dm_team_text 33 = Some 101"
  "code_unit_at dm_team_text 34 = Some 97"
  "code_unit_at dm_team_text 35 = Some 109"
  "code_unit_at dm_team_text 36 = None"
  by (simp_all add: code_unit_at_def dm_team_text_units)

lemma dm_team_text_advance:
  "advance ok dm_team_text (0 # ps) = (if ok 68 then Suc 0 # advance ok dm_team_text ps else advance ok dm_team_text ps)"
  "advance ok dm_team_text (Suc 0 # ps) = (if ok 77 then 2 # advance ok dm_team_text ps else advance ok dm_team_text ps)"
  "advance ok dm_team_text (2 # ps) = (if ok 32 then 3 # advance ok dm_team_text ps else advance ok dm_team_text ps)"
  "advance ok dm_team_text (3 # ps) = (if ok 109 then 4 # advance ok dm_team_text ps else advance ok dm_team_text ps)"
  "advance ok dm_team_text (4 # ps) = (if ok 101 then 5 # advance ok dm_team_text ps else advance ok dm_team_text ps)"
  "advance ok dm_team_text (5 # ps) = (if ok 32 then 6 # advance ok dm_team_text ps else advance ok dm_team_text ps)"
  "advance ok dm_team_text (6 # ps) = (if ok 102 then 7 # advance ok dm_team_text ps else advance ok dm_team_text ps)"
  "advance ok dm_team_text (7 # ps) = (if ok 111 then 8 # advance ok dm_team_text ps else advance ok dm_team_text ps)"
  "advance ok dm_team_text (8 # ps) = (if ok 114 then 9 # advance ok dm_team_text ps else advance ok dm_team_text ps)"
  "advance ok dm_team_text (9 # ps) = (if ok 32 then 10 # advance ok dm_team_text ps else advance ok dm_team_text ps)"
  "advance ok dm_team_text (10 # ps) = (if ok 109 then 11 # advance ok dm_team_text ps else advance ok dm_team_text ps)"
  "advance ok dm_team_text (11 # ps) = (if ok 111 then 12 # advance ok dm_team_text ps else advance ok dm_team_text ps)"
  "advance ok dm_team_text (12 # ps) = (if ok 114 then 13 # advance ok dm_team_text ps else advance ok dm_team_text ps)"
  "advance ok dm_team_text (13 # ps) = (if ok 101 then 14 # advance ok dm_team_text ps else advance ok dm_team_text ps)"
  "advance ok dm_team_text (14 # ps) = (if ok 32 then 15 # advance ok dm_team_text ps else advance ok dm_team_text ps)"
  "advance ok dm_team_text (15 # ps) = (if ok 105 then 16 # advance ok dm_team_text ps else advance ok dm_team_text ps)"
  "advance ok dm_team_text (16 # ps) = (if ok 110 then 17 # advance ok dm_team_text ps else advance ok dm_team_text ps)"
  "advance ok dm_team_text (17 # ps) = (if ok 102 then 18 # advance ok dm_team_text ps else advance ok dm_team_text ps)"
  "advance ok dm_team_text (18 # ps) = (if ok 111 then 19 # advance ok dm_team_text ps else advance ok dm_team_text ps)"
  "advance ok dm_team_text (19 # ps) = (if ok 32 then 20 # advance ok dm_team_text ps else advance ok dm_team_text ps)"
  "advance ok dm_team_text (20 # ps) = (if ok 97 then 21 # advance ok dm_team_text ps else advance ok dm_team_text ps)"
  "advance ok dm_team_text (21 # ps) = (if ok 110 then 22 # advance ok dm_team_text ps else advance ok dm_team_text ps)"
  "advance ok dm_team_text (22 # ps) = (if ok 100 then 23 # advance ok dm_team_text ps else advance ok dm_team_text ps)"
  "advance ok dm_team_text (23 # ps) = (if ok 32 then 24 # advance ok dm_team_text ps else advance ok dm_team_text ps)"
  "advance ok dm_team_text (24 # ps) = (if ok 106 then 25 # advance ok dm_team_text ps else advance ok dm_team_text ps)"
  "advance ok dm_team_text (25 # ps) = (if ok 111 then 26 # advance ok dm_team_text ps else advance ok dm_team_text ps)"
  "advance ok dm_team_text (26 # ps) = (if ok 105 then 27 # advance ok dm_team_text ps else advance ok dm_team_text ps)"
  "advance ok dm_team_text (27 # ps) = (if ok 110 then 28 # advance ok dm_team_text ps else advance ok dm_team_text ps)"
  "advance ok dm_team_text (28 # ps) = (if ok 32 then 29 # advance ok dm_team_text ps else advance ok dm_team_text ps)"
  "advance ok dm_team_text (29 # ps) = (if ok 109 then 30 # advance ok dm_team_text ps else advance ok dm_team_text ps)"
  "advance ok dm_team_text (30 # ps) = (if ok 121 then 31 # advance ok dm_team_text ps else advance ok dm_team_text ps)"
  "advance ok dm_team_text (31 # ps) = (if ok 32 then 32 # advance ok dm_team_text ps else advance ok dm_team_text ps)"
  "advance ok dm_team_text (32 # ps) = (if ok 116 then 33 # advance ok dm_team_text ps else advance ok dm_team_text ps)"
  "advance ok dm_team_text (33 # ps) = (if ok 101 then 34 # advance ok dm_team_text ps else advance ok dm_team_text ps)"
  "advance ok dm_team_text (34 # ps) = (if ok 97 then 35 # advance ok dm_team_text ps else advance ok dm_team_text ps)"
  "advance ok dm_team_text (35 # ps) = (if ok 109 then 36 # advance ok dm_team_text ps else advance ok dm_team_text ps)"
  "advance ok dm_team_text (36 # ps) = advance ok dm_team_text ps"
  by (simp_all add: advance.simps dm_team_text_at)

lemma dm_team_text_advance_lit:
  "advance_lit d True dm_team_text (0 # ps) = (if d = 68 then Suc 0 # advance_lit d True dm_team_text ps else advance_lit d True dm_team_text ps)"
  "advance_lit d True dm_team_text (Suc 0 # ps) = (if d = 77 then 2 # advance_lit d True dm_team_text ps else advance_lit d True dm_team_text ps)"
  "advance_lit d True dm_team_text (2 # ps) = (if d = 32 then 3 # advance_lit d True dm_team_text ps else advance_lit d True dm_team_text ps)"
  "advance_lit d True dm_team_text (3 # ps) = (if d = 77 then 4 # advance_lit d True dm_team_text ps else advance_lit d True dm_team_text ps)"
  "advance_lit d True dm_team_text (4 # ps) = (if d = 69 then 5 # advance_lit d True dm_team_text ps else advance_lit d True dm_team_text ps)"
  "advance_lit d True dm_team_text (5 # ps) = (if d = 32 then 6 # advance_lit d True dm_team_text ps else advance_lit d True dm_team_text ps)"
  "advance_lit d True dm_team_text (6 # ps) = (if d = 70 then 7 # advance_lit d True dm_team_text ps else advance_lit d True dm_team_text ps)"
  "advance_lit d True dm_team_text (7 # ps) = (if d = 79 then 8 # advance_lit d True dm_team_text ps else advance_lit d True dm_team_text ps)"
  "advance_lit d True dm_team_text (8 # ps) = (if d = 82 then 9 # advance_lit d True dm_team_text ps else advance_lit d True dm_team_text ps)"
  "advance_lit d True dm_team_text (9 # ps) = (if d = 32 then 10 # advance_lit d True dm_team_text ps else advance_lit d True dm_team_text ps)"
  "advance_lit d True dm_team_text (10 # ps) = (if d = 77 then 11 # advance_lit d True dm_team_text ps else advance_lit d True dm_team_text ps)"
  "advance_lit d True dm_team_text (11 # ps) = (if d = 79 then 12 # advance_lit d True dm_team_text ps else advance_lit d True dm_team_text ps)"
  "advance_lit d True dm_team_text (12 # ps) = (if d = 82 then 13 # advance_lit d True dm_team_text ps else advance_lit d True dm_team_text ps)"
  "advance_lit d True dm_team_text (13 # ps) = (if d = 69 then 14 # advance_lit d True dm_team_text ps else advance_lit d True dm_team_text ps)"
  "advance_lit d True dm_team_text (14 # ps) = (if d = 32 then 15 # advance_lit d True dm_team_text ps else advance_lit d True dm_team_text ps)"
  "advance_lit d True dm_team_text (15 # ps) = (if d = 73 then 16 # advance_lit d True dm_team_text ps else advance_lit d True dm_team_text ps)"
  "advance_lit d True dm_team_text (16 # ps) = (if d = 78 then 17 # advance_lit d True dm_team_text ps else advance_lit d True dm_team_text ps)"
  "advance_lit d True dm_team_text (17 # ps) = (if d = 70 then 18 # advance_lit d True dm_team_text ps else advance_lit d True dm_team_text ps)"
  "advance_lit d True dm_team_text (18 # ps) = (if d = 79 then 19 # advance_lit d True dm_team_text ps else advance_lit d True dm_team_text ps)"
  "advance_lit d True dm_team_text (19 # ps) = (if d = 32 then 20 # advance_lit d True dm_team_text ps else advance_lit d True dm_team_text ps)"
  "advance_lit d True dm_team_text (20 # ps) = (if d = 65 then 21 # advance_lit d True dm_team_text ps else advance_lit d True dm_team_text ps)"
  "advance_lit d True dm_team_text (21 # ps) = (if d = 78 then 22 # advance_lit d True dm_team_text ps else advance_lit d True dm_team_text ps)"
  "advance_lit d True dm_team_text (22 # ps) = (if d = 68 then 23 # advance_lit d True dm_team_text ps else advance_lit d True dm_team_text ps)"
  "advance_lit d True dm_team_text (23 # ps) = (if d = 32 then 24 # advance_lit d True dm_team_text ps else advance_lit d True dm_team_text ps)"
  "advance_lit d True dm_team_text (24 # ps) = (if d = 74 then 25 # advance_lit d True dm_team_text ps else advance_lit d True dm_team_text ps)"
  "advance_lit d True dm_team_text (25 # ps) = (if d = 79 then 26 # advance_lit d True dm_team_text ps else advance_lit d True dm_team_text ps)"
  "advance_lit d True dm_team_text (26 # ps) = (if d = 73 then 27 # advance_lit d True dm_team_text ps else advance_lit d True dm_team_text ps)"
  "advance_lit d True dm_team_text (27 # ps) = (if d = 78 then 28 # advance_lit d True dm_team_text ps else advance_lit d True dm_team_text ps)"
  "advance_lit d True dm_team_text (28 # ps) = (if d = 32 then 29 # advance_lit d True dm_team_text ps else advance_lit d True dm_team_text ps)"
  "advance_lit d True dm_team_text (29 # ps) = (if d = 77 then 30 # advance_lit d True dm_team_text ps else advance_lit d True dm_team_text ps)"
  "advance_lit d True dm_team_text (30 # ps) = (if d = 89 then 31 # advance_lit d True dm_team_text ps else advance_lit d True dm_team_text ps)"
  "advance_lit d True dm_team_text (31 # ps) = (if d = 32 then 32 # advance_lit d True dm_team_text ps else advance_lit d True dm_team_text ps)"
  "advance_lit d True dm_team_text (32 # ps) = (if d = 84 then 33 # advance_lit d True dm_team_text ps else advance_lit d True dm_team_text ps)"
  "advance_lit d True dm_team_text (33 # ps) = (if d = 69 then 34 # advance_lit d True dm_team_text ps else advance_lit d True dm_team_text ps)"
  "advance_lit d True dm_team_text (34 # ps) = (if d = 65 then 35 # advance_lit d True dm_team_text ps else advance_lit d True dm_team_text ps)"
  "advance_lit d True dm_team_text (35 # ps) = (if d = 77 then 36 # advance_lit d True dm_team_text ps else advance_lit d True dm_team_text ps)"
  "advance_lit d True dm_team_text (36 # ps) = advance_lit d True dm_team_text ps"
  by (auto simp: advance_lit_def dm_team_text_advance canonicalize_def)

lemma dm_team_text_first:
  "advance_lit 33 True dm_team_text (all_positions dm_team_text) = []"
  "advance_lit 35 True dm_team_text (all_positions dm_team_text) = []"
  "advance_lit 36 True dm_team_text (all_positions dm_team_text) = []"
  "advance_lit 37 True dm_team_text (all_positions dm_team_text) = []"
  "advance_lit 38 True dm_team_text (all_positions dm_team_text) = []"
  "advance_lit 39 True dm_team_text (all_positions dm_team_text) = []"
  "advance_lit 40 True dm_team_text (all_positions dm_team_text) = []"
  "advance_lit 41 True dm_team_text (all_positions dm_team_text) = []"
  "advance_lit 43 True dm_team_text (all_positions dm_team_text) = []"
  "advance_lit 44 True dm_team_text (all_positions dm_team_text) = []"
  "advance_lit 45 True dm_team_text (all_positions dm_team_text) = []"
  "advance_lit 46 True dm_team_text (all_positions dm_team_text) = []"
  "advance_lit 47 True dm_team_text (all_positions dm_team_text) = []"
  "advance_lit 48 True dm_team_text (all_positions dm_team_text) = []"
  "advance_lit 49 True dm_team_text (all_positions dm_team_text) = []"
  "advance_lit 52 True dm_team_text (all_positions dm_team_text) = []"
  "advance_lit 58 True dm_team_text (all_positions dm_team_text) = []"
  "advance_lit 63 True dm_team_text (all_positions dm_team_text) = []"
  "advance_lit 64 True dm_team_text (all_positions dm_team_text) = []"
  "advance_lit 65 True dm_team_text (all_positions dm_team_text) = [21, 35]"
  "advance_lit 66 True dm_team_text (all_positions dm_team_text) = []"
  "advance_lit 67 True dm_team_text (all_positions dm_team_text) = []"
  "advance_lit 68 True dm_team_text (all_positions dm_team_text) = [Suc 0, 23]"
  "advance_lit 69 True dm_team_text (all_positions dm_team_text) = [5, 14, 34]"
  "advance_lit 70 True dm_team_text (all_positions dm_team_text) = [7, 18]"
  "advance_lit 71 True dm_team_text (all_positions dm_team_text) = []"
  "advance_lit 72 True dm_team_text (all_positions dm_team_text) = []"
  "advance_lit 73 True dm_team_text (all_positions dm_team_text) = [16, 27]"
  "advance_lit 74 True dm_team_text (all_positions dm_team_text) = [25]"
  "advance_lit 75 True dm_team_text (all_positions dm_team_text) = []"
  "advance_lit 76 True dm_team_text (all_positions dm_team_text) = []"
  "advance_lit 77 True dm_team_text (all_positions dm_team_text) = [2, 4, 11, 30, 36]"
  "advance_lit 78 True dm_team_text (all_positions dm_team_text) = [17, 22, 28]"
  "advance_lit 79 True dm_team_text (all_positions dm_team_text) = [8, 12, 19, 26]"
  "advance_lit 80 True dm_team_text (all_positions dm_team_text) = []"
  "advance_lit 81 True dm_team_text (all_positions dm_team_text) = []"
  "advance_lit 82 True dm_team_text (all_positions dm_team_text) = [9, 13]"
  "advance_lit 83 True dm_team_text (all_positions dm_team_text) = []"
  "advance_lit 84 True dm_team_text (all_positions dm_team_text) = [33]"
  "advance_lit 85 True dm_team_text (all_positions dm_team_text) = []"
  "advance_lit 86 True dm_team_text (all_positions dm_team_text) = []"
  "advance_lit 87 True dm_team_text (all_positions dm_team_text) = []"
  "advance_lit 88 True dm_team_text (all_positions dm_team_text) = []"
  "advance_lit 89 True dm_team_text (all_positions dm_team_text) = [31]"
  "advance_lit 90 True dm_team_text (all_positions dm_team_text) = []"
  by (simp_all add: dm_team_text_positions dm_team_text_advance_lit advance_lit_Nil)

lemma dm_team_text_boundaries: "filter (at_boundary dm_team_text) (all_positions dm_team_text) = [0, 2, 3, 5, 6, 9, 10, 14, 15, 19, 20, 23, 24, 28, 29, 31, 32, 36]"
  by (simp add: dm_team_text_positions at_boundary_def word_at_def dm_team_text_at is_word_def is_digit_def)

lemmas dm_team_text_eval = dm_team_text_length dm_team_text_all dm_team_text_advance dm_team_text_advance_lit dm_team_text_first dm_team_text_boundaries

lemma dm_team_text_hits_94_117:
  "map pattern_finding (pattern_hits (Some ''facebook'') dm_team_text SCAM_PATTERNS_94_117)
   = []"
  by (simp add: pattern_hits_def SCAM_PATTERNS_94_117_def platform_allows_def pattern_finding_def test_def
      rx_eval dm_team_text_eval)

lemma dm_team_text_hits_118_147:
  "map pattern_finding (pattern_hits (Some ''facebook'') dm_team_text SCAM_PATTERNS_118_147)
   = []"
  by (simp add: pattern_hits_def SCAM_PATTERNS_118_147_def platform_allows_def pattern_finding_def test_def
      rx_eval dm_team_text_eval)

lemma dm_team_text_hits_148_173:
  "map pattern_finding (pattern_hits (Some ''facebook'') dm_team_text SCAM_PATTERNS_148_173)
   = [\<lparr>severity = Some ''low'', category = Some ''MLM/Pyramid'', message = None, detail = None\<rparr>]"
  by (simp add: pattern_hits_def SCAM_PATTERNS_148_173_def platform_allows_def pattern_finding_def test_def
      rx_eval dm_team_text_eval)

lemma dm_team_text_hits_174_199:
  "map pattern_finding (pattern_hits (Some ''facebook'') dm_team_text SCAM_PATTERNS_174_199)
   = []"
  by (simp add: pattern_hits_def SCAM_PATTERNS_174_199_def platform_allows_def pattern_finding_def test_def
      rx_eval dm_team_text_eval)

lemma dm_team_text_hits_200_223:
  "map pattern_finding (pattern_hits (Some ''facebook'') dm_team_text SCAM_PATTERNS_200_223)
   = []"
  by (simp add: pattern_hits_def SCAM_PATTERNS_200_223_def platform_allows_def pattern_finding_def test_def
      rx_eval dm_team_text_eval)

lemma dm_team_text_hits_224_251:
  "map pattern_finding (pattern_hits (Some ''facebook'') dm_team_text SCAM_PATTERNS_224_251)
   = []"
  by (simp add: pattern_hits_def SCAM_PATTERNS_224_251_def platform_allows_def pattern_finding_def test_def
      rx_eval dm_team_text_eval)

lemma dm_team_text_hits_252_279:
  "map pattern_finding (pattern_hits (Some ''facebook'') dm_team_text SCAM_PATTERNS_252_279)
   = []"
  by (simp add: pattern_hits_def SCAM_PATTERNS_252_279_def platform_allows_def pattern_finding_def test_def
      rx_eval dm_team_text_eval)

lemma dm_team_text_hits_282_307:
  "map pattern_finding (pattern_hits (Some ''facebook'') dm_team_text SCAM_PATTERNS_282_307)
   = []"
  by (simp add: pattern_hits_def SCAM_PATTERNS_282_307_def platform_allows_def pattern_finding_def test_def
      rx_eval dm_team_text_eval)

lemma dm_team_text_hits_308_337:
  "map pattern_finding (pattern_hits (Some ''facebook'') dm_team_text SCAM_PATTERNS_308_337)
   = []"
  by (simp add: pattern_hits_def SCAM_PATTERNS_308_337_def platform_allows_def pattern_finding_def test_def
      rx_eval dm_team_text_eval)

lemma dm_team_text_hits_338_363:
  "map pattern_finding (pattern_hits (Some ''facebook'') dm_team_text SCAM_PATTERNS_338_363)
   = []"
  by (simp add: pattern_hits_def SCAM_PATTERNS_338_363_def platform_allows_def pattern_finding_def test_def
      rx_eval dm_team_text_eval)

lemma dm_team_text_hits_366_395:
  "map pattern_finding (pattern_hits (Some ''facebook'') dm_team_text SCAM_PATTERNS_366_395)
   = []"
  by (simp add: pattern_hits_def SCAM_PATTERNS_366_395_def platform_allows_def pattern_finding_def test_def
      rx_eval dm_team_text_eval)

lemma dm_team_text_hits_396_427:
  "map pattern_finding (pattern_hits (Some ''facebook'') dm_team_text SCAM_PATTERNS_396_427)
   = []"
  by (simp add: pattern_hits_def SCAM_PATTERNS_396_427_def platform_allows_def pattern_finding_def test_def
      rx_eval dm_team_text_eval)

lemma dm_team_text_hits_428_453:
  "map pattern_finding (pattern_hits (Some ''facebook'') dm_team_text SCAM_PATTERNS_428_453)
   = []"
  by (simp add: pattern_hits_def SCAM_PATTERNS_428_453_def platform_allows_def pattern_finding_def test_def
      rx_eval dm_team_text_eval)

lemma dm_team_text_hits_454_481:
  "map pattern_finding (pattern_hits (Some ''facebook'') dm_team_text SCAM_PATTERNS_454_481)
   = []"
  by (simp add: pattern_hits_def SCAM_PATTERNS_454_481_def platform_allows_def pattern_finding_def test_def
      rx_eval dm_team_text_eval)

lemma dm_team_text_hits_484_507:
  "map pattern_finding (pattern_hits (Some ''facebook'') dm_team_text SCAM_PATTERNS_484_507)
   = []"
  by (simp add: pattern_hits_def SCAM_PATTERNS_484_507_def platform_allows_def pattern_finding_def test_def
      rx_eval dm_team_text_eval)

lemma dm_team_text_trim: "trim dm_team_text = dm_team_text"
  by (simp add: trim_def dm_team_text_units is_space_def)

lemma dm_team_text_normalize: "normalize dm_team_text = dm_team_text"
  by (simp add: normalize_def dm_team_text_units INVISIBLE_RE_def replace_homoglyph_def HOMOGLYPH_RE_def)

lemma dm_team_text_patterns:
  "checkPatterns (Some ''facebook'') dm_team_text
   = [\<lparr>severity = Some ''low'', category = Some ''MLM/Pyramid'', message = None, detail = None\<rparr>]"
  by (simp add: checkPatterns_def dm_team_text_normalize SCAM_PATTERNS_def pattern_hits_append
      dm_team_text_hits_94_117
      dm_team_text_hits_118_147
      dm_team_text_hits_148_173
      dm_team_text_hits_174_199
      dm_team_text_hits_200_223
      dm_team_text_hits_224_251
      dm_team_text_hits_252_279
      dm_team_text_hits_282_307
      dm_team_text_hits_308_337
      dm_team_text_hits_338_363
      dm_team_text_hits_366_395
      dm_team_text_hits_396_427
      dm_team_text_hits_428_453
      dm_team_text_hits_454_481
      dm_team_text_hits_484_507)

lemma dm_team_text_counts:
  "count_in money_emojis dm_team_text = 0"
  "count_in hype_emojis dm_team_text = 0"
  "count_in alert_emojis dm_team_text = 0"
  by (simp_all add: count_in_def dm_team_text_units money_emojis_def hype_emojis_def alert_emojis_def)

lemma dm_team_text_emoji: "checkEmojiPatterns dm_team_text = []"
  by (simp add: checkEmojiPatterns_def dm_team_text_counts)

lemma dm_team_text_no_phone: "\<not> test False phonePattern dm_team_text"
  by (simp add: test_def phonePattern_def rx_eval dm_team_text_eval)

lemma dm_team_text_no_email: "\<not> test False emailPattern dm_team_text"
  by (simp add: test_def emailPattern_def rx_eval dm_team_text_eval)

lemma dm_team_text_no_whatsapp: "\<not> test True whatsapp_number dm_team_text"
  by (simp add: test_def whatsapp_number_def rx_eval dm_team_text_eval)

lemma dm_team_text_contact: "checkContactSolicitation dm_team_text = []"
  by (simp add: checkContactSolicitation_def dm_team_text_no_phone dm_team_text_no_email dm_team_text_no_whatsapp)

subsection \<open>The text \<open>dm_team_income_text\<close>\<close>

lemma dm_team_income_text_units: "dm_team_income_text = [68, 77, 32, 109, 101, 32, 102, 111, 114, 32, 109, 111, 114, 101, 32, 105, 110, 102, 111, 32, 97, 110, 100, 32, 106, 111, 105, 110, 32, 109, 121, 32, 116, 101, 97, 109, 46, 32, 73, 32, 109, 97, 100, 101, 32, 36, 53, 48, 48, 48, 32, 108, 97, 115, 116, 32, 119, 101, 101, 107]"
  by (simp add: dm_team_income_text_def ascii_def)

lemma dm_team_income_text_length: "length dm_team_income_text = 60"
  by (simp add: dm_team_income_text_units)

lemma dm_team_income_text_positions:
  "all_positions dm_team_income_text =
       0 # Suc 0 # 2 # 3 # 4 # 5 # 6 # 7 # 8 # 9 # 10 # 11 # 12 # 13 # 14 # 15 #
       16 # 17 # 18 # 19 # 20 # 21 # 22 # 23 # 24 # 25 # 26 # 27 # 28 # 29 # 30 # 31 #
       32 # 33 # 34 # 35 # 36 # 37 # 38 # 39 # 40 # 41 # 42 # 43 # 44 # 45 # 46 # 47 #
       48 # 49 # 50 # 51 # 52 # 53 # 54 # 55 # 56 # 57 # 58 # 59 # 60 # []"
  by (simp add: all_positions_def dm_team_income_text_length upt_rec)

lemma dm_team_income_text_all:
  "all_positions dm_team_income_text \<noteq> []"
  "advance ok dm_team_income_text (all_positions dm_team_income_text)
   = advance ok dm_team_income_text (
       0 # Suc 0 # 2 # 3 # 4 # 5 # 6 # 7 # 8 # 9 # 10 # 11 # 12 # 13 # 14 # 15 #
       16 # 17 # 18 # 19 # 20 # 21 # 22 # 23 # 24 # 25 # 26 # 27 # 28 # 29 # 30 # 31 #
       32 # 33 # 34 # 35 # 36 # 37 # 38 # 39 # 40 # 41 # 42 # 43 # 44 # 45 # 46 # 47 #
       48 # 49 # 50 # 51 # 52 # 53 # 54 # 55 # 56 # 57 # 58 # 59 # 60 # [])"
  by (simp_all add: dm_team_income_text_positions)

lemma dm_team_income_text_at:
  "code_unit_at dm_team_income_text 0 = Some 68"
  "code_unit_at dm_team_income_text (Suc 0) = Some 77"
  "code_unit_at dm_team_income_text 2 = Some 32"
  "code_unit_at dm_team_income_text 3 = Some 109"
  "code_unit_at dm_team_income_text 4 = Some 101"
  "code_unit_at dm_team_income_text 5 = Some 32"
  "code_unit_at dm_team_income_text 6 = Some 102"
  "code_unit_at dm_team_income_text 7 = Some 111"
  "code_unit_at dm_team_income_text 8 = Some 114"
  "code_unit_at dm_team_income_text 9 = Some 32"
  "code_unit_at dm_team_income_text 10 = Some 109"
  "code_unit_at dm_team_income_text 11 = Some 111"
  "code_unit_at dm_team_income_text 12 = Some 114"
  "code_unit_at dm_team_income_text 13 = Some 101"
  "code_unit_at dm_team_income_text 14 = Some 32"
  "code_unit_at dm_team_income_text 15 = Some 105"
  "code_unit_at dm_team_income_text 16 = Some 110"
  "code_unit_at dm_team_income_text 17 = Some 102"
  "code_unit_at dm_team_income_text 18 = Some 111"
  "code_unit_at dm_team_income_text 19 = Some 32"
  "code_unit_at dm_team_income_text 20 = Some 97"
  "code_unit_at dm_team_income_text 21 = Some 110"
  "code_unit_at dm_team_income_text 22 = Some 100"
  "code_unit_at dm_team_income_text 23 = Some 32"
  "code_unit_at dm_team_income_text 24 = Some 106"
  "code_unit_at dm_team_income_text 25 = Some 111"
  "code_unit_at dm_team_income_text 26 = Some 105"
  "code_unit_at dm_team_income_text 27 = Some 110"
  "code_unit_at dm_team_income_text 28 = Some 32"
  "code_unit_at dm_team_income_text 29 = Some 109"
  "code_unit_at dm_team_income_text 30 = Some 121"
  "code_unit_at dm_team_income_text 31 = Some 32"
  "code_unit_at dm_team_income_text 32 = Some 116"
  "code_unit_at dm_team_income_text 33 = Some 101"
  "code_unit_at dm_team_income_text 34 = Some 97"
  "code_unit_at dm_team_income_text 35 = Some 109"
  "code_unit_at dm_team_income_text 36 = Some 46"
  "code_unit_at dm_team_income_text 37 = Some 32"
  "code_unit_at dm_team_income_text 38 = Some 73"
  "code_unit_at dm_team_income_text 39 = Some 32"
  "code_unit_at dm_team_income_text 40 = Some 109"
  "code_unit_at dm_team_income_text 41 = Some 97"
  "code_unit_at dm_team_income_text 42 = Some 100"
  "code_unit_at dm_team_income_text 43 = Some 101"
  "code_unit_at dm_team_income_text 44 = Some 32"
  "code_unit_at dm_team_income_text 45 = Some 36"
  "code_unit_at dm_team_income_text 46 = Some 53"
  "code_unit_at dm_team_income_text 47 = Some 48"
  "code_unit_at dm_team_income_text 48 = Some 48"
  "code_unit_at dm_team_income_text 49 = Some 48"
  "code_unit_at dm_team_income_text 50 = Some 32"
  "code_unit_at dm_team_income_text 51 = Some 108"
  "code_unit_at dm_team_income_text 52 = Some 97"
  "code_unit_at dm_team_income_text 53 = Some 115"
  "code_unit_at dm_team_income_text 54 = Some 116"
  "code_unit_at dm_team_income_text 55 = Some 32"
  "code_unit_at dm_team_income_text 56 = Some 119"
  "code_unit_at dm_team_income_text 57 = Some 101"
  "code_unit_at dm_team_income_text 58 = Some 101"
  "code_unit_at dm_team_income_text 59 = Some 107"
  "code_unit_at dm_team_income_text 60 = None"
  by (simp_all add: code_unit_at_def dm_team_income_text_units)

lemma dm_team_income_text_advance:
  "advance ok dm_team_income_text (0 # ps) = (if ok 68 then Suc 0 # advance ok dm_team_income_text ps else advance ok dm_team_income_text ps)"
  "advance ok dm_team_income_text (Suc 0 # ps) = (if ok 77 then 2 # advance ok dm_team_income_text ps else advance ok dm_team_income_text ps)"
  "advance ok dm_team_income_text (2 # ps) = (if ok 32 then 3 # advance ok dm_team_income_text ps else advance ok dm_team_income_text ps)"
  "advance ok dm_team_income_text (3 # ps) = (if ok 109 then 4 # advance ok dm_team_income_text ps else advance ok dm_team_income_text ps)"
  "advance ok dm_team_income_text (4 # ps) = (if ok 101 then 5 # advance ok dm_team_income_text ps else advance ok dm_team_income_text ps)"
  "advance ok dm_team_income_text (5 # ps) = (if ok 32 then 6 # advance ok dm_team_income_text ps else advance ok dm_team_income_text ps)"
  "advance ok dm_team_income_text (6 # ps) = (if ok 102 then 7 # advance ok dm_team_income_text ps else advance ok dm_team_income_text ps)"
  "advance ok dm_team_income_text (7 # ps) = (if ok 111 then 8 # advance ok dm_team_income_text ps else advance ok dm_team_income_text ps)"
  "advance ok dm_team_income_text (8 # ps) = (if ok 114 then 9 # advance ok dm_team_income_text ps else advance ok dm_team_income_text ps)"
  "advance ok dm_team_income_text (9 # ps) = (if ok 32 then 10 # advance ok dm_team_income_text ps else advance ok dm_team_income_text ps)"
  "advance ok dm_team_income_text (10 # ps) = (if ok 109 then 11 # advance ok dm_team_income_text ps else advance ok dm_team_income_text ps)"
  "advance ok dm_team_income_text (11 # ps) = (if ok 111 then 12 # advance ok dm_team_income_text ps else advance ok dm_team_income_text ps)"
  "advance ok dm_team_income_text (12 # ps) = (if ok 114 then 13 # advance ok dm_team_income_text ps else advance ok dm_team_income_text ps)"
  "advance ok dm_team_income_text (13 # ps) = (if ok 101 then 14 # advance ok dm_team_income_text ps else advance ok dm_team_income_text ps)"
  "advance ok dm_team_income_text (14 # ps) = (if ok 32 then 15 # advance ok dm_team_income_text ps else advance ok dm_team_income_text ps)"
  "advance ok dm_team_income_text (15 # ps) = (if ok 105 then 16 # advance ok dm_team_income_text ps else advance ok dm_team_income_text ps)"
  "advance ok dm_team_income_text (16 # ps) = (if ok 110 then 17 # advance ok dm_team_income_text ps else advance ok dm_team_income_text ps)"
  "advance ok dm_team_income_text (17 # ps) = (if ok 102 then 18 # advance ok dm_team_income_text ps else advance ok dm_team_income_text ps)"
  "advance ok dm_team_income_text (18 # ps) = (if ok 111 then 19 # advance ok dm_team_income_text ps else advance ok dm_team_income_text ps)"
  "advance ok dm_team_income_text (19 # ps) = (if ok 32 then 20 # advance ok dm_team_income_text ps else advance ok dm_team_income_text ps)"
  "advance ok dm_team_income_text (20 # ps) = (if ok 97 then 21 # advance ok dm_team_income_text ps else advance ok dm_team_income_text ps)"
  "advance ok dm_team_income_text (21 # ps) = (if ok 110 then 22 # advance ok dm_team_income_text ps else advance ok dm_team_income_text ps)"
  "advance ok dm_team_income_text (22 # ps) = (if ok 100 then 23 # advance ok dm_team_income_text ps else advance ok dm_team_income_text ps)"
  "advance ok dm_team_income_text (23 # ps) = (if ok 32 then 24 # advance ok dm_team_income_text ps else advance ok dm_team_income_text ps)"
  "advance ok dm_team_income_text (24 # ps) = (if ok 106 then 25 # advance ok dm_team_income_text ps else advance ok dm_team_income_text ps)"
  "advance ok dm_team_income_text (25 # ps) = (if ok 111 then 26 # advance ok dm_team_income_text ps else advance ok dm_team_income_text ps)"
  "advance ok dm_team_income_text (26 # ps) = (if ok 105 then 27 # advance ok dm_team_income_text ps else advance ok dm_team_income_text ps)"
  "advance ok dm_team_income_text (27 # ps) = (if ok 110 then 28 # advance ok dm_team_income_text ps else advance ok dm_team_income_text ps)"
  "advance ok dm_team_income_text (28 # ps) = (if ok 32 then 29 # advance ok dm_team_income_text ps else advance ok dm_team_income_text ps)"
  "advance ok dm_team_income_text (29 # ps) = (if ok 109 then 30 # advance ok dm_team_income_text ps else advance ok dm_team_income_text ps)"
  "advance ok dm_team_income_text (30 # ps) = (if ok 121 then 31 # advance ok dm_team_income_text ps else advance ok dm_team_income_text ps)"
  "advance ok dm_team_income_text (31 # ps) = (if ok 32 then 32 # advance ok dm_team_income_text ps else advance ok dm_team_income_text ps)"
  "advance ok dm_team_income_text (32 # ps) = (if ok 116 then 33 # advance ok dm_team_income_text ps else advance ok dm_team_income_text ps)"
  "advance ok dm_team_income_text (33 # ps) = (if ok 101 then 34 # advance ok dm_team_income_text ps else advance ok dm_team_income_text ps)"
  "advance ok dm_team_income_text (34 # ps) = (if ok 97 then 35 # advance ok dm_team_income_text ps else advance ok dm_team_income_text ps)"
  "advance ok dm_team_income_text (35 # ps) = (if ok 109 then 36 # advance ok dm_team_income_text ps else advance ok dm_team_income_text ps)"
  "advance ok dm_team_income_text (36 # ps) = (if ok 46 then 37 # advance ok dm_team_income_text ps else advance ok dm_team_income_text ps)"
  "advance ok dm_team_income_text (37 # ps) = (if ok 32 then 38 # advance ok dm_team_income_text ps else advance ok dm_team_income_text ps)"
  "advance ok dm_team_income_text (38 # ps) = (if ok 73 then 39 # advance ok dm_team_income_text ps else advance ok dm_team_income_text ps)"
  "advance ok dm_team_income_text (39 # ps) = (if ok 32 then 40 # advance ok dm_team_income_text ps else advance ok dm_team_income_text ps)"
  "advance ok dm_team_income_text (40 # ps) = (if ok 109 then 41 # advance ok dm_team_income_text ps else advance ok dm_team_income_text ps)"
  "advance ok dm_team_income_text (41 # ps) = (if ok 97 then 42 # advance ok dm_team_income_text ps else advance ok dm_team_income_text ps)"
  "advance ok dm_team_income_text (42 # ps) = (if ok 100 then 43 # advance ok dm_team_income_text ps else advance ok dm_team_income_text ps)"
  "advance ok dm_team_income_text (43 # ps) = (if ok 101 then 44 # advance ok dm_team_income_text ps else advance ok dm_team_income_text ps)"
  "advance ok dm_team_income_text (44 # ps) = (if ok 32 then 45 # advance ok dm_team_income_text ps else advance ok dm_team_income_text ps)"
  "advance ok dm_team_income_text (45 # ps) = (if ok 36 then 46 # advance ok dm_team_income_text ps else advance ok dm_team_income_text ps)"
  "advance ok dm_team_income_text (46 # ps) = (if ok 53 then 47 # advance ok dm_team_income_text ps else advance ok dm_team_income_text ps)"
  "advance ok dm_team_income_text (47 # ps) = (if ok 48 then 48 # advance ok dm_team_income_text ps else advance ok dm_team_income_text ps)"
  "advance ok dm_team_income_text (48 # ps) = (if ok 48 then 49 # advance ok dm_team_income_text ps else advance ok dm_team_income_text ps)"
  "advance ok dm_team_income_text (49 # ps) = (if ok 48 then 50 # advance ok dm_team_income_text ps else advance ok dm_team_income_text ps)"
  "advance ok dm_team_income_text (50 # ps) = (if ok 32 then 51 # advance ok dm_team_income_text ps else advance ok dm_team_income_text ps)"
  "advance ok dm_team_income_text (51 # ps) = (if ok 108 then 52 # advance ok dm_team_income_text ps else advance ok dm_team_income_text ps)"
  "advance ok dm_team_income_text (52 # ps) = (if ok 97 then 53 # advance ok dm_team_income_text ps else advance ok dm_team_income_text ps)"
  "advance ok dm_team_income_text (53 # ps) = (if ok 115 then 54 # advance ok dm_team_income_text ps else advance ok dm_team_income_text ps)"
  "advance ok dm_team_income_text (54 # ps) = (if ok 116 then 55 # advance ok dm_team_income_text ps else advance ok dm_team_income_text ps)"
  "advance ok dm_team_income_text (55 # ps) = (if ok 32 then 56 # advance ok dm_team_income_text ps else advance ok dm_team_income_text ps)"
  "advance ok dm_team_income_text (56 # ps) = (if ok 119 then 57 # advance ok dm_team_income_text ps else advance ok dm_team_income_text ps)"
  "advance ok dm_team_income_text (57 # ps) = (if ok 101 then 58 # advance ok dm_team_income_text ps else advance ok dm_team_income_text ps)"
  "advance ok dm_team_income_text (58 # ps) = (if ok 101 then 59 # advance ok dm_team_income_text ps else advance ok dm_team_income_text ps)"
  "advance ok dm_team_income_text (59 # ps) = (if ok 107 then 60 # advance ok dm_team_income_text ps else advance ok dm_team_income_text ps)"
  "advance ok dm_team_income_text (60 # ps) = advance ok dm_team_income_text ps"
  by (simp_all add: advance.simps dm_team_income_text_at)

lemma dm_team_income_text_advance_lit:
  "advance_lit d True dm_team_income_text (0 # ps) = (if d = 68 then Suc 0 # advance_lit d True dm_team_income_text ps else advance_lit d True dm_team_income_text ps)"
  "advance_lit d True dm_team_income_text (Suc 0 # ps) = (if d = 77 then 2 # advance_lit d True dm_team_income_text ps else advance_lit d True dm_team_income_text ps)"
  "advance_lit d True dm_team_income_text (2 # ps) = (if d = 32 then 3 # advance_lit d True dm_team_income_text ps else advance_lit d True dm_team_income_text ps)"
  "advance_lit d True dm_team_income_text (3 # ps) = (if d = 77 then 4 # advance_lit d True dm_team_income_text ps else advance_lit d True dm_team_income_text ps)"
  "advance_lit d True dm_team_income_text (4 # ps) = (if d = 69 then 5 # advance_lit d True dm_team_income_text ps else advance_lit d True dm_team_income_text ps)"
  "advance_lit d True dm_team_income_text (5 # ps) = (if d = 32 then 6 # advance_lit d True dm_team_income_text ps else advance_lit d True dm_team_income_text ps)"
  "advance_lit d True dm_team_income_text (6 # ps) = (if d = 70 then 7 # advance_lit d True dm_team_income_text ps else advance_lit d True dm_team_income_text ps)"
  "advance_lit d True dm_team_income_text (7 # ps) = (if d = 79 then 8 # advance_lit d True dm_team_income_text ps else advance_lit d True dm_team_income_text ps)"
  "advance_lit d True dm_team_income_text (8 # ps) = (if d = 82 then 9 # advance_lit d True dm_team_income_text ps else advance_lit d True dm_team_income_text ps)"
  "advance_lit d True dm_team_income_text (9 # ps) = (if d = 32 then 10 # advance_lit d True dm_team_income_text ps else advance_lit d True dm_team_income_text ps)"
  "advance_lit d True dm_team_income_text (10 # ps) = (if d = 77 then 11 # advance_lit d True dm_team_income_text ps else advance_lit d True dm_team_income_text ps)"
  "advance_lit d True dm_team_income_text (11 # ps) = (if d = 79 then 12 # advance_lit d True dm_team_income_text ps else advance_lit d True dm_team_income_text ps)"
  "advance_lit d True dm_team_income_text (12 # ps) = (if d = 82 then 13 # advance_lit d True dm_team_income_text ps else advance_lit d True dm_team_income_text ps)"
  "advance_lit d True dm_team_income_text (13 # ps) = (if d = 69 then 14 # advance_lit d True dm_team_income_text ps else advance_lit d True dm_team_income_text ps)"
  "advance_lit d True dm_team_income_text (14 # ps) = (if d = 32 then 15 # advance_lit d True dm_team_income_text ps else advance_lit d True dm_team_income_text ps)"
  "advance_lit d True dm_team_income_text (15 # ps) = (if d = 73 then 16 # advance_lit d True dm_team_income_text ps else advance_lit d True dm_team_income_text ps)"
  "advance_lit d True dm_team_income_text (16 # ps) = (if d = 78 then 17 # advance_lit d True dm_team_income_text ps else advance_lit d True dm_team_income_text ps)"
  "advance_lit d True dm_team_income_text (17 # ps) = (if d = 70 then 18 # advance_lit d True dm_team_income_text ps else advance_lit d True dm_team_income_text ps)"
  "advance_lit d True dm_team_income_text (18 # ps) = (if d = 79 then 19 # advance_lit d True dm_team_income_text ps else advance_lit d True dm_team_income_text ps)"
  "advance_lit d True dm_team_income_text (19 # ps) = (if d = 32 then 20 # advance_lit d True dm_team_income_text ps else advance_lit d True dm_team_income_text ps)"
  "advance_lit d True dm_team_income_text (20 # ps) = (if d = 65 then 21 # advance_lit d True dm_team_income_text ps else advance_lit d True dm_team_income_text ps)"
  "advance_lit d True dm_team_income_text (21 # ps) = (if d = 78 then 22 # advance_lit d True dm_team_income_text ps else advance_lit d True dm_team_income_text ps)"
  "advance_lit d True dm_team_income_text (22 # ps) = (if d = 68 then 23 # advance_lit d True dm_team_income_text ps else advance_lit d True dm_team_income_text ps)"
  "advance_lit d True dm_team_income_text (23 # ps) = (if d = 32 then 24 # advance_lit d True dm_team_income_text ps else advance_lit d True dm_team_income_text ps)"
  "advance_lit d True dm_team_income_text (24 # ps) = (if d = 74 then 25 # advance_lit d True dm_team_income_text ps else advance_lit d True dm_team_income_text ps)"
  "advance_lit d True dm_team_income_text (25 # ps) = (if d = 79 then 26 # advance_lit d True dm_team_income_text ps else advance_lit d True dm_team_income_text ps)"
  "advance_lit d True dm_team_income_text (26 # ps) = (if d = 73 then 27 # advance_lit d True dm_team_income_text ps else advance_lit d True dm_team_income_text ps)"
  "advance_lit d True dm_team_income_text (27 # ps) = (if d = 78 then 28 # advance_lit d True dm_team_income_text ps else advance_lit d True dm_team_income_text ps)"
  "advance_lit d True dm_team_income_text (28 # ps) = (if d = 32 then 29 # advance_lit d True dm_team_income_text ps else advance_lit d True dm_team_income_text ps)"
  "advance_lit d True dm_team_income_text (29 # ps) = (if d = 77 then 30 # advance_lit d True dm_team_income_text ps else advance_lit d True dm_team_income_text ps)"
  "advance_lit d True dm_team_income_text (30 # ps) = (if d = 89 then 31 # advance_lit d True dm_team_income_text ps else advance_lit d True dm_team_income_text ps)"
  "advance_lit d True dm_team_income_text (31 # ps) = (if d = 32 then 32 # advance_lit d True dm_team_income_text ps else advance_lit d True dm_team_income_text ps)"
  "advance_lit d True dm_team_income_text (32 # ps) = (if d = 84 then 33 # advance_lit d True dm_team_income_text ps else advance_lit d True dm_team_income_text ps)"
  "advance_lit d True dm_team_income_text (33 # ps) = (if d = 69 then 34 # advance_lit d True dm_team_income_text ps else advance_lit d True dm_team_income_text ps)"
  "advance_lit d True dm_team_income_text (34 # ps) = (if d = 65 then 35 # advance_lit d True dm_team_income_text ps else advance_lit d True dm_team_income_text ps)"
  "advance_lit d True dm_team_income_text (35 # ps) = (if d = 77 then 36 # advance_lit d True dm_team_income_text ps else advance_lit d True dm_team_income_text ps)"
  "advance_lit d True dm_team_income_text (36 # ps) = (if d = 46 then 37 # advance_lit d True dm_team_income_text ps else advance_lit d True dm_team_income_text ps)"
  "advance_lit d True dm_team_income_text (37 # ps) = (if d = 32 then 38 # advance_lit d True dm_team_income_text ps else advance_lit d True dm_team_income_text ps)"
  "advance_lit d True dm_team_income_text (38 # ps) = (if d = 73 then 39 # advance_lit d True dm_team_income_text ps else advance_lit d True dm_team_income_text ps)"
  "advance_lit d True dm_team_income_text (39 # ps) = (if d = 32 then 40 # advance_lit d True dm_team_income_text ps else advance_lit d True dm_team_income_text ps)"
  "advance_lit d True dm_team_income_text (40 # ps) = (if d = 77 then 41 # advance_lit d True dm_team_income_text ps else advance_lit d True dm_team_income_text ps)"
  "advance_lit d True dm_team_income_text (41 # ps) = (if d = 65 then 42 # advance_lit d True dm_team_income_text ps else advance_lit d True dm_team_income_text ps)"
  "advance_lit d True dm_team_income_text (42 # ps) = (if d = 68 then 43 # advance_lit d True dm_team_income_text ps else advance_lit d True dm_team_income_text ps)"
  "advance_lit d True dm_team_income_text (43 # ps) = (if d = 69 then 44 # advance_lit d True dm_team_income_text ps else advance_lit d True dm_team_income_text ps)"
  "advance_lit d True dm_team_income_text (44 # ps) = (if d = 32 then 45 # advance_lit d True dm_team_income_text ps else advance_lit d True dm_team_income_text ps)"
  "advance_lit d True dm_team_income_text (45 # ps) = (if d = 36 then 46 # advance_lit d True dm_team_income_text ps else advance_lit d True dm_team_income_text ps)"
  "advance_lit d True dm_team_income_text (46 # ps) = (if d = 53 then 47 # advance_lit d True dm_team_income_text ps else advance_lit d True dm_team_income_text ps)"
  "advance_lit d True dm_team_income_text (47 # ps) = (if d = 48 then 48 # advance_lit d True dm_team_income_text ps else advance_lit d True dm_team_income_text ps)"
  "advance_lit d True dm_team_income_text (48 # ps) = (if d = 48 then 49 # advance_lit d True dm_team_income_text ps else advance_lit d True dm_team_income_text ps)"
  "advance_lit d True dm_team_income_text (49 # ps) = (if d = 48 then 50 # advance_lit d True dm_team_income_text ps else advance_lit d True dm_team_income_text ps)"
  "advance_lit d True dm_team_income_text (50 # ps) = (if d = 32 then 51 # advance_lit d True dm_team_income_text ps else advance_lit d True dm_team_income_text ps)"
  "advance_lit d True dm_team_income_text (51 # ps) = (if d = 76 then 52 # advance_lit d True dm_team_income_text ps else advance_lit d True dm_team_income_text ps)"
  "advance_lit d True dm_team_income_text (52 # ps) = (if d = 65 then 53 # advance_lit d True dm_team_income_text ps else advance_lit d True dm_team_income_text ps)"
  "advance_lit d True dm_team_income_text (53 # ps) = (if d = 83 then 54 # advance_lit d True dm_team_income_text ps else advance_lit d True dm_team_income_text ps)"
  "advance_lit d True dm_team_income_text (54 # ps) = (if d = 84 then 55 # advance_lit d True dm_team_income_text ps else advance_lit d True dm_team_income_text ps)"
  "advance_lit d True dm_team_income_text (55 # ps) = (if d = 32 then 56 # advance_lit d True dm_team_income_text ps else advance_lit d True dm_team_income_text ps)"
  "advance_lit d True dm_team_income_text (56 # ps) = (if d = 87 then 57 # advance_lit d True dm_team_income_text ps else advance_lit d True dm_team_income_text ps)"
  "advance_lit d True dm_team_income_text (57 # ps) = (if d = 69 then 58 # advance_lit d True dm_team_income_text ps else advance_lit d True dm_team_income_text ps)"
  "advance_lit d True dm_team_income_text (58 # ps) = (if d = 69 then 59 # advance_lit d True dm_team_income_text ps else advance_lit d True dm_team_income_text ps)"
  "advance_lit d True dm_team_income_text (59 # ps) = (if d = 75 then 60 # advance_lit d True dm_team_income_text ps else advance_lit d True dm_team_income_text ps)"
  "advance_lit d True dm_team_income_text (60 # ps) = advance_lit d True dm_team_income_text ps"
  by (auto simp: advance_lit_def dm_team_income_text_advance canonicalize_def)

lemma dm_team_income_text_first:
  "advance_lit 33 True dm_team_income_text (all_positions dm_team_income_text) = []"
  "advance_lit 35 True dm_team_income_text (all_positions dm_team_income_text) = []"
  "advance_lit 36 True dm_team_income_text (all_positions dm_team_income_text) = [46]"
  "advance_lit 37 True dm_team_income_text (all_positions dm_team_income_text) = []"
  "advance_lit 38 True dm_team_income_text (all_positions dm_team_income_text) = []"
  "advance_lit 39 True dm_team_income_text (all_positions dm_team_income_text) = []"
  "advance_lit 40 True dm_team_income_text (all_positions dm_team_income_text) = []"
  "advance_lit 41 True dm_team_income_text (all_positions dm_team_income_text) = []"
  "advance_lit 43 True dm_team_income_text (all_positions dm_team_income_text) = []"
  "advance_lit 44 True dm_team_income_text (all_positions dm_team_income_text) = []"
  "advance_lit 45 True dm_team_income_text (all_positions dm_team_income_text) = []"
  "advance_lit 46 True dm_team_income_text (all_positions dm_team_income_text) = [37]"
  "advance_lit 47 True dm_team_income_text (all_positions dm_team_income_text) = []"
  "advance_lit 48 True dm_team_income_text (all_positions dm_team_income_text) = [48, 49, 50]"
  "advance_lit 49 True dm_team_income_text (all_positions dm_team_income_text) = []"
  "advance_lit 52 True dm_team_income_text (all_positions dm_team_income_text) = []"
  "advance_lit 58 True dm_team_income_text (all_positions dm_team_income_text) = []"
  "advance_lit 63 True dm_team_income_text (all_positions dm_team_income_text) = []"
  "advance_lit 64 True dm_team_income_text (all_positions dm_team_income_text) = []"
  "advance_lit 65 True dm_team_income_text (all_positions dm_team_income_text) = [21, 35, 42, 53]"
  "advance_lit 66 True dm_team_income_text (all_positions dm_team_income_text) = []"
  "advance_lit 67 True dm_team_income_text (all_positions dm_team_income_text) = []"
  "advance_lit 68 True dm_team_income_text (all_positions dm_team_income_text) = [Suc 0, 23, 43]"
  "advance_lit 69 True dm_team_income_text (all_positions dm_team_income_text) = [5, 14, 34, 44, 58, 59]"
  "advance_lit 70 True dm_team_income_text (all_positions dm_team_income_text) = [7, 18]"
  "advance_lit 71 True dm_team_income_text (all_positions dm_team_income_text) = []"
  "advance_lit 72 True dm_team_income_text (all_positions dm_team_income_text) = []"
  "advance_lit 73 True dm_team_income_text (all_positions dm_team_income_text) = [16, 27, 39]"
  "advance_lit 74 True dm_team_income_text (all_positions dm_team_income_text) = [25]"
  "advance_lit 75 True dm_team_income_text (all_positions dm_team_income_text) = [60]"
  "advance_lit 76 True dm_team_income_text (all_positions dm_team_income_text) = [52]"
  "advance_lit 77 True dm_team_income_text (all_positions dm_team_income_text) = [2, 4, 11, 30, 36, 41]"
  "advance_lit 78 True dm_team_income_text (all_positions dm_team_income_text) = [17, 22, 28]"
  "advance_lit 79 True dm_team_income_text (all_positions dm_team_income_text) = [8, 12, 19, 26]"
  "advance_lit 80 True dm_team_income_text (all_positions dm_team_income_text) = []"
  "advance_lit 81 True dm_team_income_text (all_positions dm_team_income_text) = []"
  "advance_lit 82 True dm_team_income_text (all_positions dm_team_income_text) = [9, 13]"
  "advance_lit 83 True dm_team_income_text (all_positions dm_team_income_text) = [54]"
  "advance_lit 84 True dm_team_income_text (all_positions dm_team_income_text) = [33, 55]"
  "advance_lit 85 True dm_team_income_text (all_positions dm_team_income_text) = []"
  "advance_lit 86 True dm_team_income_text (all_positions dm_team_income_text) = []"
  "advance_lit 87 True dm_team_income_text (all_positions dm_team_income_text) = [57]"
  "advance_lit 88 True dm_team_income_text (all_positions dm_team_income_text) = []"
  "advance_lit 89 True dm_team_income_text (all_positions dm_team_income_text) = [31]"
  "advance_lit 90 True dm_team_income_text (all_positions dm_team_income_text) = []"
  by (simp_all add: dm_team_income_text_positions dm_team_income_text_advance_lit advance_lit_Nil)

lemma dm_team_income_text_boundaries: "filter (at_boundary dm_team_income_text) (all_positions dm_team_income_text) = [0, 2, 3, 5, 6, 9, 10, 14, 15, 19, 20, 23, 24, 28, 29, 31, 32, 36, 38, 39, 40, 44, 46, 50, 51, 55, 56, 60]"
  by (simp add: dm_team_income_text_positions at_boundary_def word_at_def dm_team_income_text_at is_word_def is_digit_def)

lemmas dm_team_income_text_eval = dm_team_income_text_length dm_team_income_text_all dm_team_income_text_advance dm_team_income_text_advance_lit dm_team_income_text_first dm_team_income_text_boundaries

lemma dm_team_income_text_hits_94_117:
  "map pattern_finding (pattern_hits (Some ''facebook'') dm_team_income_text SCAM_PATTERNS_94_117)
   = []"
  by (simp add: pattern_hits_def SCAM_PATTERNS_94_117_def platform_allows_def pattern_finding_def test_def
      rx_eval dm_team_income_text_eval)

lemma dm_team_income_text_hits_118_147:
  "map pattern_finding (pattern_hits (Some ''facebook'') dm_team_income_text SCAM_PATTERNS_118_147)
   = [\<lparr>severity = Some ''medium'', category = Some ''Income Claim'', message = None, detail = None\<rparr>]"
  by (simp add: pattern_hits_def SCAM_PATTERNS_118_147_def platform_allows_def pattern_finding_def test_def
      rx_eval dm_team_income_text_eval)

lemma dm_team_income_text_hits_148_173:
  "map pattern_finding (pattern_hits (Some ''facebook'') dm_team_income_text SCAM_PATTERNS_148_173)
   = [\<lparr>severity = Some ''low'', category = Some ''MLM/Pyramid'', message = None, detail = None\<rparr>]"
  by (simp add: pattern_hits_def SCAM_PATTERNS_148_173_def platform_allows_def pattern_finding_def test_def
      rx_eval dm_team_income_text_eval)

lemma dm_team_income_text_hits_174_199:
  "map pattern_finding (pattern_hits (Some ''facebook'') dm_team_income_text SCAM_PATTERNS_174_199)
   = []"
  by (simp add: pattern_hits_def SCAM_PATTERNS_174_199_def platform_allows_def pattern_finding_def test_def
      rx_eval dm_team_income_text_eval)

lemma dm_team_income_text_hits_200_223:
  "map pattern_finding (pattern_hits (Some ''facebook'') dm_team_income_text SCAM_PATTERNS_200_223)
   = []"
  by (simp add: pattern_hits_def SCAM_PATTERNS_200_223_def platform_allows_def pattern_finding_def test_def
      rx_eval dm_team_income_text_eval)

lemma dm_team_income_text_hits_224_251:
  "map pattern_finding (pattern_hits (Some ''facebook'') dm_team_income_text SCAM_PATTERNS_224_251)
   = []"
  by (simp add: pattern_hits_def SCAM_PATTERNS_224_251_def platform_allows_def pattern_finding_def test_def
      rx_eval dm_team_income_text_eval)

lemma dm_team_income_text_hits_252_279:
  "map pattern_finding (pattern_hits (Some ''facebook'') dm_team_income_text SCAM_PATTERNS_252_279)
   = []"
  by (simp add: pattern_hits_def SCAM_PATTERNS_252_279_def platform_allows_def pattern_finding_def test_def
      rx_eval dm_team_income_text_eval)

lemma dm_team_income_text_hits_282_307:
  "map pattern_finding (pattern_hits (Some ''facebook'') dm_team_income_text SCAM_PATTERNS_282_307)
   = []"
  by (simp add: pattern_hits_def SCAM_PATTERNS_282_307_def platform_allows_def pattern_finding_def test_def
      rx_eval dm_team_income_text_eval)

lemma dm_team_income_text_hits_308_337:
  "map pattern_finding (pattern_hits (Some ''facebook'') dm_team_income_text SCAM_PATTERNS_308_337)
   = []"
  by (simp add: pattern_hits_def SCAM_PATTERNS_308_337_def platform_allows_def pattern_finding_def test_def
      rx_eval dm_team_income_text_eval)

lemma dm_team_income_text_hits_338_363:
  "map pattern_finding (pattern_hits (Some ''facebook'') dm_team_income_text SCAM_PATTERNS_338_363)
   = []"
  by (simp add: pattern_hits_def SCAM_PATTERNS_338_363_def platform_allows_def pattern_finding_def test_def
      rx_eval dm_team_income_text_eval)

lemma dm_team_income_text_hits_366_395:
  "map pattern_finding (pattern_hits (Some ''facebook'') dm_team_income_text SCAM_PATTERNS_366_395)
   = []"
  by (simp add: pattern_hits_def SCAM_PATTERNS_366_395_def platform_allows_def pattern_finding_def test_def
      rx_eval dm_team_income_text_eval)

lemma dm_team_income_text_hits_396_427:
  "map pattern_finding (pattern_hits (Some ''facebook'') dm_team_income_text SCAM_PATTERNS_396_427)
   = []"
  by (simp add: pattern_hits_def SCAM_PATTERNS_396_427_def platform_allows_def pattern_finding_def test_def
      rx_eval dm_team_income_text_eval)

lemma dm_team_income_text_hits_428_453:
  "map pattern_finding (pattern_hits (Some ''facebook'') dm_team_income_text SCAM_PATTERNS_428_453)
   = []"
  by (simp add: pattern_hits_def SCAM_PATTERNS_428_453_def platform_allows_def pattern_finding_def test_def
      rx_eval dm_team_income_text_eval)

lemma dm_team_income_text_hits_454_481:
  "map pattern_finding (pattern_hits (Some ''facebook'') dm_team_income_text SCAM_PATTERNS_454_481)
   = []"
  by (simp add: pattern_hits_def SCAM_PATTERNS_454_481_def platform_allows_def pattern_finding_def test_def
      rx_eval dm_team_income_text_eval)

lemma dm_team_income_text_hits_484_507:
  "map pattern_finding (pattern_hits (Some ''facebook'') dm_team_income_text SCAM_PATTERNS_484_507)
   = []"
  by (simp add: pattern_hits_def SCAM_PATTERNS_484_507_def platform_allows_def pattern_finding_def test_def
      rx_eval dm_team_income_text_eval)

lemma dm_team_income_text_trim: "trim dm_team_income_text = dm_team_income_text"
  by (simp add: trim_def dm_team_income_text_units is_space_def)

lemma dm_team_income_text_normalize: "normalize dm_team_income_text = dm_team_income_text"
  by (simp add: normalize_def dm_team_income_text_units INVISIBLE_RE_def replace_homoglyph_def HOMOGLYPH_RE_def)

lemma dm_team_income_text_patterns:
  "checkPatterns (Some ''facebook'') dm_team_income_text
   = [\<lparr>severity = Some ''medium'', category = Some ''Income Claim'', message = None, detail = None\<rparr>,
      \<lparr>severity = Some ''low'', category = Some ''MLM/Pyramid'', message = None, detail = None\<rparr>]"
  by (simp add: checkPatterns_def dm_team_income_text_normalize SCAM_PATTERNS_def pattern_hits_append
      dm_team_income_text_hits_94_117
      dm_team_income_text_hits_118_147
      dm_team_income_text_hits_148_173
      dm_team_income_text_hits_174_199
      dm_team_income_text_hits_200_223
      dm_team_income_text_hits_224_251
      dm_team_income_text_hits_252_279
      dm_team_income_text_hits_282_307
      dm_team_income_text_hits_308_337
      dm_team_income_text_hits_338_363
      dm_team_income_text_hits_366_395
      dm_team_income_text_hits_396_427
      dm_team_income_text_hits_428_453
      dm_team_income_text_hits_454_481
      dm_team_income_text_hits_484_507)

lemma dm_team_income_text_counts:
  "count_in money_emojis dm_team_income_text = 0"
  "count_in hype_emojis dm_team_income_text = 0"
  "count_in alert_emojis dm_team_income_text = 0"
  by (simp_all add: count_in_def dm_team_income_text_units money_emojis_def hype_emojis_def alert_emojis_def)

lemma dm_team_income_text_emoji: "checkEmojiPatterns dm_team_income_text = []"
  by (simp add: checkEmojiPatterns_def dm_team_income_text_counts)

lemma dm_team_income_text_no_phone: "\<not> test False phonePattern dm_team_income_text"
  by (simp add: test_def phonePattern_def rx_eval dm_team_income_text_eval)

lemma dm_team_income_text_no_email: "\<not> test False emailPattern dm_team_income_text"
  by (simp add: test_def emailPattern_def rx_eval dm_team_income_text_eval)

lemma dm_team_income_text_no_whatsapp: "\<not> test True whatsapp_number dm_team_income_text"
  by (simp add: test_def whatsapp_number_def rx_eval dm_team_income_text_eval)

lemma dm_team_income_text_contact: "checkContactSolicitation dm_team_income_text = []"
  by (simp add: checkContactSolicitation_def dm_team_income_text_no_phone dm_team_income_text_no_email dm_team_income_text_no_whatsapp)

section \<open>The post scanner on a DM and team-recruiting post\<close>

lemma checkCombinations_few:
  assumes "2 \<le> length fs"
    and "filter (\<lambda>rule. list_all (\<lambda>cat. Some cat \<in> set (map category fs)) (require rule))
           COMBO_RULES = rules"
    and "uniqueLowCategories (fs @ map combo_finding rules) < 3"
  shows "checkCombinations fs = fs @ map combo_finding rules"
  using assms unfolding checkCombinations_def Let_def by simp

lemma checkCombinations_dm_mlm:
  "checkCombinations [dm_finding, mlm_finding] = [dm_finding, mlm_finding]"
proof -
  have "checkCombinations [dm_finding, mlm_finding]
        = [dm_finding, mlm_finding] @ map combo_finding []"
  proof (rule checkCombinations_few)
    show "2 \<le> length [dm_finding, mlm_finding]"
      by simp
    show "filter (\<lambda>rule. list_all (\<lambda>cat. Some cat \<in> set (map category [dm_finding, mlm_finding]))
                    (require rule)) COMBO_RULES = []"
      by (simp add: COMBO_RULES_def dm_finding_def mlm_finding_def)
    show "uniqueLowCategories ([dm_finding, mlm_finding] @ map combo_finding []) < 3"
      by (simp add: uniqueLowCategories_def insertion_order_def dm_finding_def mlm_finding_def)
  qed
  then show ?thesis
    by simp
qed

lemma checkCombinations_income_mlm:
  "checkCombinations [income_finding, mlm_finding]
   = [income_finding, mlm_finding,
      social_finding_of ''high'' ''Pattern Combination''
        ''Combined signals: MLM + Income Claims'']"
proof -
  have "checkCombinations [income_finding, mlm_finding]
        = [income_finding, mlm_finding]
          @ map combo_finding
              [\<lparr>require = [''MLM/Pyramid'', ''Income Claim''], escalate = ''high'',
                label = ''MLM + Income Claims''\<rparr>]"
  proof (rule checkCombinations_few)
    show "2 \<le> length [income_finding, mlm_finding]"
      by simp
    show "filter (\<lambda>rule. list_all (\<lambda>cat. Some cat \<in> set (map category [income_finding, mlm_finding]))
                    (require rule)) COMBO_RULES
          = [\<lparr>require = [''MLM/Pyramid'', ''Income Claim''], escalate = ''high'',
               label = ''MLM + Income Claims''\<rparr>]"
      by (simp add: COMBO_RULES_def income_finding_def mlm_finding_def)
    show "uniqueLowCategories
            ([income_finding, mlm_finding]
             @ map combo_finding
                 [\<lparr>require = [''MLM/Pyramid'', ''Income Claim''], escalate = ''high'',
                   label = ''MLM + Income Claims''\<rparr>]) < 3"
      by (simp add: uniqueLowCategories_def insertion_order_def income_finding_def
          mlm_finding_def combo_finding_def social_finding_of_def)
  qed
  then show ?thesis
    by (simp add: combo_finding_def)
qed

lemma checkCombinations_income_mlm_dm:
  "checkCombinations [income_finding, mlm_finding, dm_finding]
   = [income_finding, mlm_finding, dm_finding,
      social_finding_of ''medium'' ''Pattern Combination''
        ''Combined signals: Income Pitch + DM Request'',
      social_finding_of ''high'' ''Pattern Combination''
        ''Combined signals: MLM + Income Claims'']"
proof -
  have "checkCombinations [income_finding, mlm_finding, dm_finding]
        = [income_finding, mlm_finding, dm_finding]
          @ map combo_finding
              [\<lparr>require = [''DM Solicitation'', ''Income Claim''], escalate = ''medium'',
                label = ''Income Pitch + DM Request''\<rparr>,
               \<lparr>require = [''MLM/Pyramid'', ''Income Claim''], escalate = ''high'',
                label = ''MLM + Income Claims''\<rparr>]"
  proof (rule checkCombinations_few)
    show "2 \<le> length [income_finding, mlm_finding, dm_finding]"
      by simp
    show "filter (\<lambda>rule. list_all (\<lambda>cat. Some cat
                      \<in> set (map category [income_finding, mlm_finding, dm_finding]))
                    (require rule)) COMBO_RULES
          = [\<lparr>require = [''DM Solicitation'', ''Income Claim''], escalate = ''medium'',
               label = ''Income Pitch + DM Request''\<rparr>,
             \<lparr>require = [''MLM/Pyramid'', ''Income Claim''], escalate = ''high'',
               label = ''MLM + Income Claims''\<rparr>]"
      by (simp add: COMBO_RULES_def income_finding_def mlm_finding_def dm_finding_def)
    show "uniqueLowCategories
            ([income_finding, mlm_finding, dm_finding]
             @ map combo_finding
                 [\<lparr>require = [''DM Solicitation'', ''Income Claim''], escalate = ''medium'',
                   label = ''Income Pitch + DM Request''\<rparr>,
                  \<lparr>require = [''MLM/Pyramid'', ''Income Claim''], escalate = ''high'',
                   label = ''MLM + Income Claims''\<rparr>]) < 3"
      by (simp add: uniqueLowCategories_def insertion_order_def income_finding_def
          mlm_finding_def dm_finding_def combo_finding_def social_finding_of_def)
  qed
  then show ?thesis
    by (simp add: combo_finding_def)
qed


text \<open>
  The entry of \<open>SCAM_PATTERNS\<close> of category \<open>DM Solicitation\<close> is
  \<open>dm\s+(me|for)\s+(more\s+)?(info|details|opportunity)\<close>; between \<open>dm\<close> and
  \<open>(more) info\<close> it admits one of \<open>me\<close> and \<open>for\<close>, not both.
\<close>

lemma dm_solicitation_rule:
  "ScamPattern
     (seq [str ''dm'', plus ws, alt [str ''me'', str ''for''], plus ws,
           opt (seq [str ''more'', plus ws]),
           alt [str ''info'', str ''details'', str ''opportunity'']])
     ''DM Solicitation'' ''low'' None \<in> set SCAM_PATTERNS_148_173"
  by (simp add: SCAM_PATTERNS_148_173_def)

lemma dm_solicitation_misses:
  "\<not> test True
       (seq [str ''dm'', plus ws, alt [str ''me'', str ''for''], plus ws,
             opt (seq [str ''more'', plus ws]),
             alt [str ''info'', str ''details'', str ''opportunity'']])
       (ascii ''DM me for more info'')
   \<and> test True
       (seq [str ''dm'', plus ws, alt [str ''me'', str ''for''], plus ws,
             opt (seq [str ''more'', plus ws]),
             alt [str ''info'', str ''details'', str ''opportunity'']])
       (ascii ''DM for more info'')"
  by (simp add: test_def all_positions_def ascii_def str.simps seq.simps alt.simps
      advance.simps code_unit_at_def upt_rec canonicalize_def is_space_def any_number.simps)

text \<open>
  C6 at the post \<open>DM me for more info and join my team\<close> on Facebook: the scan returns
  one finding, \<open>MLM/Pyramid\<close> of severity low; there is no \<open>DM Solicitation\<close> finding.
\<close>

theorem scanPost_dm_team:
  "scanPost facebook dm_team_post = Some [mlm_finding]"
  by (simp add: scanPost_def dm_team_post_def facebook_def Let_def dm_team_text_trim
      dm_team_text_length dm_team_text_patterns dm_team_text_emoji dm_team_text_contact
      checkCombinations_def mlm_finding_def)

text \<open>
  With \<open>I made $5000 last week\<close> added, the scan finds \<open>Income Claim\<close> and
  \<open>MLM/Pyramid\<close>, and the combination step appends the \<open>MLM + Income Claims\<close> finding of
  severity high.
\<close>

lemma scanPost_dm_team_income:
  "scanPost facebook dm_team_income_post
   = Some [income_finding, mlm_finding,
           social_finding_of ''high'' ''Pattern Combination''
             ''Combined signals: MLM + Income Claims'']"
proof -
  have "checkPatterns (Some ''facebook'') dm_team_income_text = [income_finding, mlm_finding]"
    by (simp add: dm_team_income_text_patterns income_finding_def mlm_finding_def)
  then show ?thesis
    by (simp add: scanPost_def dm_team_income_post_def facebook_def Let_def
        dm_team_income_text_trim dm_team_income_text_length dm_team_income_text_emoji
        dm_team_income_text_contact checkCombinations_income_mlm)
qed

end
